theory Spec2Isabelle
  imports Main "HOL-Library.AList"
begin

section \<open>Data model\<close>

text \<open>
  The repository holds three variants of one socket.io game server:
  \<^item> the base 6x7 server (\<^verbatim>\<open>src/unnamed/part_000\<close>), embedded under the source's own names;
  \<^item> the server with board size options (\<^verbatim>\<open>src/unnamed/part_001\<close>), suffix \<open>_sized\<close>;
  \<^item> the Ancient Empires server with nations (\<^verbatim>\<open>src/server.js\<close>), suffix \<open>_empires\<close>.

  Client data is untrusted JSON. Rows, columns and counters are modelled as \<open>int\<close>
  (JavaScript numbers that hold integers); piece types and nation keys as the closed
  enumerations of the keys the tables of the source define.
\<close>

datatype pieceType = General | Cavalry | HeavyInfantry | LightInfantry | Archer | HorseArcher

datatype nation = English | Mongols | Macedonians | Spartans

text \<open>The values the source assigns to \<^verbatim>\<open>gamePhase\<close>; no variant assigns any other string.\<close>

datatype gamePhase = Waiting | NationSelection | Placement | Battle

datatype msgType = Info | Error | Success | Victory

text \<open>The only exception the handlers can raise: a property read on \<^verbatim>\<open>null\<close>/\<^verbatim>\<open>undefined\<close>.\<close>

datatype error = TypeError

text \<open>A roster counter: \<^verbatim>\<open>undefined--\<close> yields \<^verbatim>\<open>NaN\<close>, which then stays.\<close>

datatype count = Num int | NaN

text \<open>
  A piece object. A property the source never set on the object reads \<^verbatim>\<open>undefined\<close>:
  \<open>None\<close> stands for \<^verbatim>\<open>undefined\<close> and \<^verbatim>\<open>null\<close> alike (the source only tests
  truthiness and \<^verbatim>\<open>> 0\<close> on them). \<open>placedInTurn\<close> and \<open>nation\<close> exist in the
  Ancient Empires variant only.
\<close>

record piece =
  ptype :: pieceType
  player :: int
  health :: int
  maxHealth :: int
  hasBeenReplenished :: bool
  ammo :: "int option"
  chargeDirection :: "(int \<times> int) option"
  placedInTurn :: "int option"
  nation :: "nation option"

text \<open>
  \<^verbatim>\<open>board[row][col]\<close>. The outer array has the rows created by \<^verbatim>\<open>initializeGameState\<close>
  and no code ever writes \<^verbatim>\<open>board[row]\<close> itself, so which rows exist is fixed; a row is a
  JavaScript array, that is an object with integer keys: a read outside its length is
  \<^verbatim>\<open>undefined\<close> and a write outside its length creates the property. Hence a row is a
  total function from column to \<open>piece option\<close>.
\<close>

type_synonym board = "int \<Rightarrow> int \<Rightarrow> piece option"

type_synonym roster = "pieceType \<Rightarrow> count option"

record gameState =
  currentPlayer :: int
  gamePhase :: gamePhase
  placementTurn :: int
  piecesPlacedThisTurn :: int
  hasMoved :: bool
  hasAttacked :: bool
  gameEnded :: bool
  winner :: "int option"
  board :: board
  player1Pieces :: roster
  player2Pieces :: roster
  lineOfSightEnabled :: bool
  limitedRangeEnabled :: bool
  selectedPiece :: "piece option"
  selectedCell :: "(int \<times> int) option"
  player1Nation :: "nation option"
  player2Nation :: "nation option"
  selectedPieceType :: "pieceType option"

text \<open>An entry of \<^verbatim>\<open>players\<close>; \<open>socketId\<close> is \<^verbatim>\<open>socket.id\<close>.\<close>

record seat =
  socketId :: string
  playerNumber :: int
  name :: string
  seatNation :: "nation option"

text \<open>What the server emits: room broadcasts and direct messages to one socket.\<close>

datatype event =
    GameStateUpdate
  | PlayerListUpdate
  | GameMessage string msgType
  | PlayerAssigned string int string
  | JoinedAsSpectator string
  | ErrorEvent string string

text \<open>
  A \<^verbatim>\<open>GameRoom\<close>. \<open>players\<close> is a JavaScript \<^verbatim>\<open>Map\<close> (insertion ordered, keys
  distinct): an association list. \<open>sent\<close> records, in order, everything the room has
  emitted; it is how the model makes the I/O of the handlers visible.
\<close>

record gameRoom =
  roomId :: string
  players :: "(string \<times> seat) list"
  gameState :: gameState
  spectators :: "string set"
  sent :: "event list"

section \<open>The base server\<close>

subsection \<open>Room\<close>

definition startingPieces :: roster where
  "startingPieces =
     [General \<mapsto> Num 1, Cavalry \<mapsto> Num 2, HeavyInfantry \<mapsto> Num 2,
      LightInfantry \<mapsto> Num 2, Archer \<mapsto> Num 1]"

definition initializeGameState :: gameState where
  "initializeGameState =
     \<lparr> currentPlayer = 1, gamePhase = Waiting, placementTurn = 1,
       piecesPlacedThisTurn = 0, hasMoved = False, hasAttacked = False,
       gameEnded = False, winner = None,
       board = (\<lambda>row col. None),
       player1Pieces = startingPieces, player2Pieces = startingPieces,
       lineOfSightEnabled = False, limitedRangeEnabled = False,
       selectedPiece = None, selectedCell = None,
       player1Nation = None, player2Nation = None, selectedPieceType = None \<rparr>"

definition newGameRoom :: "string \<Rightarrow> gameRoom" where
  "newGameRoom rid =
     \<lparr> roomId = rid, players = [], gameState = initializeGameState,
       spectators = {}, sent = [] \<rparr>"

definition emit :: "event \<Rightarrow> gameRoom \<Rightarrow> gameRoom" where
  "emit e r = r\<lparr>sent := sent r @ [e]\<rparr>"

definition broadcastGameState :: "gameRoom \<Rightarrow> gameRoom" where
  "broadcastGameState r = emit GameStateUpdate r"

definition broadcastPlayerList :: "gameRoom \<Rightarrow> gameRoom" where
  "broadcastPlayerList r = emit PlayerListUpdate r"

definition broadcastMessage :: "string \<Rightarrow> msgType \<Rightarrow> gameRoom \<Rightarrow> gameRoom" where
  "broadcastMessage message t r = emit (GameMessage message t) r"

fun digitsOf :: "nat \<Rightarrow> string" where
  "digitsOf n =
     (if n < 10 then [char_of (48 + n)]
      else digitsOf (n div 10) @ [char_of (48 + n mod 10)])"

declare digitsOf.simps [simp del]

text \<open>Template interpolation of an integer.\<close>

definition showInt :: "int \<Rightarrow> string" where
  "showInt i = (if i < 0 then CHR ''-'' # digitsOf (nat (- i)) else digitsOf (nat i))"

fun getPlayerNameLoop :: "(string \<times> seat) list \<Rightarrow> int \<Rightarrow> string" where
  "getPlayerNameLoop [] n = ''Player '' @ showInt n"
| "getPlayerNameLoop ((k, p) # ps) n =
     (if playerNumber p = n then name p else getPlayerNameLoop ps n)"

definition getPlayerName :: "gameRoom \<Rightarrow> int \<Rightarrow> string" where
  "getPlayerName r n = getPlayerNameLoop (players r) n"

definition getPlayerBySocketId :: "gameRoom \<Rightarrow> string \<Rightarrow> seat option" where
  "getPlayerBySocketId r sid = map_of (players r) sid"

definition isPlayerTurn :: "gameRoom \<Rightarrow> string \<Rightarrow> bool" where
  "isPlayerTurn r sid =
     (case getPlayerBySocketId r sid of
        None \<Rightarrow> False
      | Some p \<Rightarrow> playerNumber p = currentPlayer (gameState r))"

definition setPhase :: "gamePhase \<Rightarrow> gameRoom \<Rightarrow> gameRoom" where
  "setPhase ph r = r\<lparr>gameState := (gameState r)\<lparr>gamePhase := ph\<rparr>\<rparr>"

text \<open>\<^verbatim>\<open>addPlayer(socket, playerName)\<close>: the returned flag and the room after the call.\<close>

definition addPlayer :: "string \<Rightarrow> string \<Rightarrow> gameRoom \<Rightarrow> bool \<times> gameRoom" where
  "addPlayer sid playerName r =
     (if length (players r) \<ge> 2 then
        (False, broadcastGameState
                  (emit (JoinedAsSpectator sid) (r\<lparr>spectators := insert sid (spectators r)\<rparr>)))
      else
        let n = int (length (players r)) + 1;
            r1 = r\<lparr>players := AList.update sid
                    \<lparr>socketId = sid, playerNumber = n, name = playerName, seatNation = None\<rparr>
                    (players r)\<rparr>;
            r2 = emit (PlayerAssigned sid n playerName) r1;
            r3 = (if length (players r2) = 2 then
                    broadcastMessage
                      (''Game started! '' @ getPlayerName r2 1 @ '' goes first.'') Info
                      (setPhase Placement r2)
                  else r2)
        in (True, broadcastPlayerList (broadcastGameState r3)))"

text \<open>
  \<^verbatim>\<open>removePlayer(socketId)\<close>: the flag tells the disconnect handler to delete the room.
\<close>

definition removePlayer :: "string \<Rightarrow> gameRoom \<Rightarrow> bool \<times> gameRoom" where
  "removePlayer sid r =
     (case map_of (players r) sid of
        Some leaver \<Rightarrow>
          (let r1 = r\<lparr>players := AList.delete sid (players r)\<rparr> in
           if length (players r1) = 0 then (True, r1)
           else
             let r2 =
               (case players r1 of
                  [(k, remainingPlayer)] \<Rightarrow>
                    broadcastMessage (name leaver @ '' left. Waiting for another player...'') Info
                      ((emit (PlayerAssigned (socketId remainingPlayer) 1 (name remainingPlayer))
                         (r1\<lparr>players := AList.update (socketId remainingPlayer)
                                (remainingPlayer\<lparr>playerNumber := 1\<rparr>) (players r1)\<rparr>))
                       \<lparr>gameState := initializeGameState\<rparr>)
                | _ \<Rightarrow> r1)
             in (False, broadcastPlayerList (broadcastGameState r2)))
      | None \<Rightarrow>
          (if sid \<in> spectators r then (False, r\<lparr>spectators := spectators r - {sid}\<rparr>)
           else (False, r)))"

text \<open>
  The \<^verbatim>\<open>disconnect\<close> handler: \<^verbatim>\<open>gameRooms\<close> is a \<^verbatim>\<open>Map\<close> from room id to room; the loop
  calls \<^verbatim>\<open>removePlayer\<close> on every room and deletes the rooms that return \<^verbatim>\<open>true\<close>.
\<close>

fun disconnect :: "string \<Rightarrow> (string \<times> gameRoom) list \<Rightarrow> (string \<times> gameRoom) list" where
  "disconnect sid [] = []"
| "disconnect sid ((rid, gameRoom) # rest) =
     (let (shouldDeleteRoom, gameRoom') = removePlayer sid gameRoom in
      if shouldDeleteRoom then disconnect sid rest
      else (rid, gameRoom') # disconnect sid rest)"

text \<open>
  The \<^verbatim>\<open>joinRoom\<close> handler, without the transport's own room membership: a missing
  field is the empty string.
\<close>

definition joinRoom ::
  "string \<Rightarrow> string \<Rightarrow> string \<Rightarrow> (string \<times> gameRoom) list \<Rightarrow> (string \<times> gameRoom) list" where
  "joinRoom sid rid playerName gameRooms =
     (if rid = [] \<or> playerName = [] then gameRooms
      else
        let rooms1 = (if map_of gameRooms rid = None
                      then AList.update rid (newGameRoom rid) gameRooms else gameRooms)
        in (case map_of rooms1 rid of
              None \<Rightarrow> rooms1
            | Some gameRoom \<Rightarrow>
                AList.update rid (snd (addPlayer sid playerName gameRoom)) rooms1))"

subsection \<open>Board access\<close>

definition bindE :: "error + 'a \<Rightarrow> ('a \<Rightarrow> error + 'b) \<Rightarrow> error + 'b" where
  "bindE m f = (case m of Inl e \<Rightarrow> Inl e | Inr x \<Rightarrow> f x)"

text \<open>The base board is \<^verbatim>\<open>Array(7)\<close> of \<^verbatim>\<open>Array(6)\<close>: rows 0 to 6 exist.\<close>

definition rowExists :: "int \<Rightarrow> bool" where
  "rowExists row = (0 \<le> row \<and> row < 7)"

text \<open>
  Reading \<^verbatim>\<open>board[row][col]\<close>: \<^verbatim>\<open>board[row]\<close> is \<^verbatim>\<open>undefined\<close> for a row that does not
  exist and indexing it raises; any column of an existing row can be read.
\<close>

definition cellAt :: "board \<Rightarrow> int \<Rightarrow> int \<Rightarrow> error + piece option" where
  "cellAt b row col = (if rowExists row then Inr (b row col) else Inl TypeError)"

definition setCell :: "board \<Rightarrow> int \<Rightarrow> int \<Rightarrow> piece option \<Rightarrow> board" where
  "setCell b row col v = b(row := (b row)(col := v))"

text \<open>Writing \<^verbatim>\<open>board[row][col] = v\<close> raises in the same way on a missing row.\<close>

definition writeCell :: "board \<Rightarrow> int \<Rightarrow> int \<Rightarrow> piece option \<Rightarrow> error + board" where
  "writeCell b row col v = (if rowExists row then Inr (setCell b row col v) else Inl TypeError)"

definition withBoard :: "board \<Rightarrow> gameRoom \<Rightarrow> gameRoom" where
  "withBoard b r = r\<lparr>gameState := (gameState r)\<lparr>board := b\<rparr>\<rparr>"

definition clearSelection :: "gameRoom \<Rightarrow> gameRoom" where
  "clearSelection r = r\<lparr>gameState := (gameState r)\<lparr>selectedCell := None\<rparr>\<rparr>"

subsection \<open>Rule engine\<close>

text \<open>The string the source uses for a piece type.\<close>

fun typeName :: "pieceType \<Rightarrow> string" where
  "typeName General = ''General''"
| "typeName Cavalry = ''Cavalry''"
| "typeName HeavyInfantry = ''Heavy Infantry''"
| "typeName LightInfantry = ''Light Infantry''"
| "typeName Archer = ''Archer''"
| "typeName HorseArcher = ''Horse Archer''"

definition distance :: "int \<Rightarrow> int \<Rightarrow> int \<Rightarrow> int \<Rightarrow> int" where
  "distance fromRow fromCol toRow toCol = \<bar>fromRow - toRow\<bar> + \<bar>fromCol - toCol\<bar>"

definition canMove :: "piece \<Rightarrow> int \<Rightarrow> int \<Rightarrow> int \<Rightarrow> int \<Rightarrow> bool" where
  "canMove piece fromRow fromCol toRow toCol =
     (if ptype piece = Cavalry then
        (let rowDiff = \<bar>fromRow - toRow\<bar>; colDiff = \<bar>fromCol - toCol\<bar>
         in (rowDiff \<le> 2 \<and> colDiff = 0) \<or> (rowDiff = 0 \<and> colDiff \<le> 2))
      else distance fromRow fromCol toRow toCol = 1)"

text \<open>The loops of \<^verbatim>\<open>hasLineOfSight\<close>, from the current index up to the end index.\<close>

function losAlongRow :: "board \<Rightarrow> int \<Rightarrow> int \<Rightarrow> int \<Rightarrow> error + bool" where
  "losAlongRow b fromRow col endCol =
     (if col < endCol then
        (case cellAt b fromRow col of
           Inl e \<Rightarrow> Inl e
         | Inr (Some p) \<Rightarrow> Inr False
         | Inr None \<Rightarrow> losAlongRow b fromRow (col + 1) endCol)
      else Inr True)"
  by pat_completeness auto
termination
  by (relation "measure (\<lambda>(b, fromRow, col, endCol). nat (endCol - col))") auto

function losAlongCol :: "board \<Rightarrow> int \<Rightarrow> int \<Rightarrow> int \<Rightarrow> error + bool" where
  "losAlongCol b fromCol row endRow =
     (if row < endRow then
        (case cellAt b row fromCol of
           Inl e \<Rightarrow> Inl e
         | Inr (Some p) \<Rightarrow> Inr False
         | Inr None \<Rightarrow> losAlongCol b fromCol (row + 1) endRow)
      else Inr True)"
  by pat_completeness auto
termination
  by (relation "measure (\<lambda>(b, fromCol, row, endRow). nat (endRow - row))") auto

declare losAlongRow.simps [simp del] losAlongCol.simps [simp del]

definition hasLineOfSight :: "int \<Rightarrow> int \<Rightarrow> int \<Rightarrow> int \<Rightarrow> board \<Rightarrow> error + bool" where
  "hasLineOfSight fromRow fromCol toRow toCol b =
     (if fromRow = toRow then
        losAlongRow b fromRow (min fromCol toCol + 1) (max fromCol toCol)
      else if fromCol = toCol then
        losAlongCol b fromCol (min fromRow toRow + 1) (max fromRow toRow)
      else Inr True)"

text \<open>\<^verbatim>\<open>piece.ammo > 0\<close>; the comparison is false on \<^verbatim>\<open>undefined\<close>.\<close>

definition ammoPositive :: "piece \<Rightarrow> bool" where
  "ammoPositive piece = (case ammo piece of None \<Rightarrow> False | Some a \<Rightarrow> a > 0)"

definition canAttack ::
  "piece \<Rightarrow> int \<Rightarrow> int \<Rightarrow> int \<Rightarrow> int \<Rightarrow> gameState \<Rightarrow> error + bool" where
  "canAttack piece fromRow fromCol toRow toCol gs =
     bindE (cellAt (board gs) toRow toCol) (\<lambda>target.
       case target of
         None \<Rightarrow> Inr False
       | Some t \<Rightarrow>
           if player t = player piece then Inr False
           else if ptype piece = Archer then
             (if distance fromRow fromCol toRow toCol = 1 then Inr True
              else if ammoPositive piece \<and> (fromRow = toRow \<or> fromCol = toCol) then
                (if limitedRangeEnabled gs \<and> distance fromRow fromCol toRow toCol > 4
                 then Inr False
                 else if lineOfSightEnabled gs then
                   bindE (hasLineOfSight fromRow fromCol toRow toCol (board gs))
                     (\<lambda>los. if \<not> los then Inr False else Inr True)
                 else Inr True)
              else Inr False)
           else Inr (distance fromRow fromCol toRow toCol = 1))"

text \<open>
  \<^verbatim>\<open>checkForHealing(gameRoom, piece, row)\<close> mutates the piece object it is given: the
  model returns the piece after the call together with the room.
\<close>

definition checkForHealing :: "gameRoom \<Rightarrow> piece \<Rightarrow> int \<Rightarrow> piece \<times> gameRoom" where
  "checkForHealing r piece row =
     (let shouldHeal = (player piece = 1 \<and> row = 6) \<or> (player piece = 2 \<and> row = 0) in
      if shouldHeal \<and> \<not> hasBeenReplenished piece then
        (let p1 = piece\<lparr>health := maxHealth piece, hasBeenReplenished := True\<rparr>;
             p2 = (if ptype piece = Archer then p1\<lparr>ammo := Some 3\<rparr> else p1)
         in (p2, broadcastMessage
                   (getPlayerName r (player piece) @ [CHR 0x27] @ ''s '' @ typeName (ptype piece)
                      @ '' has been replenished!'') Success r))
      else (piece, r))"

text \<open>The sign a charge direction component is normalised to.\<close>

definition unitStep :: "int \<Rightarrow> int" where
  "unitStep d = (if d \<noteq> 0 then (if d > 0 then 1 else - 1) else d)"

text \<open>
  \<^verbatim>\<open>movePiece\<close>. The piece object is written to the destination, the source cell is
  nulled, and \<^verbatim>\<open>checkForHealing\<close> then mutates the object: the healed piece is visible on
  the board where the object still is, that is at the destination unless the
  destination is the source cell just nulled.
\<close>

definition movePiece :: "int \<Rightarrow> int \<Rightarrow> int \<Rightarrow> int \<Rightarrow> gameRoom \<Rightarrow> error + gameRoom" where
  "movePiece fromRow fromCol toRow toCol r =
     bindE (cellAt (board (gameState r)) fromRow fromCol) (\<lambda>source.
       case source of
         None \<Rightarrow> Inl TypeError
       | Some piece \<Rightarrow>
           let piece1 =
             (if ptype piece = Cavalry then
                (if distance fromRow fromCol toRow toCol = 2 then
                   piece\<lparr>chargeDirection :=
                     Some (unitStep (toRow - fromRow), unitStep (toCol - fromCol))\<rparr>
                 else piece\<lparr>chargeDirection := None\<rparr>)
              else piece)
           in
           bindE (writeCell (board (gameState r)) toRow toCol (Some piece1)) (\<lambda>b1.
           bindE (writeCell b1 fromRow fromCol None) (\<lambda>b2.
             let (piece2, r1) = checkForHealing (withBoard b2 r) piece1 toRow in
             Inr (if toRow = fromRow \<and> toCol = fromCol then r1
                  else withBoard (setCell (board (gameState r1)) toRow toCol (Some piece2)) r1))))"

text \<open>\<^verbatim>\<open>attacker.ammo--\<close>.\<close>

definition decrAmmo :: "piece \<Rightarrow> piece" where
  "decrAmmo p = p\<lparr>ammo := map_option (\<lambda>a. a - 1) (ammo p)\<rparr>"

text \<open>
  \<^verbatim>\<open>attackPiece\<close>. \<open>attacker\<close> and \<open>target\<close> are references to the objects in the two
  cells: the writes to them are writes to the board, in the source's order.
\<close>

definition attackPiece :: "int \<Rightarrow> int \<Rightarrow> int \<Rightarrow> int \<Rightarrow> gameRoom \<Rightarrow> error + gameRoom" where
  "attackPiece attackerRow attackerCol targetRow targetCol r =
     (if gameEnded (gameState r) then Inr r
      else
        bindE (cellAt (board (gameState r)) attackerRow attackerCol) (\<lambda>attackerCell.
        bindE (cellAt (board (gameState r)) targetRow targetCol) (\<lambda>targetCell.
          case targetCell of
            None \<Rightarrow> Inr r
          | Some target \<Rightarrow>
             (case attackerCell of
                None \<Rightarrow> Inl TypeError
              | Some attacker \<Rightarrow>
                  let dist = distance attackerRow attackerCol targetRow targetCol;
                      charged =
                        (ptype attacker = Cavalry \<and> chargeDirection attacker \<noteq> None
                         \<and> dist = 1 \<and> ptype target \<noteq> HeavyInfantry
                         \<and> chargeDirection attacker
                             = Some (targetRow - attackerRow, targetCol - attackerCol));
                      damage = (if charged then 2 else 1);
                      r1 = (if charged
                            then broadcastMessage ''Cavalry charge! Double damage!'' Success r
                            else r);
                      sameCell = (attackerRow = targetRow \<and> attackerCol = targetCol);
                      attacker1 = (if ptype attacker = Archer \<and> dist > 1
                                   then decrAmmo attacker else attacker);
                      b1 = setCell (board (gameState r1)) attackerRow attackerCol (Some attacker1);
                      wasGeneral = (ptype target = General);
                      target0 = (if sameCell then attacker1 else target);
                      target1 = target0\<lparr>health := health target0 - damage\<rparr>;
                      b2 = setCell b1 targetRow targetCol (Some target1)
                  in
                  if health target1 \<le> 0 then
                    (let r2 = withBoard (setCell b2 targetRow targetCol None) r1 in
                     if wasGeneral then
                       Inr (broadcastMessage
                              (getPlayerName r2 (player attacker) @ '' wins! Enemy General defeated!'')
                              Victory
                              (r2\<lparr>gameState := (gameState r2)
                                    \<lparr>gameEnded := True, winner := Some (player attacker)\<rparr>\<rparr>))
                     else Inr r2)
                  else Inr (withBoard b2 r1)))))"

subsection \<open>Intent handlers\<close>

text \<open>The hard-coded table \<^verbatim>\<open>pieceTypes\<close> of \<^verbatim>\<open>handlePlacePiece\<close>: health and ammo.\<close>

fun pieceTypes :: "pieceType \<Rightarrow> (int \<times> int option) option" where
  "pieceTypes General = Some (3, None)"
| "pieceTypes Cavalry = Some (2, None)"
| "pieceTypes HeavyInfantry = Some (3, None)"
| "pieceTypes LightInfantry = Some (2, None)"
| "pieceTypes Archer = Some (2, Some 3)"
| "pieceTypes HorseArcher = None"

text \<open>\<^verbatim>\<open>pieces[pieceType]--\<close>.\<close>

definition decrCount :: "roster \<Rightarrow> pieceType \<Rightarrow> roster" where
  "decrCount pieces t =
     pieces(t \<mapsto> (case pieces t of Some (Num n) \<Rightarrow> Num (n - 1) | _ \<Rightarrow> NaN))"

definition handlePlacePiece ::
  "seat \<Rightarrow> pieceType \<Rightarrow> int \<Rightarrow> int \<Rightarrow> gameRoom \<Rightarrow> error + gameRoom" where
  "handlePlacePiece seat pieceType row col r =
     (let gs = gameState r in
      if \<not> isPlayerTurn r (socketId seat) \<or> gamePhase gs \<noteq> Placement then Inr r
      else if piecesPlacedThisTurn gs \<ge> 4 then
        Inr (broadcastMessage ''You can only place 4 pieces per turn!'' Error r)
      else
        bindE (cellAt (board gs) row col) (\<lambda>occupant.
          if occupant \<noteq> None then
            Inr (broadcastMessage ''Cell is already occupied!'' Error r)
          else
            let canPlaceInRow = (if playerNumber seat = 1 then row \<le> 2 else row \<ge> 4) in
            if \<not> canPlaceInRow then
              Inr (broadcastMessage
                     (''Player '' @ showInt (playerNumber seat) @ '' can only place pieces in ''
                        @ (if playerNumber seat = 1 then ''top 3'' else ''bottom 3'') @ '' rows!'')
                     Error r)
            else
              let pieces = (if playerNumber seat = 1 then player1Pieces gs else player2Pieces gs) in
              if pieces pieceType = Some (Num 0) then
                Inr (broadcastMessage ''No more pieces of this type available!'' Error r)
              else
                (case pieceTypes pieceType of
                   None \<Rightarrow> Inl TypeError
                 | Some (h, a) \<Rightarrow>
                     let pieceData =
                           \<lparr> ptype = pieceType, player = playerNumber seat, health = h,
                             maxHealth = h, hasBeenReplenished = False,
                             ammo = (if pieceType = Archer then a else None),
                             chargeDirection = None, placedInTurn = None, nation = None \<rparr>;
                         gs1 = gs\<lparr>board := setCell (board gs) row col (Some pieceData)\<rparr>;
                         gs2 = (if playerNumber seat = 1
                                then gs1\<lparr>player1Pieces := decrCount pieces pieceType\<rparr>
                                else gs1\<lparr>player2Pieces := decrCount pieces pieceType\<rparr>);
                         gs3 = gs2\<lparr>piecesPlacedThisTurn := piecesPlacedThisTurn gs2 + 1\<rparr>
                     in Inr (broadcastGameState (r\<lparr>gameState := gs3\<rparr>)))))"

definition setHasMoved :: "gameRoom \<Rightarrow> gameRoom" where
  "setHasMoved r = r\<lparr>gameState := (gameState r)\<lparr>hasMoved := True\<rparr>\<rparr>"

definition setHasAttacked :: "gameRoom \<Rightarrow> gameRoom" where
  "setHasAttacked r = r\<lparr>gameState := (gameState r)\<lparr>hasAttacked := True\<rparr>\<rparr>"

definition handleSelectCell :: "seat \<Rightarrow> int \<Rightarrow> int \<Rightarrow> gameRoom \<Rightarrow> error + gameRoom" where
  "handleSelectCell seat row col r =
     (let gs = gameState r in
      if gamePhase gs \<noteq> Battle \<or> \<not> isPlayerTurn r (socketId seat) then Inr r
      else
        (case selectedCell gs of
           None \<Rightarrow>
             bindE (cellAt (board gs) row col) (\<lambda>cell.
               case cell of
                 None \<Rightarrow> Inr r
               | Some piece \<Rightarrow>
                   if player piece = playerNumber seat then
                     Inr (broadcastGameState (r\<lparr>gameState := gs\<lparr>selectedCell := Some (row, col)\<rparr>\<rparr>))
                   else Inr r)
         | Some (selRow, selCol) \<Rightarrow>
             bindE (cellAt (board gs) selRow selCol) (\<lambda>selected.
             bindE (cellAt (board gs) row col) (\<lambda>targetPiece.
               if selRow = row \<and> selCol = col then
                 Inr (broadcastGameState (clearSelection r))
               else
                 (case selected of
                    None \<Rightarrow> Inl TypeError
                  | Some selPiece \<Rightarrow>
                      if targetPiece = None \<and> canMove selPiece selRow selCol row col then
                        bindE
                          (if \<not> hasMoved gs then
                             bindE (movePiece selRow selCol row col r) (\<lambda>r1.
                               Inr (broadcastMessage
                                      ''Move completed! You can now attack with any piece.'' Success
                                      (setHasMoved r1)))
                           else Inr (broadcastMessage ''You can only move once per turn!'' Error r))
                          (\<lambda>r2. Inr (broadcastGameState (clearSelection r2)))
                      else
                        (case targetPiece of
                           None \<Rightarrow>
                             Inr (broadcastGameState (clearSelection
                                    (broadcastMessage ''Invalid move or attack!'' Error r)))
                         | Some t \<Rightarrow>
                             if player t \<noteq> player selPiece then
                               bindE (canAttack selPiece selRow selCol row col gs) (\<lambda>ok.
                                 if ok then
                                   (if \<not> hasMoved gs then
                                      Inr (broadcastGameState (clearSelection
                                             (broadcastMessage
                                                ''You must MOVE first before attacking!'' Error r)))
                                    else
                                      bindE
                                        (if \<not> hasAttacked gs then
                                           bindE (attackPiece selRow selCol row col r) (\<lambda>r1.
                                             Inr (setHasAttacked r1))
                                         else Inr (broadcastMessage
                                                     ''You can only attack once per turn!'' Error r))
                                        (\<lambda>r2. Inr (broadcastGameState (clearSelection r2))))
                                 else
                                   Inr (broadcastGameState (clearSelection
                                          (broadcastMessage ''Invalid move or attack!'' Error r))))
                             else
                               Inr (broadcastGameState (clearSelection
                                      (broadcastMessage ''Invalid move or attack!'' Error r)))))))))"

text \<open>
  The loop of \<^verbatim>\<open>handleEndTurn\<close> that clears the charge directions: rows 0 to 6, and in
  each row columns 0 to 5.
\<close>

definition clearChargeAt :: "board \<Rightarrow> int \<times> int \<Rightarrow> board" where
  "clearChargeAt b rc =
     (case rc of (row, col) \<Rightarrow>
        (case b row col of
           None \<Rightarrow> b
         | Some p \<Rightarrow>
             if ptype p = Cavalry then setCell b row col (Some (p\<lparr>chargeDirection := None\<rparr>))
             else b))"

definition clearCavalryCharges :: "board \<Rightarrow> board" where
  "clearCavalryCharges b = foldl clearChargeAt b (List.product [0..6] [0..5])"

definition handleEndTurn :: "seat \<Rightarrow> gameRoom \<Rightarrow> gameRoom" where
  "handleEndTurn seat r =
     (let gs = gameState r in
      if \<not> isPlayerTurn r (socketId seat) then r
      else if gamePhase gs = Placement \<and> piecesPlacedThisTurn gs \<noteq> 4 then
        broadcastMessage ''You must place exactly 4 pieces before ending your turn!'' Error r
      else
        let gs1 = gs\<lparr>selectedPiece := None, selectedCell := None,
                     hasMoved := False, hasAttacked := False\<rparr>;
            gs2 = gs1\<lparr>board := clearCavalryCharges (board gs1)\<rparr>
        in
        broadcastGameState
          (if gamePhase gs2 = Placement then
             (let gs3 = gs2\<lparr>piecesPlacedThisTurn := 0\<rparr> in
              if currentPlayer gs3 = 1 then r\<lparr>gameState := gs3\<lparr>currentPlayer := 2\<rparr>\<rparr>
              else
                let gs4 = gs3\<lparr>currentPlayer := 1, placementTurn := placementTurn gs3 + 1\<rparr> in
                if placementTurn gs4 > 2 then
                  broadcastMessage ''Battle Phase begins! Remember: Move first, then attack!'' Info
                    (r\<lparr>gameState := gs4\<lparr>gamePhase := Battle\<rparr>\<rparr>)
                else r\<lparr>gameState := gs4\<rparr>)
           else
             r\<lparr>gameState := gs2\<lparr>currentPlayer := (if currentPlayer gs2 = 1 then 2 else 1)\<rparr>\<rparr>))"

text \<open>
  \<^verbatim>\<open>handleToggleOption\<close>; the function has the same text in the base server and in the
  server with board size options.
\<close>

definition handleToggleOption :: "seat \<Rightarrow> string \<Rightarrow> gameRoom \<Rightarrow> gameRoom" where
  "handleToggleOption seat opt r =
     (let gs = gameState r in
      if gamePhase gs \<noteq> Placement \<and> gamePhase gs \<noteq> Waiting then r
      else
        broadcastGameState
          (if opt = ''lineOfSight'' then
             (let gs1 = gs\<lparr>lineOfSightEnabled := \<not> lineOfSightEnabled gs\<rparr> in
              broadcastMessage
                (''Line of Sight '' @ (if lineOfSightEnabled gs1 then ''enabled'' else ''disabled''))
                Info (r\<lparr>gameState := gs1\<rparr>))
           else if opt = ''limitedRange'' then
             (let gs1 = gs\<lparr>limitedRangeEnabled := \<not> limitedRangeEnabled gs\<rparr> in
              broadcastMessage
                (''Archer range '' @ (if limitedRangeEnabled gs1 then ''limited to 4 spaces''
                                      else ''unlimited''))
                Info (r\<lparr>gameState := gs1\<rparr>))
           else r))"

text \<open>
  A \<^verbatim>\<open>gameAction\<close> message, by its \<^verbatim>\<open>type\<close> field; \<open>OtherAction\<close> is any type the
  \<^verbatim>\<open>switch\<close> has no case for.
\<close>

datatype action =
    PlacePiece pieceType int int
  | SelectCell int int
  | EndTurn
  | ToggleOption string
  | SelectPieceType pieceType
  | OtherAction

text \<open>
  The \<^verbatim>\<open>gameAction\<close> handler once the transport has resolved the room of the socket:
  the sender must be a key of \<^verbatim>\<open>players\<close>.
\<close>

definition gameAction :: "string \<Rightarrow> action \<Rightarrow> gameRoom \<Rightarrow> error + gameRoom" where
  "gameAction sid act r =
     (case getPlayerBySocketId r sid of
        None \<Rightarrow> Inr r
      | Some seat \<Rightarrow>
          (case act of
             PlacePiece pieceType row col \<Rightarrow> handlePlacePiece seat pieceType row col r
           | SelectCell row col \<Rightarrow> handleSelectCell seat row col r
           | EndTurn \<Rightarrow> Inr (handleEndTurn seat r)
           | ToggleOption opt \<Rightarrow> Inr (handleToggleOption seat opt r)
           | SelectPieceType t \<Rightarrow> Inr r
           | OtherAction \<Rightarrow> Inr r))"

section \<open>The server with board size options\<close>

record boardSize =
  width :: int
  height :: int

definition canMove_sized ::
  "piece \<Rightarrow> int \<Rightarrow> int \<Rightarrow> int \<Rightarrow> int \<Rightarrow> boardSize \<Rightarrow> bool" where
  "canMove_sized piece fromRow fromCol toRow toCol bs =
     (if toRow < 0 \<or> toRow \<ge> height bs \<or> toCol < 0 \<or> toCol \<ge> width bs then False
      else if ptype piece = Cavalry then
        (let rowDiff = \<bar>fromRow - toRow\<bar>; colDiff = \<bar>fromCol - toCol\<bar>
         in (rowDiff \<le> 2 \<and> colDiff = 0) \<or> (rowDiff = 0 \<and> colDiff \<le> 2))
      else distance fromRow fromCol toRow toCol = 1)"

section \<open>The Ancient Empires server\<close>

subsection \<open>Rule engine\<close>

definition canMove_empires :: "piece \<Rightarrow> int \<Rightarrow> int \<Rightarrow> int \<Rightarrow> int \<Rightarrow> bool" where
  "canMove_empires piece fromRow fromCol toRow toCol =
     (let rowDiff = \<bar>fromRow - toRow\<bar>; colDiff = \<bar>fromCol - toCol\<bar> in
      if toRow < 0 \<or> toRow \<ge> 7 \<or> toCol < 0 \<or> toCol \<ge> 7 then False
      else if ptype piece = General \<and> nation piece = Some Macedonians then
        (rowDiff \<le> 2 \<and> colDiff = 0) \<or> (rowDiff = 0 \<and> colDiff \<le> 2)
      else if ptype piece = Cavalry \<or> ptype piece = HorseArcher then
        (rowDiff \<le> 2 \<and> colDiff = 0) \<or> (rowDiff = 0 \<and> colDiff \<le> 2)
      else if ptype piece = HeavyInfantry \<and> nation piece = Some Spartans then
        rowDiff \<le> 1 \<and> colDiff \<le> 1 \<and> rowDiff + colDiff > 0
      else distance fromRow fromCol toRow toCol = 1)"

text \<open>
  \<^verbatim>\<open>shouldConsumeAmmo\<close>, called before the damage is subtracted. The ability
  \<^verbatim>\<open>archerKillAmmoSave\<close> of the English entry of \<^verbatim>\<open>nations\<close> is \<^verbatim>\<open>true\<close>.
\<close>

definition shouldConsumeAmmo :: "piece \<Rightarrow> piece \<Rightarrow> int \<Rightarrow> bool" where
  "shouldConsumeAmmo attacker target dist =
     (if ptype attacker = Archer \<and> nation attacker = Some English \<and> health target \<le> 1
      then False
      else dist > 1)"

text \<open>
  The loop of \<^verbatim>\<open>handleSpartanCleave\<close> over the remaining directions; \<open>cleaveCount\<close> is
  the counter of the source. \<open>attackerCell\<close> is what \<^verbatim>\<open>board[attackerRow][attackerCol]\<close>
  held on entry; its \<^verbatim>\<open>player\<close> is read, and raises on \<^verbatim>\<open>null\<close>, only when an occupied
  neighbour is examined.
\<close>

fun cleaveLoop ::
  "(int \<times> int) list \<Rightarrow> piece option \<Rightarrow> int \<Rightarrow> int \<Rightarrow> int \<Rightarrow> int \<Rightarrow> int \<Rightarrow> gameRoom
     \<Rightarrow> error + gameRoom" where
  "cleaveLoop [] attackerCell attackerRow attackerCol targetRow targetCol cleaveCount r =
     Inr (if cleaveCount > 0 then
            broadcastMessage
              (''Spartan Heavy Infantry cleaves '' @ showInt cleaveCount @ '' additional enemies!'')
              Success r
          else r)"
| "cleaveLoop ((dr, dc) # rest) attackerCell attackerRow attackerCol targetRow targetCol
      cleaveCount r =
     (let cleaveRow = attackerRow + dr; cleaveCol = attackerCol + dc in
      if cleaveRow \<ge> 0 \<and> cleaveRow < 7 \<and> cleaveCol \<ge> 0 \<and> cleaveCol < 7 then
        (case board (gameState r) cleaveRow cleaveCol of
           None \<Rightarrow>
             cleaveLoop rest attackerCell attackerRow attackerCol targetRow targetCol cleaveCount r
         | Some cleaveTarget \<Rightarrow>
            (case attackerCell of
               None \<Rightarrow> Inl TypeError
             | Some attacker \<Rightarrow>
                 if player cleaveTarget \<noteq> player attacker
                    \<and> \<not> (cleaveRow = targetRow \<and> cleaveCol = targetCol) then
                   (let hit = cleaveTarget\<lparr>health := health cleaveTarget - 1\<rparr> in
                    if health hit \<le> 0 then
                      (let r1 = withBoard
                                  (setCell (board (gameState r)) cleaveRow cleaveCol None) r in
                       if ptype cleaveTarget = General then
                         Inr (broadcastMessage
                                (getPlayerName r1 (player attacker)
                                   @ '' wins! Enemy General defeated by cleave attack!'')
                                Victory
                                (r1\<lparr>gameState := (gameState r1)
                                      \<lparr>gameEnded := True, winner := Some (player attacker)\<rparr>\<rparr>))
                       else
                         cleaveLoop rest attackerCell attackerRow attackerCol targetRow targetCol
                           (cleaveCount + 1) r1)
                    else
                      cleaveLoop rest attackerCell attackerRow attackerCol targetRow targetCol
                        (cleaveCount + 1)
                        (withBoard
                           (setCell (board (gameState r)) cleaveRow cleaveCol (Some hit)) r))
                 else
                   cleaveLoop rest attackerCell attackerRow attackerCol targetRow targetCol
                     cleaveCount r))
      else cleaveLoop rest attackerCell attackerRow attackerCol targetRow targetCol cleaveCount r)"

definition directions :: "(int \<times> int) list" where
  "directions = [(- 1, 0), (1, 0), (0, - 1), (0, 1)]"

definition handleSpartanCleave ::
  "int \<Rightarrow> int \<Rightarrow> int \<Rightarrow> int \<Rightarrow> gameRoom \<Rightarrow> error + gameRoom" where
  "handleSpartanCleave attackerRow attackerCol targetRow targetCol r =
     bindE (cellAt (board (gameState r)) attackerRow attackerCol) (\<lambda>attackerCell.
       cleaveLoop directions attackerCell attackerRow attackerCol targetRow targetCol 0 r)"

text \<open>
  \<^verbatim>\<open>attackPiece\<close> of the Ancient Empires server (the board is 7x7: the same rows exist).
  The cleave runs after the damage to the primary target and before its death check.
\<close>

definition attackPiece_empires ::
  "int \<Rightarrow> int \<Rightarrow> int \<Rightarrow> int \<Rightarrow> gameRoom \<Rightarrow> error + gameRoom" where
  "attackPiece_empires attackerRow attackerCol targetRow targetCol r =
     (if gameEnded (gameState r) then Inr r
      else
        bindE (cellAt (board (gameState r)) attackerRow attackerCol) (\<lambda>attackerCell.
        bindE (cellAt (board (gameState r)) targetRow targetCol) (\<lambda>targetCell.
          case targetCell of
            None \<Rightarrow> Inr r
          | Some target \<Rightarrow>
             (case attackerCell of
                None \<Rightarrow> Inl TypeError
              | Some attacker \<Rightarrow>
                  let dist = distance attackerRow attackerCol targetRow targetCol;
                      charged =
                        ((ptype attacker = Cavalry
                          \<or> (ptype attacker = General \<and> nation attacker = Some Macedonians))
                         \<and> chargeDirection attacker \<noteq> None
                         \<and> dist = 1 \<and> ptype target \<noteq> HeavyInfantry
                         \<and> chargeDirection attacker
                             = Some (targetRow - attackerRow, targetCol - attackerCol));
                      damage = (if charged then 2 else 1);
                      r1 = (if charged
                            then broadcastMessage ''Cavalry charge! Double damage!'' Success r
                            else r);
                      sameCell = (attackerRow = targetRow \<and> attackerCol = targetCol);
                      attacker1 = (if shouldConsumeAmmo attacker target dist
                                   then decrAmmo attacker else attacker);
                      b1 = setCell (board (gameState r1)) attackerRow attackerCol (Some attacker1);
                      wasGeneral = (ptype target = General);
                      target0 = (if sameCell then attacker1 else target);
                      target1 = target0\<lparr>health := health target0 - damage\<rparr>;
                      r2 = withBoard (setCell b1 targetRow targetCol (Some target1)) r1
                  in
                  bindE
                    (if ptype attacker = HeavyInfantry \<and> nation attacker = Some Spartans
                     then handleSpartanCleave attackerRow attackerCol targetRow targetCol r2
                     else Inr r2)
                    (\<lambda>r3.
                       if health target1 \<le> 0 then
                         (let r4 = withBoard
                                     (setCell (board (gameState r3)) targetRow targetCol None) r3 in
                          if wasGeneral then
                            Inr (broadcastMessage
                                   (getPlayerName r4 (player attacker)
                                      @ '' wins! Enemy General defeated!'')
                                   Victory
                                   (r4\<lparr>gameState := (gameState r4)
                                         \<lparr>gameEnded := True, winner := Some (player attacker)\<rparr>\<rparr>))
                          else Inr r4)
                       else Inr r3)))))"

subsection \<open>Nations and rosters\<close>

text \<open>The \<^verbatim>\<open>pieces\<close> entry of each nation of the catalog \<^verbatim>\<open>nations\<close>.\<close>

fun nationPieces :: "nation \<Rightarrow> roster" where
  "nationPieces English =
     [General \<mapsto> Num 1, Cavalry \<mapsto> Num 2, HeavyInfantry \<mapsto> Num 2,
      LightInfantry \<mapsto> Num 2, Archer \<mapsto> Num 1]"
| "nationPieces Mongols =
     [General \<mapsto> Num 1, Cavalry \<mapsto> Num 1, HorseArcher \<mapsto> Num 2, HeavyInfantry \<mapsto> Num 2,
      LightInfantry \<mapsto> Num 2, Archer \<mapsto> Num 0]"
| "nationPieces Macedonians =
     [General \<mapsto> Num 1, Cavalry \<mapsto> Num 2, HeavyInfantry \<mapsto> Num 2,
      LightInfantry \<mapsto> Num 2, Archer \<mapsto> Num 1]"
| "nationPieces Spartans =
     [General \<mapsto> Num 1, Cavalry \<mapsto> Num 2, HeavyInfantry \<mapsto> Num 2,
      LightInfantry \<mapsto> Num 2, Archer \<mapsto> Num 0]"

text \<open>The global table \<^verbatim>\<open>pieceTypes\<close> of the Ancient Empires server: health and ammo.\<close>

fun pieceTypes_empires :: "pieceType \<Rightarrow> int \<times> int option" where
  "pieceTypes_empires General = (3, None)"
| "pieceTypes_empires Cavalry = (2, None)"
| "pieceTypes_empires HorseArcher = (2, Some 2)"
| "pieceTypes_empires HeavyInfantry = (3, None)"
| "pieceTypes_empires LightInfantry = (2, None)"
| "pieceTypes_empires Archer = (2, Some 3)"

definition addCount :: "count \<Rightarrow> count \<Rightarrow> count" where
  "addCount a b = (case (a, b) of (Num x, Num y) \<Rightarrow> Num (x + y) | _ \<Rightarrow> NaN)"

text \<open>\<^verbatim>\<open>Object.values(pieces).reduce((a,b) => a+b, 0)\<close>: the sum over the keys present.\<close>

definition sumCounts :: "roster \<Rightarrow> count" where
  "sumCounts pieces =
     foldl addCount (Num 0)
       (List.map_filter pieces
          [General, Cavalry, HorseArcher, HeavyInfantry, LightInfantry, Archer])"

text \<open>\<^verbatim>\<open>n >= c\<close> and \<^verbatim>\<open>n !== c\<close> against a counter that may be \<^verbatim>\<open>NaN\<close>.\<close>

definition geCount :: "int \<Rightarrow> count \<Rightarrow> bool" where
  "geCount n c = (case c of Num m \<Rightarrow> n \<ge> m | NaN \<Rightarrow> False)"

definition neqCount :: "int \<Rightarrow> count \<Rightarrow> bool" where
  "neqCount n c = (case c of Num m \<Rightarrow> n \<noteq> m | NaN \<Rightarrow> True)"

definition showCount :: "count \<Rightarrow> string" where
  "showCount c = (case c of Num m \<Rightarrow> showInt m | NaN \<Rightarrow> ''NaN'')"

subsection \<open>Room\<close>

definition initializeGameState_empires :: gameState where
  "initializeGameState_empires =
     \<lparr> currentPlayer = 1, gamePhase = Waiting, placementTurn = 1,
       piecesPlacedThisTurn = 0, hasMoved = False, hasAttacked = False,
       gameEnded = False, winner = None,
       board = (\<lambda>row col. None),
       player1Pieces = Map.empty, player2Pieces = Map.empty,
       lineOfSightEnabled = False, limitedRangeEnabled = False,
       selectedPiece = None, selectedCell = None,
       player1Nation = None, player2Nation = None, selectedPieceType = None \<rparr>"

definition newGameRoom_empires :: "string \<Rightarrow> gameRoom" where
  "newGameRoom_empires rid =
     \<lparr> roomId = rid, players = [], gameState = initializeGameState_empires,
       spectators = {}, sent = [] \<rparr>"

definition addPlayer_empires :: "string \<Rightarrow> string \<Rightarrow> gameRoom \<Rightarrow> bool \<times> gameRoom" where
  "addPlayer_empires sid playerName r =
     (if length (players r) \<ge> 2 then
        (False, broadcastGameState
                  (emit (JoinedAsSpectator sid) (r\<lparr>spectators := insert sid (spectators r)\<rparr>)))
      else
        let n = int (length (players r)) + 1;
            r1 = r\<lparr>players := AList.update sid
                    \<lparr>socketId = sid, playerNumber = n, name = playerName, seatNation = None\<rparr>
                    (players r)\<rparr>;
            r2 = emit (PlayerAssigned sid n playerName) r1;
            r3 = (if length (players r2) = 2 then
                    broadcastMessage ''Game ready! Players select your nations.'' Info
                      (setPhase NationSelection r2)
                  else r2)
        in (True, broadcastPlayerList (broadcastGameState r3)))"

text \<open>\<^verbatim>\<open>selectNation(socketId, nationKey)\<close>, for a key of the catalog.\<close>

definition selectNation :: "string \<Rightarrow> nation \<Rightarrow> gameRoom \<Rightarrow> bool \<times> gameRoom" where
  "selectNation sid nationKey r =
     (case map_of (players r) sid of
        None \<Rightarrow> (False, r)
      | Some seat \<Rightarrow>
          if list_ex (\<lambda>(k, p). seatNation p = Some nationKey \<and> socketId p \<noteq> sid) (players r)
          then (False, r)
          else
            let r1 = r\<lparr>players := AList.update sid (seat\<lparr>seatNation := Some nationKey\<rparr>) (players r)\<rparr>;
                gs = gameState r1;
                gs1 = (if playerNumber seat = 1
                       then gs\<lparr>player1Nation := Some nationKey,
                               player1Pieces := nationPieces nationKey\<rparr>
                       else gs\<lparr>player2Nation := Some nationKey,
                               player2Pieces := nationPieces nationKey\<rparr>);
                r2 = r1\<lparr>gameState := gs1\<rparr>;
                allSelected = list_all (\<lambda>(k, p). seatNation p \<noteq> None) (players r2);
                r3 = (if allSelected then
                        broadcastMessage
                          (''Nations selected! '' @ getPlayerName r2 1 @ '' goes first with placement.'')
                          Info (setPhase Placement r2)
                      else r2)
            in (True, broadcastGameState r3))"

subsection \<open>Intent handlers\<close>

definition handleSelectPieceType :: "seat \<Rightarrow> pieceType \<Rightarrow> gameRoom \<Rightarrow> gameRoom" where
  "handleSelectPieceType seat pieceType r =
     (if gamePhase (gameState r) \<noteq> Placement \<or> \<not> isPlayerTurn r (socketId seat) then r
      else broadcastGameState
             (r\<lparr>gameState := (gameState r)\<lparr>selectedPieceType := Some pieceType\<rparr>\<rparr>))"

definition createPieceData :: "pieceType \<Rightarrow> int \<Rightarrow> nation option \<Rightarrow> int \<Rightarrow> piece" where
  "createPieceData pieceType pl nkey turn =
     \<lparr> ptype = pieceType, player = pl,
       health = fst (pieceTypes_empires pieceType),
       maxHealth = fst (pieceTypes_empires pieceType),
       hasBeenReplenished = False,
       ammo = (if pieceType = Archer then snd (pieceTypes_empires pieceType)
               else if pieceType = HorseArcher then snd (pieceTypes_empires pieceType)
               else None),
       chargeDirection = None, placedInTurn = Some turn, nation = nkey \<rparr>"

text \<open>
  The placement limit \<^verbatim>\<open>requiredPieces\<close> of \<^verbatim>\<open>handlePlacePiece\<close>: 4 in the first round,
  then the sum of the counters the seat's roster holds at the time of the call.
\<close>

definition placementLimit :: "seat \<Rightarrow> gameState \<Rightarrow> count" where
  "placementLimit seat gs =
     (if placementTurn gs = 1 then Num 4
      else sumCounts (if playerNumber seat = 1 then player1Pieces gs else player2Pieces gs))"

definition handlePlacePiece_empires :: "seat \<Rightarrow> int \<Rightarrow> int \<Rightarrow> gameRoom \<Rightarrow> error + gameRoom" where
  "handlePlacePiece_empires seat row col r =
     (let gs = gameState r in
      if \<not> isPlayerTurn r (socketId seat) \<or> gamePhase gs \<noteq> Placement then Inr r
      else
        (case selectedPieceType gs of
           None \<Rightarrow> Inr (broadcastMessage ''Select a piece type first!'' Error r)
         | Some pieceType \<Rightarrow>
             let requiredPieces = placementLimit seat gs in
             if geCount (piecesPlacedThisTurn gs) requiredPieces then
               Inr (broadcastMessage
                      (''You can only place '' @ showCount requiredPieces @ '' pieces this turn!'')
                      Error r)
             else
               bindE (cellAt (board gs) row col) (\<lambda>occupant.
                 if occupant \<noteq> None then
                   Inr (broadcastMessage ''Cell is already occupied!'' Error r)
                 else
                   let validRows = (if playerNumber seat = 1 then [0, 1, 2] else [4, 5, 6]) in
                   if row \<notin> set validRows then
                     Inr (broadcastMessage
                            (''Player '' @ showInt (playerNumber seat)
                               @ '' can only place pieces in their deployment zone!'')
                            Error r)
                   else
                     let pieces = (if playerNumber seat = 1 then player1Pieces gs
                                   else player2Pieces gs) in
                     if pieces pieceType = Some (Num 0) then
                       Inr (broadcastMessage ''No more pieces of this type available!'' Error r)
                     else
                       let pieceData = createPieceData pieceType (playerNumber seat)
                                         (seatNation seat) (placementTurn gs);
                           gs1 = gs\<lparr>board := setCell (board gs) row col (Some pieceData)\<rparr>;
                           gs2 = (if playerNumber seat = 1
                                  then gs1\<lparr>player1Pieces := decrCount pieces pieceType\<rparr>
                                  else gs1\<lparr>player2Pieces := decrCount pieces pieceType\<rparr>);
                           gs3 = gs2\<lparr>piecesPlacedThisTurn := piecesPlacedThisTurn gs2 + 1,
                                     selectedPieceType := None\<rparr>
                       in Inr (broadcastGameState (r\<lparr>gameState := gs3\<rparr>)))))"

text \<open>
  The quota \<^verbatim>\<open>requiredPieces\<close> of \<^verbatim>\<open>handleEndTurn\<close>: 4 in the first round, then the
  total of the nation's catalog roster minus 4; \<^verbatim>\<open>nations[null]\<close> is \<^verbatim>\<open>undefined\<close> and
  reading its \<^verbatim>\<open>pieces\<close> raises.
\<close>

definition endTurnQuota :: "seat \<Rightarrow> gameState \<Rightarrow> error + count" where
  "endTurnQuota seat gs =
     (if placementTurn gs = 1 then Inr (Num 4)
      else
        (case (if playerNumber seat = 1 then player1Nation gs else player2Nation gs) of
           None \<Rightarrow> Inl TypeError
         | Some nkey \<Rightarrow> Inr (addCount (sumCounts (nationPieces nkey)) (Num (- 4)))))"

definition clearChargeAt_empires :: "board \<Rightarrow> int \<times> int \<Rightarrow> board" where
  "clearChargeAt_empires b rc =
     (case rc of (row, col) \<Rightarrow>
        (case b row col of
           None \<Rightarrow> b
         | Some p \<Rightarrow>
             if ptype p = Cavalry \<or> (ptype p = General \<and> nation p = Some Macedonians)
             then setCell b row col (Some (p\<lparr>chargeDirection := None\<rparr>))
             else b))"

definition clearCavalryCharges_empires :: "board \<Rightarrow> board" where
  "clearCavalryCharges_empires b = foldl clearChargeAt_empires b (List.product [0..6] [0..6])"

definition handleEndTurn_empires :: "seat \<Rightarrow> gameRoom \<Rightarrow> error + gameRoom" where
  "handleEndTurn_empires seat r =
     (let gs = gameState r in
      if \<not> isPlayerTurn r (socketId seat) then Inr r
      else
        bindE (if gamePhase gs = Placement then endTurnQuota seat gs else Inr (Num 0))
          (\<lambda>requiredPieces.
             if gamePhase gs = Placement \<and> neqCount (piecesPlacedThisTurn gs) requiredPieces then
               Inr (broadcastMessage
                      (''You must place exactly '' @ showCount requiredPieces
                         @ '' pieces before ending your turn!'')
                      Error r)
             else
               let gs1 = gs\<lparr>selectedPiece := None, selectedCell := None,
                            selectedPieceType := None,
                            hasMoved := False, hasAttacked := False\<rparr>;
                   gs2 = gs1\<lparr>board := clearCavalryCharges_empires (board gs1)\<rparr>
               in
               Inr (broadcastGameState
                 (if gamePhase gs2 = Placement then
                    (let gs3 = gs2\<lparr>piecesPlacedThisTurn := 0\<rparr> in
                     if currentPlayer gs3 = 1 then r\<lparr>gameState := gs3\<lparr>currentPlayer := 2\<rparr>\<rparr>
                     else
                       let gs4 = gs3\<lparr>currentPlayer := 1,
                                    placementTurn := placementTurn gs3 + 1\<rparr> in
                       if placementTurn gs4 > 2 then
                         broadcastMessage ''Battle Phase begins!'' Info
                           (r\<lparr>gameState := gs4\<lparr>gamePhase := Battle\<rparr>\<rparr>)
                       else r\<lparr>gameState := gs4\<rparr>)
                  else
                    r\<lparr>gameState := gs2\<lparr>currentPlayer :=
                                           (if currentPlayer gs2 = 1 then 2 else 1)\<rparr>\<rparr>))))"

subsection \<open>Moves, attacks and the dispatcher\<close>

text \<open>
  \<^verbatim>\<open>getArcherRange\<close>: \<^verbatim>\<open>nations[piece.nation]\<close> is \<^verbatim>\<open>undefined\<close> for a piece without
  nation and reading its \<^verbatim>\<open>abilities\<close> raises; only the English entry has
  \<^verbatim>\<open>archerRangeBonus\<close> (1).
\<close>

definition getArcherRange :: "piece \<Rightarrow> error + int" where
  "getArcherRange piece =
     (case nation piece of
        None \<Rightarrow> Inl TypeError
      | Some nkey \<Rightarrow> Inr (if nkey = English then 4 + 1 else 4))"

definition canAttack_empires ::
  "piece \<Rightarrow> int \<Rightarrow> int \<Rightarrow> int \<Rightarrow> int \<Rightarrow> gameState \<Rightarrow> error + bool" where
  "canAttack_empires piece fromRow fromCol toRow toCol gs =
     (if toRow < 0 \<or> toRow \<ge> 7 \<or> toCol < 0 \<or> toCol \<ge> 7 then Inr False
      else
        bindE (cellAt (board gs) toRow toCol) (\<lambda>target.
          case target of
            None \<Rightarrow> Inr False
          | Some t \<Rightarrow>
              if player t = player piece then Inr False
              else if distance fromRow fromCol toRow toCol = 1 then Inr True
              else
                bindE
                  (if ptype piece = Archer \<and> ammoPositive piece then
                     bindE (getArcherRange piece) (\<lambda>range.
                       Inr ((fromRow = toRow \<or> fromCol = toCol)
                            \<and> distance fromRow fromCol toRow toCol \<le> range))
                   else Inr False)
                  (\<lambda>archerHit.
                     if archerHit then Inr True
                     else if ptype piece = HorseArcher \<and> ammoPositive piece
                             \<and> (fromRow = toRow \<or> fromCol = toCol)
                             \<and> distance fromRow fromCol toRow toCol \<le> 4 then Inr True
                     else Inr False)))"

definition checkForHealing_empires :: "gameRoom \<Rightarrow> piece \<Rightarrow> int \<Rightarrow> piece \<times> gameRoom" where
  "checkForHealing_empires r piece row =
     (let shouldHeal = (player piece = 1 \<and> row = 6) \<or> (player piece = 2 \<and> row = 0) in
      if shouldHeal \<and> \<not> hasBeenReplenished piece \<and> ptype piece \<noteq> General then
        (let p1 = piece\<lparr>health := maxHealth piece, hasBeenReplenished := True\<rparr>;
             p2 = (if ptype piece = Archer \<or> ptype piece = HorseArcher
                   then p1\<lparr>ammo := snd (pieceTypes_empires (ptype piece))\<rparr> else p1)
         in (p2, broadcastMessage
                   (getPlayerName r (player piece) @ [CHR 0x27] @ ''s '' @ typeName (ptype piece)
                      @ '' has been replenished!'') Success r))
      else (piece, r))"

definition movePiece_empires ::
  "int \<Rightarrow> int \<Rightarrow> int \<Rightarrow> int \<Rightarrow> gameRoom \<Rightarrow> error + gameRoom" where
  "movePiece_empires fromRow fromCol toRow toCol r =
     bindE (cellAt (board (gameState r)) fromRow fromCol) (\<lambda>source.
       case source of
         None \<Rightarrow> Inl TypeError
       | Some piece \<Rightarrow>
           let piece1 =
             (if ptype piece = Cavalry
                 \<or> (ptype piece = General \<and> nation piece = Some Macedonians) then
                (if distance fromRow fromCol toRow toCol = 2 then
                   piece\<lparr>chargeDirection :=
                     Some (unitStep (toRow - fromRow), unitStep (toCol - fromCol))\<rparr>
                 else piece\<lparr>chargeDirection := None\<rparr>)
              else piece)
           in
           bindE (writeCell (board (gameState r)) toRow toCol (Some piece1)) (\<lambda>b1.
           bindE (writeCell b1 fromRow fromCol None) (\<lambda>b2.
             let (piece2, r1) = checkForHealing_empires (withBoard b2 r) piece1 toRow in
             Inr (if toRow = fromRow \<and> toCol = fromCol then r1
                  else withBoard (setCell (board (gameState r1)) toRow toCol (Some piece2)) r1))))"

text \<open>
  \<^verbatim>\<open>handleSelectCell\<close> of the Ancient Empires server. When the selected cell is empty
  (\<^verbatim>\<open>selectedPiece\<close> is \<^verbatim>\<open>null\<close>): on an empty target \<^verbatim>\<open>canMove\<close> returns \<^verbatim>\<open>false\<close>
  at its bounds check, before it reads \<^verbatim>\<open>piece.type\<close>, if the target is outside the
  board, and the handler only clears the cursor; inside the board \<^verbatim>\<open>piece.type\<close>
  raises, and on an occupied target \<^verbatim>\<open>selectedPiece.player\<close> raises.
\<close>

definition handleSelectCell_empires ::
  "seat \<Rightarrow> int \<Rightarrow> int \<Rightarrow> gameRoom \<Rightarrow> error + gameRoom" where
  "handleSelectCell_empires seat row col r =
     (let gs = gameState r in
      if gamePhase gs \<noteq> Battle \<or> \<not> isPlayerTurn r (socketId seat) then Inr r
      else
        (case selectedCell gs of
           None \<Rightarrow>
             bindE (cellAt (board gs) row col) (\<lambda>cell.
               case cell of
                 None \<Rightarrow> Inr r
               | Some piece \<Rightarrow>
                   if player piece = playerNumber seat then
                     Inr (broadcastGameState (r\<lparr>gameState := gs\<lparr>selectedCell := Some (row, col)\<rparr>\<rparr>))
                   else Inr r)
         | Some (selRow, selCol) \<Rightarrow>
             bindE (cellAt (board gs) selRow selCol) (\<lambda>selected.
             bindE (cellAt (board gs) row col) (\<lambda>targetPiece.
               if selRow = row \<and> selCol = col then
                 Inr (broadcastGameState (clearSelection r))
               else
                 (case selected of
                    None \<Rightarrow>
                      if targetPiece = None
                         \<and> (row < 0 \<or> row \<ge> 7 \<or> col < 0 \<or> col \<ge> 7)
                      then Inr (broadcastGameState (clearSelection r))
                      else Inl TypeError
                  | Some selPiece \<Rightarrow>
                      if targetPiece = None \<and> canMove_empires selPiece selRow selCol row col then
                        bindE
                          (if \<not> hasAttacked gs \<and> \<not> hasMoved gs then
                             bindE (movePiece_empires selRow selCol row col r) (\<lambda>r1.
                               Inr (broadcastMessage ''Move completed!'' Success (setHasMoved r1)))
                           else Inr (broadcastMessage ''Invalid move timing!'' Error r))
                          (\<lambda>r2. Inr (broadcastGameState (clearSelection r2)))
                      else
                        (case targetPiece of
                           None \<Rightarrow> Inr (broadcastGameState (clearSelection r))
                         | Some t \<Rightarrow>
                             if player t \<noteq> player selPiece then
                               bindE (canAttack_empires selPiece selRow selCol row col gs) (\<lambda>ok.
                                 if ok then
                                   bindE
                                     (if \<not> hasAttacked gs then
                                        bindE (attackPiece_empires selRow selCol row col r) (\<lambda>r1.
                                          Inr (broadcastMessage ''Attack completed!'' Success
                                                 (setHasAttacked r1)))
                                      else Inr (broadcastMessage
                                                  ''You can only attack once per turn!'' Error r))
                                     (\<lambda>r2. Inr (broadcastGameState (clearSelection r2)))
                                 else Inr (broadcastGameState (clearSelection r)))
                             else Inr (broadcastGameState (clearSelection r))))))))"

text \<open>
  The \<^verbatim>\<open>gameAction\<close> handler of the Ancient Empires server: it has no case for
  \<^verbatim>\<open>toggleOption\<close>.
\<close>

definition gameAction_empires :: "string \<Rightarrow> action \<Rightarrow> gameRoom \<Rightarrow> error + gameRoom" where
  "gameAction_empires sid act r =
     (case getPlayerBySocketId r sid of
        None \<Rightarrow> Inr r
      | Some seat \<Rightarrow>
          (case act of
             PlacePiece pieceType row col \<Rightarrow> handlePlacePiece_empires seat row col r
           | SelectCell row col \<Rightarrow> handleSelectCell_empires seat row col r
           | EndTurn \<Rightarrow> handleEndTurn_empires seat r
           | SelectPieceType t \<Rightarrow> Inr (handleSelectPieceType seat t r)
           | ToggleOption opt \<Rightarrow> Inr r
           | OtherAction \<Rightarrow> Inr r))"

text \<open>
  A run of intents on one room, in order; it stops at the first exception. The
  \<^verbatim>\<open>selectNation\<close> message is a socket event of its own, beside \<^verbatim>\<open>gameAction\<close>.
\<close>

datatype intent = Join string string | Nation string nation | Act string action

fun step_empires :: "intent \<Rightarrow> gameRoom \<Rightarrow> error + gameRoom" where
  "step_empires (Join sid playerName) r = Inr (snd (addPlayer_empires sid playerName r))"
| "step_empires (Nation sid nkey) r = Inr (snd (selectNation sid nkey r))"
| "step_empires (Act sid act) r = gameAction_empires sid act r"

fun run_empires :: "intent list \<Rightarrow> gameRoom \<Rightarrow> error + gameRoom" where
  "run_empires [] r = Inr r"
| "run_empires (i # rest) r = bindE (step_empires i r) (run_empires rest)"

section \<open>Notions of the specification\<close>

text \<open>No occupied cell strictly between the two cells, on the row or column they share.\<close>

definition unobstructed :: "board \<Rightarrow> int \<Rightarrow> int \<Rightarrow> int \<Rightarrow> int \<Rightarrow> bool" where
  "unobstructed b fromRow fromCol toRow toCol =
     ((fromRow = toRow \<longrightarrow>
         (\<forall>c. min fromCol toCol < c \<and> c < max fromCol toCol \<longrightarrow> b fromRow c = None))
      \<and> (fromRow \<noteq> toRow \<and> fromCol = toCol \<longrightarrow>
         (\<forall>k. min fromRow toRow < k \<and> k < max fromRow toRow \<longrightarrow> b k fromCol = None)))"

section \<open>Example states\<close>

definition seatA :: seat where
  "seatA = \<lparr>socketId = ''a'', playerNumber = 1, name = ''Al'', seatNation = None\<rparr>"

definition seatB :: seat where
  "seatB = \<lparr>socketId = ''b'', playerNumber = 2, name = ''Bo'', seatNation = None\<rparr>"

definition lightInfantry1 :: piece where
  "lightInfantry1 =
     \<lparr> ptype = LightInfantry, player = 1, health = 2, maxHealth = 2,
       hasBeenReplenished = False, ammo = None, chargeDirection = None,
       placedInTurn = None, nation = None \<rparr>"

text \<open>Battle phase, seat 1 to move, its Light Infantry selected in the corner (0,0).\<close>

definition edgeRoom :: gameRoom where
  "edgeRoom =
     \<lparr> roomId = ''room'', players = [(''a'', seatA), (''b'', seatB)],
       gameState = initializeGameState
         \<lparr> gamePhase := Battle, placementTurn := 3,
           board := setCell (\<lambda>row col. None) 0 0 (Some lightInfantry1),
           selectedCell := Some (0, 0) \<rparr>,
       spectators = {}, sent = [] \<rparr>"

text \<open>Placement phase, seat 1 to place, one spectator.\<close>

definition placementRoom :: gameRoom where
  "placementRoom =
     \<lparr> roomId = ''room'', players = [(''a'', seatA), (''b'', seatB)],
       gameState = initializeGameState \<lparr> gamePhase := Placement \<rparr>,
       spectators = {''c''}, sent = [] \<rparr>"

text \<open>Three sockets join the same room: two seats and a spectator.\<close>

definition threeJoined :: "(string \<times> gameRoom) list" where
  "threeJoined =
     joinRoom ''c'' ''room'' ''Cy''
       (joinRoom ''b'' ''room'' ''Bo'' (joinRoom ''a'' ''room'' ''Al'' []))"

definition seatIds :: "gameRoom \<Rightarrow> string list" where
  "seatIds r = map fst (players r)"

text \<open>A room whose only seat is \<open>b\<close>, watched by the spectator \<open>c\<close>.\<close>

definition spectatedRoom :: gameRoom where
  "spectatedRoom =
     \<lparr> roomId = ''room'', players = [(''b'', seatB\<lparr>playerNumber := 1\<rparr>)],
       gameState = initializeGameState, spectators = {''c''}, sent = [] \<rparr>"

definition archer1 :: piece where
  "archer1 =
     \<lparr> ptype = Archer, player = 1, health = 2, maxHealth = 2,
       hasBeenReplenished = False, ammo = Some 3, chargeDirection = None,
       placedInTurn = None, nation = None \<rparr>"

definition general2 :: piece where
  "general2 =
     \<lparr> ptype = General, player = 2, health = 3, maxHealth = 3,
       hasBeenReplenished = False, ammo = None, chargeDirection = None,
       placedInTurn = None, nation = None \<rparr>"

text \<open>
  Battle phase with the line-of-sight rule on: the Archer of seat 1 at (2,0) is selected,
  its own Light Infantry stands at (2,2) and the General of seat 2 at (2,4).
\<close>

definition archerRoom :: gameRoom where
  "archerRoom =
     \<lparr> roomId = ''room'', players = [(''a'', seatA), (''b'', seatB)],
       gameState = initializeGameState
         \<lparr> gamePhase := Battle, placementTurn := 3, hasMoved := True,
           board := setCell (setCell (setCell (\<lambda>row col. None) 2 0 (Some archer1))
                      2 2 (Some lightInfantry1)) 2 4 (Some general2),
           lineOfSightEnabled := True,
           selectedCell := Some (2, 0) \<rparr>,
       spectators = {}, sent = [] \<rparr>"

text \<open>What a cell that held \<open>t\<close> holds once \<open>d\<close> damage has been dealt to it.\<close>

definition afterDamage :: "piece \<Rightarrow> int \<Rightarrow> piece option" where
  "afterDamage t d = (if health t - d \<le> 0 then None else Some (t\<lparr>health := health t - d\<rparr>))"

text \<open>A cell of the 7 by 6 grid of the base board.\<close>

definition onBoard :: "int \<Rightarrow> int \<Rightarrow> bool" where
  "onBoard row col = (0 \<le> row \<and> row < 7 \<and> 0 \<le> col \<and> col < 6)"

definition clearCharge :: "piece option \<Rightarrow> piece option" where
  "clearCharge c =
     (case c of
        None \<Rightarrow> None
      | Some p \<Rightarrow> if ptype p = Cavalry then Some (p\<lparr>chargeDirection := None\<rparr>) else Some p)"

definition cavalry1 :: piece where
  "cavalry1 =
     \<lparr> ptype = Cavalry, player = 1, health = 2, maxHealth = 2,
       hasBeenReplenished = False, ammo = None, chargeDirection = None,
       placedInTurn = None, nation = None \<rparr>"

definition lightInfantry2 :: piece where
  "lightInfantry2 =
     \<lparr> ptype = LightInfantry, player = 2, health = 2, maxHealth = 2,
       hasBeenReplenished = False, ammo = None, chargeDirection = None,
       placedInTurn = None, nation = None \<rparr>"

text \<open>
  Battle phase, start of the turn of seat 1: its Cavalry at (2,0) is selected, (2,2) is
  empty and a Light Infantry of seat 2 stands at (2,3).
\<close>

definition chargeRoom :: gameRoom where
  "chargeRoom =
     \<lparr> roomId = ''room'', players = [(''a'', seatA), (''b'', seatB)],
       gameState = initializeGameState
         \<lparr> gamePhase := Battle, placementTurn := 3,
           board := setCell (setCell (\<lambda>row col. None) 2 0 (Some cavalry1))
                      2 3 (Some lightInfantry2),
           selectedCell := Some (2, 0) \<rparr>,
       spectators = {}, sent = [] \<rparr>"

text \<open>What the room emitted between two of its states.\<close>

definition newEvents :: "gameRoom \<Rightarrow> gameRoom \<Rightarrow> event list" where
  "newEvents r r' = drop (length (sent r)) (sent r')"

text \<open>
  A rejected intent: the handler dropped it silently (nothing emitted) or broadcast an
  advisory message of type \<open>error\<close>.
\<close>

definition isError :: "event \<Rightarrow> bool" where
  "isError e = (case e of GameMessage m t \<Rightarrow> t = Error | _ \<Rightarrow> False)"

definition rejected :: "gameRoom \<Rightarrow> gameRoom \<Rightarrow> bool" where
  "rejected r r' = (newEvents r r' = [] \<or> list_ex isError (newEvents r r'))"

text \<open>Projection of the outcome of a run.\<close>

definition onResult :: "(gameRoom \<Rightarrow> 'a) \<Rightarrow> error + gameRoom \<Rightarrow> 'a option" where
  "onResult f res = (case res of Inl e \<Rightarrow> None | Inr r \<Rightarrow> Some (f r))"

text \<open>
  An Ancient Empires match up to the second placement round: two sockets join and
  choose English and Spartans, each seat places four pieces and ends its turn, then
  seat 1 places two more pieces.
\<close>

definition placeOne :: "string \<Rightarrow> pieceType \<Rightarrow> int \<Rightarrow> int \<Rightarrow> intent list" where
  "placeOne sid t row col = [Act sid (SelectPieceType t), Act sid (PlacePiece t row col)]"

definition secondRoundTrace :: "intent list" where
  "secondRoundTrace =
     [Join ''a'' ''Al'', Join ''b'' ''Bo'', Nation ''a'' English, Nation ''b'' Spartans]
     @ placeOne ''a'' General 0 0 @ placeOne ''a'' Cavalry 0 1
     @ placeOne ''a'' HeavyInfantry 0 2 @ placeOne ''a'' LightInfantry 0 3
     @ [Act ''a'' EndTurn]
     @ placeOne ''b'' General 6 0 @ placeOne ''b'' Cavalry 6 1
     @ placeOne ''b'' HeavyInfantry 6 2 @ placeOne ''b'' LightInfantry 6 3
     @ [Act ''b'' EndTurn]
     @ placeOne ''a'' Cavalry 1 0 @ placeOne ''a'' HeavyInfantry 1 1"

definition secondRound :: "error + gameRoom" where
  "secondRound = run_empires secondRoundTrace (newGameRoom_empires ''room'')"

text \<open>A cell of the 7 by 7 grid of the Ancient Empires board.\<close>

definition onBoard_empires :: "int \<Rightarrow> int \<Rightarrow> bool" where
  "onBoard_empires row col = (0 \<le> row \<and> row < 7 \<and> 0 \<le> col \<and> col < 7)"

definition clearCharge_empires :: "piece option \<Rightarrow> piece option" where
  "clearCharge_empires c =
     (case c of
        None \<Rightarrow> None
      | Some p \<Rightarrow>
          if ptype p = Cavalry \<or> (ptype p = General \<and> nation p = Some Macedonians)
          then Some (p\<lparr>chargeDirection := None\<rparr>) else Some p)"

text \<open>
  The cleave of an attacker \<open>att\<close> whose primary target is at \<open>(tr, tc)\<close> hits the cell
  \<open>(row, col)\<close> holding \<open>c\<close> when the cell is on the board, is not the primary target and
  holds an enemy of the attacker.
\<close>

definition cleaveHits :: "piece \<Rightarrow> int \<Rightarrow> int \<Rightarrow> int \<Rightarrow> int \<Rightarrow> piece option \<Rightarrow> bool" where
  "cleaveHits att tr tc row col c =
     (onBoard_empires row col \<and> \<not> (row = tr \<and> col = tc)
      \<and> (case c of None \<Rightarrow> False | Some p \<Rightarrow> player p \<noteq> player att))"

text \<open>What the cell holds after the cleave has passed over it: 1 damage if it is hit.\<close>

definition afterCleave ::
  "piece \<Rightarrow> int \<Rightarrow> int \<Rightarrow> int \<Rightarrow> int \<Rightarrow> piece option \<Rightarrow> piece option" where
  "afterCleave att tr tc row col c =
     (if cleaveHits att tr tc row col c
      then (case c of None \<Rightarrow> None | Some p \<Rightarrow> afterDamage p 1)
      else c)"

text \<open>The cleave kills a General in the cell.\<close>

definition cleaveKillsGeneral ::
  "piece \<Rightarrow> int \<Rightarrow> int \<Rightarrow> int \<Rightarrow> int \<Rightarrow> piece option \<Rightarrow> bool" where
  "cleaveKillsGeneral att tr tc row col c =
     (cleaveHits att tr tc row col c
      \<and> (case c of None \<Rightarrow> False | Some p \<Rightarrow> ptype p = General \<and> health p - 1 \<le> 0))"

definition cleaveCell :: "piece \<Rightarrow> int \<Rightarrow> int \<Rightarrow> int \<Rightarrow> int \<Rightarrow> gameRoom \<Rightarrow> gameRoom" where
  "cleaveCell att tr tc row col r =
     withBoard (setCell (board (gameState r)) row col
                  (afterCleave att tr tc row col (board (gameState r) row col))) r"

definition cleaveWin :: "piece \<Rightarrow> gameRoom \<Rightarrow> gameRoom" where
  "cleaveWin att r =
     broadcastMessage
       (getPlayerName r (player att) @ '' wins! Enemy General defeated by cleave attack!'')
       Victory
       (r\<lparr>gameState := (gameState r)\<lparr>gameEnded := True, winner := Some (player att)\<rparr>\<rparr>)"

definition spartanHeavy1 :: piece where
  "spartanHeavy1 =
     \<lparr> ptype = HeavyInfantry, player = 1, health = 3, maxHealth = 3,
       hasBeenReplenished = False, ammo = None, chargeDirection = None,
       placedInTurn = Some 1, nation = Some Spartans \<rparr>"

definition englishInfantry2 :: piece where
  "englishInfantry2 =
     \<lparr> ptype = LightInfantry, player = 2, health = 2, maxHealth = 2,
       hasBeenReplenished = False, ammo = None, chargeDirection = None,
       placedInTurn = Some 1, nation = Some English \<rparr>"

definition woundedGeneral2 :: piece where
  "woundedGeneral2 =
     \<lparr> ptype = General, player = 2, health = 1, maxHealth = 3,
       hasBeenReplenished = False, ammo = None, chargeDirection = None,
       placedInTurn = Some 1, nation = Some English \<rparr>"

text \<open>
  Ancient Empires, battle phase, seat 1 to move: its Spartan Heavy Infantry at (3,3)
  has the General of seat 2, at health 1, above it at (2,3), and Light Infantry of seat
  2 below it at (4,3) and to its right at (3,4).
\<close>

definition cleaveRoom :: gameRoom where
  "cleaveRoom =
     \<lparr> roomId = ''room'',
       players = [(''a'', seatA\<lparr>seatNation := Some Spartans\<rparr>),
                  (''b'', seatB\<lparr>seatNation := Some English\<rparr>)],
       gameState = initializeGameState_empires
         \<lparr> gamePhase := Battle, placementTurn := 3,
           board := setCell (setCell (setCell (setCell (\<lambda>row col. None)
                      3 3 (Some spartanHeavy1)) 2 3 (Some woundedGeneral2))
                      4 3 (Some englishInfantry2)) 3 4 (Some englishInfantry2),
           player1Nation := Some Spartans, player2Nation := Some English,
           selectedCell := Some (3, 3) \<rparr>,
       spectators = {}, sent = [] \<rparr>"

text \<open>
  The damage of an attack of \<open>att\<close> at \<open>(ar, ac)\<close> on \<open>tgt\<close> at \<open>(tr, tc)\<close>: 2 when a
  charge applies, 1 otherwise. In the base server only a Cavalry charges; in the
  Ancient Empires server a Macedonian General charges too.
\<close>

definition attackDamage :: "piece \<Rightarrow> int \<Rightarrow> int \<Rightarrow> int \<Rightarrow> int \<Rightarrow> piece \<Rightarrow> int" where
  "attackDamage att ar ac tr tc tgt =
     (if ptype att = Cavalry \<and> distance ar ac tr tc = 1 \<and> ptype tgt \<noteq> HeavyInfantry
         \<and> chargeDirection att = Some (tr - ar, tc - ac)
      then 2 else 1)"

definition attackDamage_empires ::
  "piece \<Rightarrow> int \<Rightarrow> int \<Rightarrow> int \<Rightarrow> int \<Rightarrow> piece \<Rightarrow> int" where
  "attackDamage_empires att ar ac tr tc tgt =
     (if (ptype att = Cavalry \<or> (ptype att = General \<and> nation att = Some Macedonians))
         \<and> distance ar ac tr tc = 1 \<and> ptype tgt \<noteq> HeavyInfantry
         \<and> chargeDirection att = Some (tr - ar, tc - ac)
      then 2 else 1)"

text \<open>A run of \<^verbatim>\<open>gameAction\<close> messages on one room of the base server.\<close>

fun run :: "(string \<times> action) list \<Rightarrow> gameRoom \<Rightarrow> error + gameRoom" where
  "run [] r = Inr r"
| "run ((sid, act) # rest) r = bindE (gameAction sid act r) (run rest)"

definition woundedGeneral :: piece where
  "woundedGeneral =
     \<lparr> ptype = General, player = 2, health = 1, maxHealth = 3,
       hasBeenReplenished = False, ammo = None, chargeDirection = None,
       placedInTurn = None, nation = None \<rparr>"

text \<open>
  Base server, battle phase, seat 1 has moved and has its Light Infantry at (2,2)
  selected; the General of seat 2, at health 1, stands next to it at (2,3), and a Light
  Infantry of seat 2 at (5,5).
\<close>

definition generalRoom :: gameRoom where
  "generalRoom =
     \<lparr> roomId = ''room'', players = [(''a'', seatA), (''b'', seatB)],
       gameState = initializeGameState
         \<lparr> gamePhase := Battle, placementTurn := 3, hasMoved := True,
           board := setCell (setCell (setCell (\<lambda>row col. None) 2 2 (Some lightInfantry1))
                      2 3 (Some woundedGeneral)) 5 5 (Some lightInfantry2),
           selectedCell := Some (2, 2) \<rparr>,
       spectators = {}, sent = [] \<rparr>"

text \<open>
  Base server, battle phase, start of the turn of seat 1: its Cavalry stands at (2,4)
  and is selected; the row has columns 0 to 5.
\<close>

definition staleRoom :: gameRoom where
  "staleRoom =
     \<lparr> roomId = ''room'', players = [(''a'', seatA), (''b'', seatB)],
       gameState = initializeGameState
         \<lparr> gamePhase := Battle, placementTurn := 3,
           board := setCell (\<lambda>row col. None) 2 4 (Some cavalry1),
           selectedCell := Some (2, 4) \<rparr>,
       spectators = {}, sent = [] \<rparr>"

text \<open>
  The rooms of the base server that a sequence of intents can produce: a room is
  created by the first join, sockets join and leave (a room whose \<^verbatim>\<open>removePlayer\<close>
  returns \<^verbatim>\<open>true\<close> is deleted), and seats send \<^verbatim>\<open>gameAction\<close> messages.
\<close>

inductive reachable :: "gameRoom \<Rightarrow> bool" where
  created: "reachable (newGameRoom rid)"
| joined: "reachable r \<Longrightarrow> reachable (snd (addPlayer sid playerName r))"
| left: "reachable r \<Longrightarrow> \<not> fst (removePlayer sid r) \<Longrightarrow> reachable (snd (removePlayer sid r))"
| acted: "reachable r \<Longrightarrow> gameAction sid act r = Inr r' \<Longrightarrow> reachable r'"

text \<open>Every piece on the board has positive health (and positive maximal health).\<close>

definition allAlive :: "board \<Rightarrow> bool" where
  "allAlive b = (\<forall>row col p. b row col = Some p \<longrightarrow> health p > 0 \<and> maxHealth p > 0)"

text \<open>
  Base server, battle phase, seat 1 has moved and has its Light Infantry at (2,2)
  selected; the General of seat 2, at health 1, stands next to it at (2,3), and a Light
  Infantry of seat 2 at (3,3).
\<close>

definition duelRoom :: gameRoom where
  "duelRoom =
     \<lparr> roomId = ''room'', players = [(''a'', seatA), (''b'', seatB)],
       gameState = initializeGameState
         \<lparr> gamePhase := Battle, placementTurn := 3, hasMoved := True,
           board := setCell (setCell (setCell (\<lambda>row col. None) 2 2 (Some lightInfantry1))
                      2 3 (Some woundedGeneral)) 3 3 (Some lightInfantry2),
           selectedCell := Some (2, 2) \<rparr>,
       spectators = {}, sent = [] \<rparr>"

section \<open>Properties\<close>

lemmas room_simps = emit_def broadcastGameState_def broadcastMessage_def broadcastPlayerList_def
  withBoard_def clearSelection_def setHasMoved_def setHasAttacked_def setPhase_def

subsection \<open>Session directory\<close>

lemma removePlayer_flag:
  "fst (removePlayer sid r)
     = (map_of (players r) sid \<noteq> None \<and> AList.delete sid (players r) = [])"
  by (auto simp: removePlayer_def Let_def split: option.splits)

lemma disconnect_lookup:
  "distinct (map fst rooms) \<Longrightarrow>
   map_of (disconnect sid rooms) rid
     = (case map_of rooms rid of
          None \<Rightarrow> None
        | Some room \<Rightarrow>
            if fst (removePlayer sid room) then None else Some (snd (removePlayer sid room)))"
proof (induction rooms)
  case Nil
  then show ?case by simp
next
  case (Cons entry rooms)
  obtain k room where entry: "entry = (k, room)" by (cases entry)
  have notin: "k \<notin> fst ` set rooms" and dist: "distinct (map fst rooms)"
    using Cons.prems entry by auto
  have absent: "map_of rooms k = None"
    using notin by (simp add: map_of_eq_None_iff)
  show ?case
  proof (cases "rid = k")
    case True
    then show ?thesis
      using Cons.IH [OF dist] absent entry
      by (auto simp: split_beta Let_def split: option.splits)
  next
    case False
    then show ?thesis
      using Cons.IH [OF dist] entry
      by (auto simp: split_beta Let_def split: option.splits)
  qed
qed

text \<open>
  Claim C8, as the code has it. The \<^verbatim>\<open>disconnect\<close> handler removes a room of the
  directory exactly when the departing socket is a seat of the room and no seat remains
  once it is deleted. The spectator set plays no part: the departure of the last seat
  removes a room that spectators still watch, and the departure of a socket that is not
  a seat (a spectator) never removes a room.
\<close>

theorem room_removed_iff_last_seat_leaves:
  "distinct (map fst rooms) \<Longrightarrow> map_of rooms rid = Some room \<Longrightarrow>
   (map_of (disconnect sid rooms) rid = None)
     = (map_of (players room) sid \<noteq> None \<and> AList.delete sid (players room) = [])"
proof -
  assume d: "distinct (map fst rooms)" and m: "map_of rooms rid = Some room"
  have "map_of (disconnect sid rooms) rid
          = (if fst (removePlayer sid room) then None else Some (snd (removePlayer sid room)))"
    using disconnect_lookup [OF d, of sid rid] m by simp
  then have "(map_of (disconnect sid rooms) rid = None) = fst (removePlayer sid room)"
    by simp
  then show ?thesis
    by (simp only: removePlayer_flag)
qed

theorem room_removed_iff_last_seat_leaves_witness:
  "distinct (map fst [(''room'', spectatedRoom)])
   \<and> map_of [(''room'', spectatedRoom)] ''room'' = Some spectatedRoom
   \<and> spectators spectatedRoom = {''c''}
   \<and> map_of (disconnect ''b'' [(''room'', spectatedRoom)]) ''room'' = None
   \<and> map_of (disconnect ''c'' [(''room'', spectatedRoom)]) ''room'' \<noteq> None"
proof -
  have d: "distinct (map fst [(''room'', spectatedRoom)])" by simp
  have m: "map_of [(''room'', spectatedRoom)] ''room'' = Some spectatedRoom" by simp
  have s: "spectators spectatedRoom = {''c''}" by (simp add: spectatedRoom_def)
  have b: "map_of (players spectatedRoom) ''b'' \<noteq> None
           \<and> AList.delete ''b'' (players spectatedRoom) = []"
    by (simp add: spectatedRoom_def)
  have c: "\<not> (map_of (players spectatedRoom) ''c'' \<noteq> None
              \<and> AList.delete ''c'' (players spectatedRoom) = [])"
    by (simp add: spectatedRoom_def)
  have 1: "map_of (disconnect ''b'' [(''room'', spectatedRoom)]) ''room'' = None"
    using room_removed_iff_last_seat_leaves [OF d m, of "''b''"] b by blast
  have 2: "map_of (disconnect ''c'' [(''room'', spectatedRoom)]) ''room'' \<noteq> None"
    using room_removed_iff_last_seat_leaves [OF d m, of "''c''"] c by blast
  show ?thesis using d m s 1 2 by blast
qed

text \<open>
  Claim C8 as stated fails: after seat \<open>a\<close> has left, the room has the seat \<open>b\<close> and the
  spectator \<open>c\<close>; when \<open>b\<close> leaves, the spectator remains and the room is removed all
  the same.
\<close>

theorem room_removed_with_spectator_present:
  "map_option seatIds (map_of (disconnect ''a'' threeJoined) ''room'') = Some [''b'']
   \<and> map_option spectators (map_of (disconnect ''a'' threeJoined) ''room'') = Some {''c''}
   \<and> map_of (disconnect ''b'' (disconnect ''a'' threeJoined)) ''room'' = None"
  by (simp add: threeJoined_def joinRoom_def newGameRoom_def addPlayer_def Let_def room_simps
      seatIds_def getPlayerName_def removePlayer_def)

subsection \<open>Ruleset toggles\<close>

text \<open>
  Claim C10. A \<^verbatim>\<open>toggleOption\<close> action of a socket that is not a seat of the room (a
  spectator) changes nothing. For a seat, whether or not it is the seat to move, in the
  phases \<open>waiting\<close> and \<open>placement\<close> the option \<open>lineOfSight\<close> flips
  \<open>lineOfSightEnabled\<close> and the option \<open>limitedRange\<close> flips \<open>limitedRangeEnabled\<close>,
  and nothing else of the game state changes. In every other phase the action leaves
  the room as it is.
\<close>

theorem toggleOption_gating:
  "(getPlayerBySocketId r sid = None \<longrightarrow> gameAction sid (ToggleOption opt) r = Inr r)
   \<and> (getPlayerBySocketId r sid \<noteq> None
        \<and> (gamePhase (gameState r) = Waiting \<or> gamePhase (gameState r) = Placement) \<longrightarrow>
        (\<exists>r1 r2.
           gameAction sid (ToggleOption ''lineOfSight'') r = Inr r1
           \<and> gameState r1 = (gameState r)\<lparr>lineOfSightEnabled := \<not> lineOfSightEnabled (gameState r)\<rparr>
           \<and> gameAction sid (ToggleOption ''limitedRange'') r = Inr r2
           \<and> gameState r2 = (gameState r)\<lparr>limitedRangeEnabled := \<not> limitedRangeEnabled (gameState r)\<rparr>))
   \<and> (gamePhase (gameState r) \<noteq> Waiting \<and> gamePhase (gameState r) \<noteq> Placement \<longrightarrow>
        gameAction sid (ToggleOption opt) r = Inr r)"
  by (auto simp: gameAction_def handleToggleOption_def Let_def room_simps split: option.splits)

theorem toggleOption_gating_witness:
  "getPlayerBySocketId placementRoom ''c'' = None
   \<and> gameAction ''c'' (ToggleOption ''lineOfSight'') placementRoom = Inr placementRoom
   \<and> getPlayerBySocketId placementRoom ''b'' \<noteq> None
   \<and> \<not> isPlayerTurn placementRoom ''b''
   \<and> gamePhase (gameState placementRoom) = Placement
   \<and> (\<exists>r1 r2.
         gameAction ''b'' (ToggleOption ''lineOfSight'') placementRoom = Inr r1
         \<and> lineOfSightEnabled (gameState r1)
         \<and> gameAction ''b'' (ToggleOption ''limitedRange'') placementRoom = Inr r2
         \<and> limitedRangeEnabled (gameState r2))
   \<and> gamePhase (gameState (setPhase Battle placementRoom)) = Battle
   \<and> gameAction ''b'' (ToggleOption ''lineOfSight'') (setPhase Battle placementRoom)
       = Inr (setPhase Battle placementRoom)"
proof -
  have n: "getPlayerBySocketId placementRoom ''c'' = None"
    by (simp add: getPlayerBySocketId_def placementRoom_def)
  have s: "getPlayerBySocketId placementRoom ''b'' \<noteq> None"
    by (simp add: getPlayerBySocketId_def placementRoom_def)
  have t: "\<not> isPlayerTurn placementRoom ''b''"
    by (simp add: isPlayerTurn_def getPlayerBySocketId_def placementRoom_def seatB_def
        initializeGameState_def)
  have p: "gamePhase (gameState placementRoom) = Placement"
    by (simp add: placementRoom_def)
  have b: "gamePhase (gameState (setPhase Battle placementRoom)) = Battle"
    by (simp add: setPhase_def)
  have b': "gamePhase (gameState (setPhase Battle placementRoom)) \<noteq> Waiting
            \<and> gamePhase (gameState (setPhase Battle placementRoom)) \<noteq> Placement"
    by (simp add: setPhase_def)
  from toggleOption_gating [of placementRoom "''c''" "''lineOfSight''"] n
  have 1: "gameAction ''c'' (ToggleOption ''lineOfSight'') placementRoom = Inr placementRoom"
    by blast
  from toggleOption_gating [of placementRoom "''b''" "''lineOfSight''"] s p
  obtain r1 r2 where 2:
    "gameAction ''b'' (ToggleOption ''lineOfSight'') placementRoom = Inr r1"
    "gameState r1 = (gameState placementRoom)
                      \<lparr>lineOfSightEnabled := \<not> lineOfSightEnabled (gameState placementRoom)\<rparr>"
    "gameAction ''b'' (ToggleOption ''limitedRange'') placementRoom = Inr r2"
    "gameState r2 = (gameState placementRoom)
                      \<lparr>limitedRangeEnabled := \<not> limitedRangeEnabled (gameState placementRoom)\<rparr>"
    by blast
  have 3: "lineOfSightEnabled (gameState r1)" "limitedRangeEnabled (gameState r2)"
    using 2 by (simp_all add: placementRoom_def initializeGameState_def)
  from toggleOption_gating [of "setPhase Battle placementRoom" "''b''" "''lineOfSight''"] b'
  have 4: "gameAction ''b'' (ToggleOption ''lineOfSight'') (setPhase Battle placementRoom)
             = Inr (setPhase Battle placementRoom)"
    by blast
  show ?thesis using n s t p b 1 2 3 4 by blast
qed

subsection \<open>Board bounds of a move\<close>

lemma canMove_sized_in_bounds:
  "canMove_sized p fromRow fromCol toRow toCol bs \<Longrightarrow>
     0 \<le> toRow \<and> toRow < height bs \<and> 0 \<le> toCol \<and> toCol < width bs"
  by (auto simp: canMove_sized_def split: if_splits)

lemma canMove_empires_in_bounds:
  "canMove_empires p fromRow fromCol toRow toCol \<Longrightarrow>
     0 \<le> toRow \<and> toRow < 7 \<and> 0 \<le> toCol \<and> toCol < 7"
  by (auto simp: canMove_empires_def Let_def split: if_splits)

text \<open>
  Claim C9 at the failing input. \<^verbatim>\<open>canMove\<close> of the server with board size options and
  of the Ancient Empires server reject a destination outside the board (the two lemmas
  above); \<^verbatim>\<open>canMove\<close> of the base server has no bounds check. There a Light Infantry
  in the corner (0,0) may move to column -1: \<^verbatim>\<open>canMove\<close> accepts, and the
  \<^verbatim>\<open>selectCell\<close> handler writes the piece to \<^verbatim>\<open>board[0][-1]\<close> and empties (0,0).
\<close>

theorem canMove_accepts_column_outside_board:
  "canMove lightInfantry1 0 0 0 (- 1)
   \<and> (\<exists>r'. handleSelectCell seatA 0 (- 1) edgeRoom = Inr r'
        \<and> board (gameState r') 0 (- 1) = Some lightInfantry1
        \<and> board (gameState r') 0 0 = None
        \<and> hasMoved (gameState r'))"
  by (simp add: canMove_def distance_def lightInfantry1_def handleSelectCell_def edgeRoom_def
      seatA_def seatB_def isPlayerTurn_def getPlayerBySocketId_def initializeGameState_def
      bindE_def cellAt_def rowExists_def setCell_def movePiece_def writeCell_def
      checkForHealing_def room_simps Let_def)

theorem canMove_accepts_column_outside_board_witness:
  "\<exists>r'. handleSelectCell seatA 0 (- 1) edgeRoom = Inr r'
      \<and> board (gameState r') 0 (- 1) \<noteq> None"
  using canMove_accepts_column_outside_board by auto

subsection \<open>Archer attacks\<close>

lemma losAlongRow_eq:
  "rowExists fromRow \<Longrightarrow>
   losAlongRow b fromRow col endCol = Inr (\<forall>c. col \<le> c \<and> c < endCol \<longrightarrow> b fromRow c = None)"
proof (induction b fromRow col endCol rule: losAlongRow.induct)
  case (1 b fromRow col endCol)
  show ?case
  proof (cases "col < endCol")
    case False
    then show ?thesis by (auto simp: losAlongRow.simps [of b fromRow col])
  next
    case True
    show ?thesis
    proof (cases "b fromRow col")
      case (Some p)
      then show ?thesis
        using True "1.prems" by (auto simp: losAlongRow.simps [of b fromRow col] cellAt_def)
    next
      case None
      have step: "losAlongRow b fromRow (col + 1) endCol
                    = Inr (\<forall>c. col + 1 \<le> c \<and> c < endCol \<longrightarrow> b fromRow c = None)"
        using "1.IH" [OF True _ None] "1.prems" by (simp add: cellAt_def)
      have "(\<forall>c. col \<le> c \<and> c < endCol \<longrightarrow> b fromRow c = None)
              = (\<forall>c. col + 1 \<le> c \<and> c < endCol \<longrightarrow> b fromRow c = None)"
      proof
        assume "\<forall>c. col \<le> c \<and> c < endCol \<longrightarrow> b fromRow c = None"
        then show "\<forall>c. col + 1 \<le> c \<and> c < endCol \<longrightarrow> b fromRow c = None" by auto
      next
        assume a: "\<forall>c. col + 1 \<le> c \<and> c < endCol \<longrightarrow> b fromRow c = None"
        show "\<forall>c. col \<le> c \<and> c < endCol \<longrightarrow> b fromRow c = None"
        proof (intro allI impI)
          fix c assume c: "col \<le> c \<and> c < endCol"
          show "b fromRow c = None"
          proof (cases "c = col")
            case True then show ?thesis using None by simp
          next
            case False then show ?thesis using a c by auto
          qed
        qed
      qed
      then show ?thesis
        using True None step "1.prems" by (simp add: losAlongRow.simps [of b fromRow col] cellAt_def)
    qed
  qed
qed

lemma losAlongCol_eq:
  "0 \<le> row \<Longrightarrow> endRow \<le> 7 \<Longrightarrow>
   losAlongCol b fromCol row endRow = Inr (\<forall>k. row \<le> k \<and> k < endRow \<longrightarrow> b k fromCol = None)"
proof (induction b fromCol row endRow rule: losAlongCol.induct)
  case (1 b fromCol row endRow)
  show ?case
  proof (cases "row < endRow")
    case False
    then show ?thesis by (auto simp: losAlongCol.simps [of b fromCol row])
  next
    case True
    then have ex: "rowExists row" using "1.prems" by (simp add: rowExists_def)
    show ?thesis
    proof (cases "b row fromCol")
      case (Some p)
      then show ?thesis
        using True ex by (auto simp: losAlongCol.simps [of b fromCol row] cellAt_def)
    next
      case None
      have step: "losAlongCol b fromCol (row + 1) endRow
                    = Inr (\<forall>k. row + 1 \<le> k \<and> k < endRow \<longrightarrow> b k fromCol = None)"
        using "1.IH" [OF True _ None] "1.prems" ex by (simp add: cellAt_def)
      have "(\<forall>k. row \<le> k \<and> k < endRow \<longrightarrow> b k fromCol = None)
              = (\<forall>k. row + 1 \<le> k \<and> k < endRow \<longrightarrow> b k fromCol = None)"
      proof
        assume "\<forall>k. row \<le> k \<and> k < endRow \<longrightarrow> b k fromCol = None"
        then show "\<forall>k. row + 1 \<le> k \<and> k < endRow \<longrightarrow> b k fromCol = None" by auto
      next
        assume a: "\<forall>k. row + 1 \<le> k \<and> k < endRow \<longrightarrow> b k fromCol = None"
        show "\<forall>k. row \<le> k \<and> k < endRow \<longrightarrow> b k fromCol = None"
        proof (intro allI impI)
          fix k assume k: "row \<le> k \<and> k < endRow"
          show "b k fromCol = None"
          proof (cases "k = row")
            case True then show ?thesis using None by simp
          next
            case False then show ?thesis using a k by auto
          qed
        qed
      qed
      then show ?thesis
        using True None step ex by (simp add: losAlongCol.simps [of b fromCol row] cellAt_def)
    qed
  qed
qed

lemma hasLineOfSight_eq:
  assumes "rowExists fromRow" "rowExists toRow"
  shows "hasLineOfSight fromRow fromCol toRow toCol b
           = Inr (unobstructed b fromRow fromCol toRow toCol)"
proof (cases "fromRow = toRow")
  case True
  have "(\<forall>c. min fromCol toCol + 1 \<le> c \<and> c < max fromCol toCol \<longrightarrow> b fromRow c = None)
          = (\<forall>c. min fromCol toCol < c \<and> c < max fromCol toCol \<longrightarrow> b fromRow c = None)"
    by auto
  then show ?thesis
    using True assms by (simp add: hasLineOfSight_def losAlongRow_eq unobstructed_def)
next
  case False
  show ?thesis
  proof (cases "fromCol = toCol")
    case True
    have lo: "0 \<le> min fromRow toRow + 1" and hi: "max fromRow toRow \<le> 7"
      using assms by (auto simp: rowExists_def)
    have "(\<forall>k. min fromRow toRow + 1 \<le> k \<and> k < max fromRow toRow \<longrightarrow> b k fromCol = None)
            = (\<forall>k. min fromRow toRow < k \<and> k < max fromRow toRow \<longrightarrow> b k fromCol = None)"
      by auto
    then show ?thesis
      using True False by (simp add: hasLineOfSight_def losAlongCol_eq [OF lo hi] unobstructed_def)
  next
    case False
    then show ?thesis
      using \<open>fromRow \<noteq> toRow\<close> by (simp add: hasLineOfSight_def unobstructed_def)
  qed
qed

lemma canAttack_archer:
  assumes "ptype archer = Archer" "rowExists fromRow" "rowExists toRow"
    and "board gs toRow toCol = Some t" "player t \<noteq> player archer"
  shows "canAttack archer fromRow fromCol toRow toCol gs
           = Inr (distance fromRow fromCol toRow toCol = 1
                  \<or> (ammoPositive archer \<and> (fromRow = toRow \<or> fromCol = toCol)
                     \<and> (limitedRangeEnabled gs \<longrightarrow> distance fromRow fromCol toRow toCol \<le> 4)
                     \<and> (lineOfSightEnabled gs \<longrightarrow>
                          unobstructed (board gs) fromRow fromCol toRow toCol)))"
  using assms
  by (auto simp: canAttack_def bindE_def cellAt_def hasLineOfSight_eq)

lemma handleSelectCell_rejected_attack:
  assumes "gamePhase (gameState r) = Battle" "isPlayerTurn r (socketId seat)"
    and "selectedCell (gameState r) = Some (fromRow, fromCol)"
    and "rowExists fromRow" "rowExists toRow"
    and "board (gameState r) fromRow fromCol = Some attacker"
    and "board (gameState r) toRow toCol = Some t" "player t \<noteq> player attacker"
    and "canAttack attacker fromRow fromCol toRow toCol (gameState r) = Inr False"
  shows "handleSelectCell seat toRow toCol r
           = Inr (broadcastGameState (clearSelection
                    (broadcastMessage ''Invalid move or attack!'' Error r)))"
proof -
  have ne: "\<not> (fromRow = toRow \<and> fromCol = toCol)"
    using assms(6,7,8) by auto
  show ?thesis
    using assms ne
    by (auto simp: handleSelectCell_def Let_def bindE_def cellAt_def)
qed

text \<open>
  Claim C4. An Archer of the seat to move is selected at \<open>(fromRow, fromCol)\<close> and an
  enemy piece stands at \<open>(toRow, toCol)\<close>. At Manhattan distance 1 \<^verbatim>\<open>canAttack\<close> accepts
  whatever the ammo. At a greater distance it accepts exactly when the ammo is positive,
  the two cells share a row or a column, the distance is at most 4 if the limited range
  toggle is on, and no occupied cell lies strictly between them if the line-of-sight
  toggle is on. When \<^verbatim>\<open>canAttack\<close> refuses, the \<^verbatim>\<open>selectCell\<close> handler leaves the board,
  the rosters and the turn flags as they were: only the selection cursor is cleared.
\<close>

theorem archer_attack_legality:
  assumes "ptype archer = Archer"
    and "gamePhase (gameState r) = Battle" "isPlayerTurn r (socketId seat)"
    and "selectedCell (gameState r) = Some (fromRow, fromCol)"
    and "rowExists fromRow" "rowExists toRow"
    and "board (gameState r) fromRow fromCol = Some archer"
    and "board (gameState r) toRow toCol = Some t" "player t \<noteq> player archer"
  shows "(distance fromRow fromCol toRow toCol = 1 \<longrightarrow>
            canAttack archer fromRow fromCol toRow toCol (gameState r) = Inr True)
       \<and> (distance fromRow fromCol toRow toCol > 1 \<longrightarrow>
            canAttack archer fromRow fromCol toRow toCol (gameState r)
              = Inr (ammoPositive archer \<and> (fromRow = toRow \<or> fromCol = toCol)
                     \<and> (limitedRangeEnabled (gameState r) \<longrightarrow>
                          distance fromRow fromCol toRow toCol \<le> 4)
                     \<and> (lineOfSightEnabled (gameState r) \<longrightarrow>
                          unobstructed (board (gameState r)) fromRow fromCol toRow toCol)))
       \<and> (canAttack archer fromRow fromCol toRow toCol (gameState r) = Inr False \<longrightarrow>
            (\<exists>r'. handleSelectCell seat toRow toCol r = Inr r'
               \<and> gameState r' = (gameState r)\<lparr>selectedCell := None\<rparr>))"
proof (intro conjI impI)
  assume "distance fromRow fromCol toRow toCol = 1"
  then show "canAttack archer fromRow fromCol toRow toCol (gameState r) = Inr True"
    using canAttack_archer [OF assms(1,5,6,8,9), of fromCol] by simp
next
  assume "distance fromRow fromCol toRow toCol > 1"
  then show "canAttack archer fromRow fromCol toRow toCol (gameState r)
              = Inr (ammoPositive archer \<and> (fromRow = toRow \<or> fromCol = toCol)
                     \<and> (limitedRangeEnabled (gameState r) \<longrightarrow>
                          distance fromRow fromCol toRow toCol \<le> 4)
                     \<and> (lineOfSightEnabled (gameState r) \<longrightarrow>
                          unobstructed (board (gameState r)) fromRow fromCol toRow toCol))"
    using canAttack_archer [OF assms(1,5,6,8,9), of fromCol] by simp
next
  assume rej: "canAttack archer fromRow fromCol toRow toCol (gameState r) = Inr False"
  have "handleSelectCell seat toRow toCol r
          = Inr (broadcastGameState (clearSelection
                   (broadcastMessage ''Invalid move or attack!'' Error r)))"
    by (rule handleSelectCell_rejected_attack [OF assms(2,3,4,5,6,7,8,9) rej])
  then show "\<exists>r'. handleSelectCell seat toRow toCol r = Inr r'
               \<and> gameState r' = (gameState r)\<lparr>selectedCell := None\<rparr>"
    by (simp add: room_simps)
qed

lemma archerRoom_facts:
  "ptype archer1 = Archer"
  "gamePhase (gameState archerRoom) = Battle"
  "isPlayerTurn archerRoom (socketId seatA)"
  "selectedCell (gameState archerRoom) = Some (2, 0)"
  "rowExists 2"
  "board (gameState archerRoom) 2 0 = Some archer1"
  "board (gameState archerRoom) 2 4 = Some general2"
  "player general2 \<noteq> player archer1"
  by (simp_all add: archer1_def general2_def archerRoom_def isPlayerTurn_def
      getPlayerBySocketId_def seatA_def seatB_def initializeGameState_def rowExists_def
      setCell_def)

theorem archer_attack_legality_witness:
  "ptype archer1 = Archer
   \<and> gamePhase (gameState archerRoom) = Battle \<and> isPlayerTurn archerRoom (socketId seatA)
   \<and> selectedCell (gameState archerRoom) = Some (2, 0)
   \<and> board (gameState archerRoom) 2 0 = Some archer1
   \<and> board (gameState archerRoom) 2 4 = Some general2
   \<and> player general2 \<noteq> player archer1
   \<and> ammoPositive archer1 \<and> distance 2 0 2 4 = 4
   \<and> \<not> unobstructed (board (gameState archerRoom)) 2 0 2 4
   \<and> canAttack archer1 2 0 2 4 (gameState archerRoom) = Inr False
   \<and> (\<exists>r'. handleSelectCell seatA 2 4 archerRoom = Inr r'
         \<and> gameState r' = (gameState archerRoom)\<lparr>selectedCell := None\<rparr>)"
proof -
  note f = archerRoom_facts
  note th = archer_attack_legality [OF f(1) f(2) f(3) f(4) f(5) f(5) f(6) f(7) f(8)]
  have d: "distance 2 0 2 4 = 4" by (simp add: distance_def)
  have a: "ammoPositive archer1" by (simp add: ammoPositive_def archer1_def)
  have "board (gameState archerRoom) 2 2 \<noteq> None"
    by (simp add: archerRoom_def setCell_def)
  then have u: "\<not> unobstructed (board (gameState archerRoom)) 2 0 2 4"
    by (auto simp: unobstructed_def intro!: exI [of _ 2])
  have los: "lineOfSightEnabled (gameState archerRoom)"
    by (simp add: archerRoom_def)
  have c: "canAttack archer1 2 0 2 4 (gameState archerRoom) = Inr False"
    using th d u los by simp
  have h: "\<exists>r'. handleSelectCell seatA 2 4 archerRoom = Inr r'
         \<and> gameState r' = (gameState archerRoom)\<lparr>selectedCell := None\<rparr>"
    using th c by blast
  show ?thesis using f d a u c h by blast
qed

lemma clearChargeAt_cell:
  "clearChargeAt b rc row col = (if (row, col) = rc then clearCharge (b row col) else b row col)"
  by (cases rc) (auto simp: clearChargeAt_def clearCharge_def setCell_def split: option.splits)

lemma clearCharge_idem: "clearCharge (clearCharge c) = clearCharge c"
  by (auto simp: clearCharge_def split: option.splits)

lemma foldl_clearChargeAt:
  "foldl clearChargeAt b cells row col
     = (if (row, col) \<in> set cells then clearCharge (b row col) else b row col)"
proof (induction cells arbitrary: b)
  case Nil
  then show ?case by simp
next
  case (Cons c cells)
  have "foldl clearChargeAt b (c # cells) row col
          = foldl clearChargeAt (clearChargeAt b c) cells row col"
    by (simp only: foldl_Cons)
  also have "\<dots> = (if (row, col) \<in> set cells then clearCharge (clearChargeAt b c row col)
                   else clearChargeAt b c row col)"
    by (rule Cons.IH)
  also have "\<dots> = (if (row, col) \<in> set (c # cells) then clearCharge (b row col)
                   else b row col)"
    by (simp add: clearChargeAt_cell clearCharge_idem)
  finally show ?case .
qed

lemma clearCavalryCharges_cell:
  "clearCavalryCharges b row col
     = (if onBoard row col then clearCharge (b row col) else b row col)"
  by (auto simp: clearCavalryCharges_def foldl_clearChargeAt onBoard_def)

lemma handleEndTurn_board:
  assumes "isPlayerTurn r (socketId seat)"
    and "\<not> (gamePhase (gameState r) = Placement \<and> piecesPlacedThisTurn (gameState r) \<noteq> 4)"
  shows "board (gameState (handleEndTurn seat r)) = clearCavalryCharges (board (gameState r))"
  using assms by (auto simp: handleEndTurn_def Let_def room_simps)

lemma handleEndTurn_clears_charges:
  assumes "isPlayerTurn r (socketId seat)"
    and "\<not> (gamePhase (gameState r) = Placement \<and> piecesPlacedThisTurn (gameState r) \<noteq> 4)"
    and "onBoard row col"
    and "board (gameState (handleEndTurn seat r)) row col = Some p" "ptype p = Cavalry"
  shows "chargeDirection p = None"
  using assms(3,4,5) unfolding handleEndTurn_board [OF assms(1,2)]
  by (auto simp: clearCavalryCharges_cell clearCharge_def split: option.splits if_splits)

lemma movePiece_cavalry:
  assumes "rowExists fr" "rowExists tr" "board (gameState r) fr fc = Some cav"
    and "ptype cav = Cavalry" "distance fr fc tr tc = 2"
  shows "\<exists>r1 cav'. movePiece fr fc tr tc r = Inr r1
           \<and> board (gameState r1) tr tc = Some cav'
           \<and> board (gameState r1) fr fc = None
           \<and> (\<forall>row col. \<not> (row = tr \<and> col = tc) \<and> \<not> (row = fr \<and> col = fc) \<longrightarrow>
                 board (gameState r1) row col = board (gameState r) row col)
           \<and> ptype cav' = Cavalry \<and> player cav' = player cav
           \<and> chargeDirection cav' = Some (unitStep (tr - fr), unitStep (tc - fc))
           \<and> gameState r1 = (gameState r)\<lparr>board := board (gameState r1)\<rparr>
           \<and> players r1 = players r"
proof -
  have ne: "\<not> (tr = fr \<and> tc = fc)"
    using assms(5) by (auto simp: distance_def)
  show ?thesis
    using assms(1-4) ne
    by (auto simp: assms(5) movePiece_def bindE_def cellAt_def writeCell_def
        checkForHealing_def Let_def room_simps setCell_def)
qed

lemma handleSelectCell_move:
  assumes "gamePhase (gameState r) = Battle" "isPlayerTurn r (socketId seat)"
    and "selectedCell (gameState r) = Some (fr, fc)" "\<not> hasMoved (gameState r)"
    and "rowExists fr" "rowExists tr" "board (gameState r) fr fc = Some cav"
    and "ptype cav = Cavalry" "distance fr fc tr tc = 2" "fr = tr \<or> fc = tc"
    and "board (gameState r) tr tc = None"
  shows "\<exists>r1 cav'. handleSelectCell seat tr tc r = Inr r1
           \<and> board (gameState r1) tr tc = Some cav'
           \<and> (\<forall>row col. \<not> (row = tr \<and> col = tc) \<and> \<not> (row = fr \<and> col = fc) \<longrightarrow>
                 board (gameState r1) row col = board (gameState r) row col)
           \<and> ptype cav' = Cavalry \<and> player cav' = player cav
           \<and> chargeDirection cav' = Some (unitStep (tr - fr), unitStep (tc - fc))
           \<and> gameState r1 = (gameState r)\<lparr>board := board (gameState r1), hasMoved := True,
                                           selectedCell := None\<rparr>
           \<and> players r1 = players r"
proof -
  have ne: "\<not> (fr = tr \<and> fc = tc)"
    using assms(9) by (auto simp: distance_def)
  have cm: "canMove cav fr fc tr tc"
    using assms(8,9,10) by (auto simp: canMove_def distance_def Let_def)
  from movePiece_cavalry [OF assms(5,6,7,8,9)]
  obtain r0 cav' where m: "movePiece fr fc tr tc r = Inr r0"
    "board (gameState r0) tr tc = Some cav'"
    "\<forall>row col. \<not> (row = tr \<and> col = tc) \<and> \<not> (row = fr \<and> col = fc) \<longrightarrow>
        board (gameState r0) row col = board (gameState r) row col"
    "ptype cav' = Cavalry" "player cav' = player cav"
    "chargeDirection cav' = Some (unitStep (tr - fr), unitStep (tc - fc))"
    "gameState r0 = (gameState r)\<lparr>board := board (gameState r0)\<rparr>"
    "players r0 = players r"
    by blast
  have h: "handleSelectCell seat tr tc r
             = Inr (broadcastGameState (clearSelection
                 (broadcastMessage ''Move completed! You can now attack with any piece.'' Success
                    (setHasMoved r0))))"
    using assms(1-7,11) ne cm m(1)
    by (auto simp: handleSelectCell_def Let_def bindE_def cellAt_def)
  have gs: "gameState (broadcastGameState (clearSelection
                 (broadcastMessage ''Move completed! You can now attack with any piece.'' Success
                    (setHasMoved r0))))
              = (gameState r0)\<lparr>hasMoved := True, selectedCell := None\<rparr>"
    by (simp add: room_simps)
  show ?thesis
    apply (rule exI [of _ "broadcastGameState (clearSelection
                 (broadcastMessage ''Move completed! You can now attack with any piece.'' Success
                    (setHasMoved r0)))"])
    apply (rule exI [of _ cav'])
    apply (simp only: h gs)
    using m(2-8) apply (simp add: room_simps)
    done
qed

lemma handleSelectCell_select:
  assumes "gamePhase (gameState r) = Battle" "isPlayerTurn r (socketId seat)"
    and "selectedCell (gameState r) = None" "rowExists row"
    and "board (gameState r) row col = Some p" "player p = playerNumber seat"
  shows "handleSelectCell seat row col r
           = Inr (broadcastGameState
                    (r\<lparr>gameState := (gameState r)\<lparr>selectedCell := Some (row, col)\<rparr>\<rparr>))"
  using assms by (simp add: handleSelectCell_def Let_def bindE_def cellAt_def)

lemma attackPiece_charge:
  assumes "\<not> gameEnded (gameState r)" "rowExists ar" "rowExists (ar + dr)"
    and "board (gameState r) ar ac = Some cav" "ptype cav = Cavalry"
    and "chargeDirection cav = Some (dr, dc)" "\<bar>dr\<bar> + \<bar>dc\<bar> = 1"
    and "board (gameState r) (ar + dr) (ac + dc) = Some t"
  shows "\<exists>r'. attackPiece ar ac (ar + dr) (ac + dc) r = Inr r'
           \<and> board (gameState r') (ar + dr) (ac + dc)
               = afterDamage t (if ptype t = HeavyInfantry then 1 else 2)
           \<and> players r' = players r"
proof -
  have d: "distance ar ac (ar + dr) (ac + dc) = 1"
    using assms(7) by (simp add: distance_def)
  have ne: "\<not> (ar = ar + dr \<and> ac = ac + dc)"
    using assms(7) by auto
  show ?thesis
    using assms(1-6,8) ne
    by (auto simp: d attackPiece_def bindE_def cellAt_def Let_def room_simps setCell_def
        afterDamage_def)
qed

lemma handleSelectCell_attack:
  assumes "gamePhase (gameState r) = Battle" "isPlayerTurn r (socketId seat)"
    and "selectedCell (gameState r) = Some (ar, ac)"
    and "hasMoved (gameState r)" "\<not> hasAttacked (gameState r)" "\<not> gameEnded (gameState r)"
    and "rowExists ar" "rowExists (ar + dr)"
    and "board (gameState r) ar ac = Some cav" "ptype cav = Cavalry"
    and "chargeDirection cav = Some (dr, dc)" "\<bar>dr\<bar> + \<bar>dc\<bar> = 1"
    and "board (gameState r) (ar + dr) (ac + dc) = Some t" "player t \<noteq> player cav"
  shows "\<exists>r'. handleSelectCell seat (ar + dr) (ac + dc) r = Inr r'
           \<and> board (gameState r') (ar + dr) (ac + dc)
               = afterDamage t (if ptype t = HeavyInfantry then 1 else 2)"
proof -
  have d: "distance ar ac (ar + dr) (ac + dc) = 1"
    using assms(12) by (simp add: distance_def)
  have ne: "\<not> (ar = ar + dr \<and> ac = ac + dc)"
    using assms(12) by auto
  have ca: "canAttack cav ar ac (ar + dr) (ac + dc) (gameState r) = Inr True"
    using assms(8,10,13,14) d by (simp add: canAttack_def bindE_def cellAt_def)
  from attackPiece_charge [OF assms(6,7,8,9,10,11,12,13)]
  obtain r0 where a: "attackPiece ar ac (ar + dr) (ac + dc) r = Inr r0"
    "board (gameState r0) (ar + dr) (ac + dc)
       = afterDamage t (if ptype t = HeavyInfantry then 1 else 2)"
    by blast
  have "handleSelectCell seat (ar + dr) (ac + dc) r
          = Inr (broadcastGameState (clearSelection (setHasAttacked r0)))"
    using assms(1-5,7,8,9,13,14) ne ca a(1)
    by (auto simp: handleSelectCell_def Let_def bindE_def cellAt_def)
  then show ?thesis
    using a(2) by (simp add: room_simps)
qed

lemma gameAction_selectCell:
  "getPlayerBySocketId r sid = Some seat \<Longrightarrow>
   gameAction sid (SelectCell row col) r = handleSelectCell seat row col r"
  by (simp add: gameAction_def)

lemma unitStep_double:
  "\<bar>d\<bar> \<le> 1 \<Longrightarrow> unitStep (2 * d) = d"
  by (auto simp: unitStep_def)

text \<open>
  The charge, as far as claim C5 holds of the code. It is the turn of the seat of socket \<open>sid\<close> in the battle phase of a match
  that has not ended, nothing moved or attacked yet; its Cavalry at \<open>(fr, fc)\<close> is
  selected, \<open>(dr, dc)\<close> is one of the four unit directions, the cell \<open>(tr, tc)\<close> two
  steps away in that direction is empty and an enemy \<open>t\<close> stands one step further.
  Then the \<^verbatim>\<open>selectCell\<close> intent on \<open>(tr, tc)\<close> moves the Cavalry and records the charge
  direction \<open>(dr, dc)\<close>; selecting the Cavalry again and then the enemy, in the same
  turn, deals exactly 2 damage to an enemy that is not a Heavy Infantry and exactly 1 to
  a Heavy Infantry (the enemy leaves the board when its health reaches 0 or less).
  Every accepted \<^verbatim>\<open>endTurn\<close> leaves every Cavalry on the 7 by 6 board without a charge
  direction.
\<close>

theorem cavalry_charge_damage:
  assumes seat: "getPlayerBySocketId r sid = Some seat" "socketId seat = sid"
      "playerNumber seat = currentPlayer (gameState r)"
    and turn: "gamePhase (gameState r) = Battle" "\<not> gameEnded (gameState r)"
      "\<not> hasMoved (gameState r)" "\<not> hasAttacked (gameState r)"
    and cav: "selectedCell (gameState r) = Some (fr, fc)"
      "board (gameState r) fr fc = Some cav" "ptype cav = Cavalry"
      "player cav = playerNumber seat"
    and dir: "\<bar>dr\<bar> + \<bar>dc\<bar> = 1" "tr = fr + 2 * dr" "tc = fc + 2 * dc"
    and rows: "rowExists fr" "rowExists tr" "rowExists (tr + dr)"
    and dest: "board (gameState r) tr tc = None"
    and target: "board (gameState r) (tr + dr) (tc + dc) = Some t" "player t \<noteq> player cav"
  shows "(\<exists>r1 r2 r3 cav'.
            gameAction sid (SelectCell tr tc) r = Inr r1
          \<and> board (gameState r1) tr tc = Some cav' \<and> chargeDirection cav' = Some (dr, dc)
          \<and> gameAction sid (SelectCell tr tc) r1 = Inr r2
          \<and> gameAction sid (SelectCell (tr + dr) (tc + dc)) r2 = Inr r3
          \<and> board (gameState r3) (tr + dr) (tc + dc)
              = afterDamage t (if ptype t = HeavyInfantry then 1 else 2))
       \<and> (\<forall>seat0 r0 row col p.
            isPlayerTurn r0 (socketId seat0)
            \<and> \<not> (gamePhase (gameState r0) = Placement \<and> piecesPlacedThisTurn (gameState r0) \<noteq> 4)
            \<and> onBoard row col
            \<and> board (gameState (handleEndTurn seat0 r0)) row col = Some p \<and> ptype p = Cavalry
            \<longrightarrow> chargeDirection p = None)"
proof (rule conjI)
  have pt: "isPlayerTurn r (socketId seat)"
    using seat by (simp add: isPlayerTurn_def)
  have dist: "distance fr fc tr tc = 2"
    using dir by (auto simp: distance_def)
  have straight: "fr = tr \<or> fc = tc"
    using dir by auto
  have us: "unitStep (tr - fr) = dr" "unitStep (tc - fc) = dc"
    using dir unitStep_double [of dr] unitStep_double [of dc] by auto
  from handleSelectCell_move [OF turn(1) pt cav(1) turn(3) rows(1,2) cav(2,3) dist straight dest]
  obtain r1 cav' where m: "handleSelectCell seat tr tc r = Inr r1"
    "board (gameState r1) tr tc = Some cav'"
    "\<forall>row col. \<not> (row = tr \<and> col = tc) \<and> \<not> (row = fr \<and> col = fc) \<longrightarrow>
        board (gameState r1) row col = board (gameState r) row col"
    "ptype cav' = Cavalry" "player cav' = player cav"
    "chargeDirection cav' = Some (unitStep (tr - fr), unitStep (tc - fc))"
    "gameState r1 = (gameState r)\<lparr>board := board (gameState r1), hasMoved := True,
                                    selectedCell := None\<rparr>"
    "players r1 = players r"
    by blast
  have cd: "chargeDirection cav' = Some (dr, dc)"
    using m(6) us by simp
  have f1: "gamePhase (gameState r1) = Battle" "selectedCell (gameState r1) = None"
    "hasMoved (gameState r1)" "\<not> hasAttacked (gameState r1)" "\<not> gameEnded (gameState r1)"
    "currentPlayer (gameState r1) = currentPlayer (gameState r)"
    using turn by (subst m(7), simp)+
  have s1: "getPlayerBySocketId r1 sid = Some seat"
    using seat(1) m(8) by (simp add: getPlayerBySocketId_def)
  have pt1: "isPlayerTurn r1 (socketId seat)"
    using s1 seat(2,3) f1(6) by (simp add: isPlayerTurn_def)
  have own: "player cav' = playerNumber seat"
    using m(5) cav(4) by simp
  define r2 where
    "r2 = broadcastGameState (r1\<lparr>gameState := (gameState r1)\<lparr>selectedCell := Some (tr, tc)\<rparr>\<rparr>)"
  have sel: "handleSelectCell seat tr tc r1 = Inr r2"
    unfolding r2_def
    by (rule handleSelectCell_select [OF f1(1) pt1 f1(2) rows(2) m(2) own])
  have tcell: "\<not> (tr + dr = tr \<and> tc + dc = tc)" "\<not> (tr + dr = fr \<and> tc + dc = fc)"
    using dir by auto
  have f2: "gamePhase (gameState r2) = Battle" "selectedCell (gameState r2) = Some (tr, tc)"
    "hasMoved (gameState r2)" "\<not> hasAttacked (gameState r2)" "\<not> gameEnded (gameState r2)"
    "board (gameState r2) = board (gameState r1)" "players r2 = players r1"
    "currentPlayer (gameState r2) = currentPlayer (gameState r1)"
    using f1 by (simp_all add: r2_def room_simps)
  have s2: "getPlayerBySocketId r2 sid = Some seat"
    using s1 f2(7) by (simp add: getPlayerBySocketId_def)
  have pt2: "isPlayerTurn r2 (socketId seat)"
    using s2 seat(2,3) f1(6) f2(8) by (simp add: isPlayerTurn_def)
  have b2: "board (gameState r2) tr tc = Some cav'"
    using m(2) f2(6) by simp
  have t2: "board (gameState r2) (tr + dr) (tc + dc) = Some t"
    using m(3) tcell target(1) f2(6) by simp
  have en: "player t \<noteq> player cav'"
    using target(2) m(5) by simp
  from handleSelectCell_attack [OF f2(1) pt2 f2(2,3,4,5) rows(2,3) b2 m(4) cd dir(1) t2 en]
  obtain r3 where a: "handleSelectCell seat (tr + dr) (tc + dc) r2 = Inr r3"
    "board (gameState r3) (tr + dr) (tc + dc)
       = afterDamage t (if ptype t = HeavyInfantry then 1 else 2)"
    by blast
  show "\<exists>r1 r2 r3 cav'.
            gameAction sid (SelectCell tr tc) r = Inr r1
          \<and> board (gameState r1) tr tc = Some cav' \<and> chargeDirection cav' = Some (dr, dc)
          \<and> gameAction sid (SelectCell tr tc) r1 = Inr r2
          \<and> gameAction sid (SelectCell (tr + dr) (tc + dc)) r2 = Inr r3
          \<and> board (gameState r3) (tr + dr) (tc + dc)
              = afterDamage t (if ptype t = HeavyInfantry then 1 else 2)"
    using m(1,2) cd sel a
    by (auto simp: gameAction_selectCell [OF seat(1)] gameAction_selectCell [OF s1]
        gameAction_selectCell [OF s2])
next
  show "\<forall>seat0 r0 row col p.
            isPlayerTurn r0 (socketId seat0)
            \<and> \<not> (gamePhase (gameState r0) = Placement \<and> piecesPlacedThisTurn (gameState r0) \<noteq> 4)
            \<and> onBoard row col
            \<and> board (gameState (handleEndTurn seat0 r0)) row col = Some p \<and> ptype p = Cavalry
            \<longrightarrow> chargeDirection p = None"
    using handleEndTurn_clears_charges by blast
qed

lemma chargeRoom_facts:
  "getPlayerBySocketId chargeRoom ''a'' = Some seatA"
  "socketId seatA = ''a''"
  "playerNumber seatA = currentPlayer (gameState chargeRoom)"
  "gamePhase (gameState chargeRoom) = Battle"
  "\<not> gameEnded (gameState chargeRoom)"
  "\<not> hasMoved (gameState chargeRoom)"
  "\<not> hasAttacked (gameState chargeRoom)"
  "selectedCell (gameState chargeRoom) = Some (2, 0)"
  "board (gameState chargeRoom) 2 0 = Some cavalry1"
  "ptype cavalry1 = Cavalry"
  "player cavalry1 = playerNumber seatA"
  "board (gameState chargeRoom) 2 2 = None"
  "board (gameState chargeRoom) (2 + 0) (2 + 1) = Some lightInfantry2"
  "player lightInfantry2 \<noteq> player cavalry1"
  by (simp_all add: chargeRoom_def getPlayerBySocketId_def seatA_def seatB_def
      initializeGameState_def cavalry1_def lightInfantry2_def setCell_def)

theorem cavalry_charge_damage_witness:
  "getPlayerBySocketId chargeRoom ''a'' = Some seatA
   \<and> gamePhase (gameState chargeRoom) = Battle
   \<and> selectedCell (gameState chargeRoom) = Some (2, 0)
   \<and> board (gameState chargeRoom) 2 0 = Some cavalry1
   \<and> board (gameState chargeRoom) 2 2 = None
   \<and> board (gameState chargeRoom) 2 3 = Some lightInfantry2
   \<and> (\<exists>r1 r2 r3 cav'.
         gameAction ''a'' (SelectCell 2 2) chargeRoom = Inr r1
         \<and> board (gameState r1) 2 2 = Some cav' \<and> chargeDirection cav' = Some (0, 1)
         \<and> gameAction ''a'' (SelectCell 2 2) r1 = Inr r2
         \<and> gameAction ''a'' (SelectCell 2 3) r2 = Inr r3
         \<and> board (gameState r3) 2 3 = None)"
proof -
  note f = chargeRoom_facts
  have dir: "\<bar>0::int\<bar> + \<bar>1::int\<bar> = 1" "(2::int) = 2 + 2 * 0" "(2::int) = 0 + 2 * 1"
    by simp_all
  have rows: "rowExists 2" "rowExists (2 + 0)"
    by (simp_all add: rowExists_def)
  note th = cavalry_charge_damage [OF f(1) f(2) f(3) f(4) f(5) f(6) f(7) f(8) f(9) f(10) f(11)
      dir(1) dir(2) dir(3) rows(1) rows(1) rows(2) f(12) f(13) f(14)]
  have dmg: "afterDamage lightInfantry2 (if ptype lightInfantry2 = HeavyInfantry then 1 else 2)
               = None"
    by (simp add: afterDamage_def lightInfantry2_def)
  from th dmg have
    "\<exists>r1 r2 r3 cav'.
         gameAction ''a'' (SelectCell 2 2) chargeRoom = Inr r1
         \<and> board (gameState r1) 2 2 = Some cav' \<and> chargeDirection cav' = Some (0, 1)
         \<and> gameAction ''a'' (SelectCell 2 2) r1 = Inr r2
         \<and> gameAction ''a'' (SelectCell 2 3) r2 = Inr r3
         \<and> board (gameState r3) 2 3 = None"
    by simp
  then show ?thesis
    using f by simp
qed

subsection \<open>Rejected intents\<close>

lemma movePiece_sent:
  "movePiece fr fc tr tc r = Inr r1 \<Longrightarrow>
   \<exists>es. sent r1 = sent r @ es \<and> \<not> list_ex isError es"
  by (auto simp: movePiece_def bindE_def cellAt_def writeCell_def checkForHealing_def Let_def
      room_simps isError_def split: option.splits if_splits)

lemma attackPiece_sent:
  "attackPiece ar ac tr tc r = Inr r1 \<Longrightarrow>
   \<exists>es. sent r1 = sent r @ es \<and> \<not> list_ex isError es"
  by (auto simp: attackPiece_def bindE_def cellAt_def Let_def room_simps isError_def
      split: option.splits if_splits)

lemma not_rejected_append:
  "sent r' = sent r @ es @ [e] \<Longrightarrow> \<not> list_ex isError es \<Longrightarrow> \<not> isError e \<Longrightarrow>
   \<not> rejected r r'"
  by (auto simp: rejected_def newEvents_def)

lemma rejected_place:
  "handlePlacePiece seat t row col r = Inr r' \<Longrightarrow> rejected r r' \<Longrightarrow>
   gameState r' = gameState r"
  by (auto simp: handlePlacePiece_def bindE_def cellAt_def Let_def room_simps rejected_def
      newEvents_def isError_def split: option.splits if_splits)

lemma rejected_endTurn:
  "rejected r (handleEndTurn seat r) \<Longrightarrow> gameState (handleEndTurn seat r) = gameState r"
  by (auto simp: handleEndTurn_def Let_def room_simps rejected_def newEvents_def isError_def
      split: if_splits)

lemma rejected_toggle:
  "rejected r (handleToggleOption seat opt r) \<Longrightarrow>
   gameState (handleToggleOption seat opt r) = gameState r"
  by (auto simp: handleToggleOption_def Let_def room_simps rejected_def newEvents_def
      isError_def split: if_splits)

lemma finish_not_rejected:
  "sent r2 = sent r @ es \<Longrightarrow> \<not> list_ex isError es \<Longrightarrow>
   \<not> rejected r (broadcastGameState (clearSelection r2))"
  by (auto simp: rejected_def newEvents_def room_simps isError_def)

lemma finish_state:
  "gameState (broadcastGameState (clearSelection r2)) = (gameState r2)\<lparr>selectedCell := None\<rparr>"
  by (simp add: room_simps)

lemma handleSelectCell_second:
  assumes "gamePhase (gameState r) = Battle" "isPlayerTurn r (socketId seat)"
    and "selectedCell (gameState r) = Some (sr, sc)" "rowExists sr" "rowExists row"
    and "\<not> (sr = row \<and> sc = col)" "board (gameState r) sr sc = Some sp"
  shows "handleSelectCell seat row col r =
     (if board (gameState r) row col = None \<and> canMove sp sr sc row col then
        bindE
          (if \<not> hasMoved (gameState r) then
             bindE (movePiece sr sc row col r) (\<lambda>r1.
               Inr (broadcastMessage
                      ''Move completed! You can now attack with any piece.'' Success
                      (setHasMoved r1)))
           else Inr (broadcastMessage ''You can only move once per turn!'' Error r))
          (\<lambda>r2. Inr (broadcastGameState (clearSelection r2)))
      else
        (case board (gameState r) row col of
           None \<Rightarrow>
             Inr (broadcastGameState (clearSelection
                    (broadcastMessage ''Invalid move or attack!'' Error r)))
         | Some t \<Rightarrow>
             if player t \<noteq> player sp then
               bindE (canAttack sp sr sc row col (gameState r)) (\<lambda>ok.
                 if ok then
                   (if \<not> hasMoved (gameState r) then
                      Inr (broadcastGameState (clearSelection
                             (broadcastMessage
                                ''You must MOVE first before attacking!'' Error r)))
                    else
                      bindE
                        (if \<not> hasAttacked (gameState r) then
                           bindE (attackPiece sr sc row col r) (\<lambda>r1.
                             Inr (setHasAttacked r1))
                         else Inr (broadcastMessage
                                     ''You can only attack once per turn!'' Error r))
                        (\<lambda>r2. Inr (broadcastGameState (clearSelection r2))))
                 else
                   Inr (broadcastGameState (clearSelection
                          (broadcastMessage ''Invalid move or attack!'' Error r))))
             else
               Inr (broadcastGameState (clearSelection
                      (broadcastMessage ''Invalid move or attack!'' Error r)))))"
proof -
  have ne: "(sr = row \<and> sc = col) = False"
    using assms(6) by simp
  show ?thesis
    unfolding handleSelectCell_def Let_def
    by (simp add: assms(1,2,3,4,5,7) ne cellAt_def bindE_def [of "Inr _"] split del: if_split)
qed

lemma handleSelectCell_inactive:
  "gamePhase (gameState r) \<noteq> Battle \<or> \<not> isPlayerTurn r (socketId seat) \<Longrightarrow>
   handleSelectCell seat row col r = Inr r"
  unfolding handleSelectCell_def Let_def by (simp split del: if_split)

lemma handleSelectCell_first:
  assumes "gamePhase (gameState r) = Battle" "isPlayerTurn r (socketId seat)"
    and "selectedCell (gameState r) = None"
  shows "handleSelectCell seat row col r =
     bindE (cellAt (board (gameState r)) row col) (\<lambda>cell.
       case cell of
         None \<Rightarrow> Inr r
       | Some piece \<Rightarrow>
           if player piece = playerNumber seat then
             Inr (broadcastGameState
                    (r\<lparr>gameState := (gameState r)\<lparr>selectedCell := Some (row, col)\<rparr>\<rparr>))
           else Inr r)"
  unfolding handleSelectCell_def Let_def
  by (simp add: assms split del: if_split)

lemma handleSelectCell_raises:
  assumes "gamePhase (gameState r) = Battle" "isPlayerTurn r (socketId seat)"
    and "selectedCell (gameState r) = Some (sr, sc)"
    and "\<not> rowExists sr \<or> \<not> rowExists row
         \<or> (\<not> (sr = row \<and> sc = col) \<and> board (gameState r) sr sc = None)"
  shows "handleSelectCell seat row col r = Inl TypeError"
proof -
  consider (a) "\<not> rowExists sr" | (b) "rowExists sr" "\<not> rowExists row"
    | (c) "rowExists sr" "rowExists row" "(sr = row \<and> sc = col) = False"
          "board (gameState r) sr sc = None"
    using assms(4) by auto
  then show ?thesis
  proof cases
    case a
    show ?thesis
      unfolding handleSelectCell_def Let_def
      by (simp add: assms(1,2,3) a cellAt_def bindE_def split del: if_split)
  next
    case b
    show ?thesis
      unfolding handleSelectCell_def Let_def
      by (simp add: assms(1,2,3) b cellAt_def bindE_def split del: if_split)
  next
    case c
    show ?thesis
      unfolding handleSelectCell_def Let_def
      by (simp add: assms(1,2,3) c cellAt_def bindE_def split del: if_split)
  qed
qed

lemma handleSelectCell_deselect:
  assumes "gamePhase (gameState r) = Battle" "isPlayerTurn r (socketId seat)"
    and "selectedCell (gameState r) = Some (row, col)" "rowExists row"
  shows "handleSelectCell seat row col r = Inr (broadcastGameState (clearSelection r))"
  unfolding handleSelectCell_def Let_def
  by (simp add: assms cellAt_def bindE_def split del: if_split)

lemma rejected_selectCell:
  assumes h: "handleSelectCell seat row col r = Inr r'" and rej: "rejected r r'"
  shows "(gameState r')\<lparr>selectedCell := None\<rparr> = (gameState r)\<lparr>selectedCell := None\<rparr>"
proof (cases "gamePhase (gameState r) \<noteq> Battle \<or> \<not> isPlayerTurn r (socketId seat)")
  case True
  then show ?thesis using h by (simp add: handleSelectCell_inactive)
next
  case False
  then have active: "gamePhase (gameState r) = Battle" "isPlayerTurn r (socketId seat)"
    by auto
  show ?thesis
  proof (cases "selectedCell (gameState r)")
    case None
    have "r' = r \<or> r' = broadcastGameState
                    (r\<lparr>gameState := (gameState r)\<lparr>selectedCell := Some (row, col)\<rparr>\<rparr>)"
      using h unfolding handleSelectCell_first [OF active None]
      by (auto simp: bindE_def cellAt_def split: option.splits if_splits)
    then show ?thesis
      by (auto simp: room_simps)
  next
    case (Some sel)
    obtain sr sc where sel: "selectedCell (gameState r) = Some (sr, sc)"
      using Some by (cases sel) auto
    show ?thesis
    proof (cases "sr = row \<and> sc = col")
      case True
      show ?thesis
      proof (cases "rowExists row")
        case True
        have "r' = broadcastGameState (clearSelection r)"
          using h handleSelectCell_deselect [OF active _ True, of col] sel \<open>sr = row \<and> sc = col\<close>
          by simp
        then show ?thesis by (simp add: room_simps)
      next
        case False
        then show ?thesis
          using h handleSelectCell_raises [OF active sel, of row col] by simp
      qed
    next
      case diff: False
      show ?thesis
      proof (cases "rowExists sr \<and> rowExists row \<and> board (gameState r) sr sc \<noteq> None")
        case False
        then show ?thesis
          using h handleSelectCell_raises [OF active sel, of row col] diff by auto
      next
        case True
        then obtain sp where rows: "rowExists sr" "rowExists row"
          and sp: "board (gameState r) sr sc = Some sp" by auto
        note unf = handleSelectCell_second [OF active sel rows diff sp]
        show ?thesis
        proof (cases "board (gameState r) row col = None \<and> canMove sp sr sc row col")
          case mv: True
          show ?thesis
          proof (cases "hasMoved (gameState r)")
            case True
            then have "r' = broadcastGameState (clearSelection
                          (broadcastMessage ''You can only move once per turn!'' Error r))"
              using h mv unfolding unf by (simp add: bindE_def)
            then show ?thesis by (simp add: room_simps)
          next
            case False
            then obtain r1 where r1: "movePiece sr sc row col r = Inr r1"
              and r': "r' = broadcastGameState (clearSelection
                        (broadcastMessage ''Move completed! You can now attack with any piece.''
                           Success (setHasMoved r1)))"
              using h mv unfolding unf by (auto simp: bindE_def split: sum.splits)
            from movePiece_sent [OF r1] obtain es where
              es: "sent r1 = sent r @ es" "\<not> list_ex isError es" by blast
            have "sent (broadcastMessage ''Move completed! You can now attack with any piece.''
                           Success (setHasMoved r1))
                    = sent r @ (es @ [GameMessage
                        ''Move completed! You can now attack with any piece.'' Success])"
              using es(1) by (simp add: room_simps)
            moreover have "\<not> list_ex isError (es @ [GameMessage
                        ''Move completed! You can now attack with any piece.'' Success])"
              using es(2) by (simp add: isError_def)
            ultimately have "\<not> rejected r r'"
              unfolding r' by (rule finish_not_rejected)
            then show ?thesis using rej by simp
          qed
        next
          case nomv: False
          show ?thesis
          proof (cases "board (gameState r) row col")
            case None
            then have "r' = broadcastGameState (clearSelection
                          (broadcastMessage ''Invalid move or attack!'' Error r))"
              using h nomv unfolding unf by simp
            then show ?thesis by (simp add: room_simps)
          next
            case (Some t)
            show ?thesis
            proof (cases "player t \<noteq> player sp
                          \<and> canAttack sp sr sc row col (gameState r) = Inr True
                          \<and> hasMoved (gameState r) \<and> \<not> hasAttacked (gameState r)")
              case True
              then obtain r1 where r1: "attackPiece sr sc row col r = Inr r1"
                and r': "r' = broadcastGameState (clearSelection (setHasAttacked r1))"
                using h nomv Some unfolding unf
                by (auto simp: bindE_def split: sum.splits)
              from attackPiece_sent [OF r1] obtain es where
                es: "sent r1 = sent r @ es" "\<not> list_ex isError es" by blast
              have "sent (setHasAttacked r1) = sent r @ es"
                using es(1) by (simp add: room_simps)
              then have "\<not> rejected r r'"
                unfolding r' using es(2) by (rule finish_not_rejected)
              then show ?thesis using rej by simp
            next
              case False
              then have "\<exists>m. r' = broadcastGameState (clearSelection
                                    (broadcastMessage m Error r))"
                using h nomv Some unfolding unf
                by (auto simp: bindE_def split: sum.splits if_splits)
              then show ?thesis by (auto simp: room_simps)
            qed
          qed
        qed
      qed
    qed
  qed
qed

text \<open>
  Claim C7, as the code has it. An intent that the handlers reject, silently or with
  an advisory of type \<open>error\<close>, leaves the game state as it was, except that a
  rejected \<^verbatim>\<open>selectCell\<close> intent clears the selection cursor: the board, the rosters,
  the phase, the seat to move, the turn flags and the outcome are unchanged, and for
  every intent other than \<^verbatim>\<open>selectCell\<close> the whole game state is unchanged.
\<close>

theorem rejected_intent_leaves_state:
  assumes "gameAction sid act r = Inr r'" "rejected r r'"
  shows "(gameState r')\<lparr>selectedCell := None\<rparr> = (gameState r)\<lparr>selectedCell := None\<rparr>
       \<and> ((\<forall>row col. act \<noteq> SelectCell row col) \<longrightarrow> gameState r' = gameState r)"
proof (cases "getPlayerBySocketId r sid")
  case None
  then show ?thesis using assms(1) by (simp add: gameAction_def)
next
  case (Some seat)
  show ?thesis
  proof (cases act)
    case (PlacePiece t row col)
    then have "gameState r' = gameState r"
      using assms Some rejected_place [of seat t row col r r'] by (simp add: gameAction_def)
    then show ?thesis by simp
  next
    case (SelectCell row col)
    then show ?thesis
      using assms Some rejected_selectCell [of seat row col r r'] by (simp add: gameAction_def)
  next
    case EndTurn
    then have "gameState r' = gameState r"
      using assms Some rejected_endTurn [of r seat] by (auto simp: gameAction_def)
    then show ?thesis by simp
  next
    case (ToggleOption opt)
    then have "gameState r' = gameState r"
      using assms Some rejected_toggle [of r seat opt] by (auto simp: gameAction_def)
    then show ?thesis by simp
  next
    case (SelectPieceType t)
    then show ?thesis using assms(1) Some by (auto simp: gameAction_def)
  next
    case OtherAction
    then show ?thesis using assms(1) Some by (auto simp: gameAction_def)
  qed
qed

lemma chargeRoom_invalid_click:
  "gameAction ''a'' (SelectCell 5 5) chargeRoom
     = Inr (broadcastGameState (clearSelection
              (broadcastMessage ''Invalid move or attack!'' Error chargeRoom)))"
proof -
  have s: "getPlayerBySocketId chargeRoom ''a'' = Some seatA"
    by (simp add: chargeRoom_def getPlayerBySocketId_def)
  have f: "gamePhase (gameState chargeRoom) = Battle" "isPlayerTurn chargeRoom (socketId seatA)"
    "selectedCell (gameState chargeRoom) = Some (2, 0)" "rowExists 2" "rowExists 5"
    "\<not> (2 = (5::int) \<and> 0 = (5::int))" "board (gameState chargeRoom) 2 0 = Some cavalry1"
    by (simp_all add: chargeRoom_def isPlayerTurn_def getPlayerBySocketId_def seatA_def
        initializeGameState_def rowExists_def setCell_def)
  have e: "board (gameState chargeRoom) 5 5 = None" "\<not> canMove cavalry1 2 0 5 5"
    by (simp_all add: chargeRoom_def initializeGameState_def setCell_def canMove_def
        cavalry1_def)
  have "handleSelectCell seatA 5 5 chargeRoom
          = Inr (broadcastGameState (clearSelection
              (broadcastMessage ''Invalid move or attack!'' Error chargeRoom)))"
    unfolding handleSelectCell_second [OF f] using e by simp
  then show ?thesis
    using s by (simp add: gameAction_def)
qed

text \<open>
  Claim C7 as stated fails on the selection cursor: with the Cavalry at (2,0) selected,
  a \<^verbatim>\<open>selectCell\<close> on the empty cell (5,5), which is no legal move, is answered by the
  advisory \<open>Invalid move or attack!\<close> and the cursor is cleared.
\<close>

theorem rejected_selectCell_clears_selection:
  "gameAction ''a'' (SelectCell 5 5) chargeRoom
     = Inr (broadcastGameState (clearSelection
              (broadcastMessage ''Invalid move or attack!'' Error chargeRoom)))
   \<and> selectedCell (gameState chargeRoom) = Some (2, 0)
   \<and> selectedCell (gameState (broadcastGameState (clearSelection
         (broadcastMessage ''Invalid move or attack!'' Error chargeRoom)))) = None"
  using chargeRoom_invalid_click
  by (simp add: room_simps chargeRoom_def)

theorem rejected_intent_leaves_state_witness:
  "gameAction ''a'' (SelectCell 5 5) chargeRoom
     = Inr (broadcastGameState (clearSelection
              (broadcastMessage ''Invalid move or attack!'' Error chargeRoom)))
   \<and> rejected chargeRoom (broadcastGameState (clearSelection
              (broadcastMessage ''Invalid move or attack!'' Error chargeRoom)))
   \<and> (gameState (broadcastGameState (clearSelection
              (broadcastMessage ''Invalid move or attack!'' Error chargeRoom))))
         \<lparr>selectedCell := None\<rparr>
       = (gameState chargeRoom)\<lparr>selectedCell := None\<rparr>
   \<and> gameAction ''a'' (PlacePiece Archer 5 0) placementRoom
       = Inr (broadcastMessage ''Player 1 can only place pieces in top 3 rows!'' Error placementRoom)
   \<and> rejected placementRoom
        (broadcastMessage ''Player 1 can only place pieces in top 3 rows!'' Error placementRoom)
   \<and> gameState (broadcastMessage ''Player 1 can only place pieces in top 3 rows!'' Error
        placementRoom) = gameState placementRoom"
proof -
  let ?r1 = "broadcastGameState (clearSelection
              (broadcastMessage ''Invalid move or attack!'' Error chargeRoom))"
  let ?r2 = "broadcastMessage ''Player 1 can only place pieces in top 3 rows!'' Error placementRoom"
  have a1: "gameAction ''a'' (SelectCell 5 5) chargeRoom = Inr ?r1"
    by (rule chargeRoom_invalid_click)
  have j1: "rejected chargeRoom ?r1"
    by (simp add: rejected_def newEvents_def room_simps isError_def)
  have one: "showInt 1 = ''1''"
    by (simp add: showInt_def digitsOf.simps char_of_def bit_iff_odd_drop_bit drop_bit_eq_div)
  have a2: "gameAction ''a'' (PlacePiece Archer 5 0) placementRoom = Inr ?r2"
    by (simp add: gameAction_def getPlayerBySocketId_def placementRoom_def handlePlacePiece_def
        isPlayerTurn_def seatA_def initializeGameState_def Let_def bindE_def cellAt_def
        rowExists_def one)
  have j2: "rejected placementRoom ?r2"
    by (simp add: rejected_def newEvents_def room_simps isError_def)
  from rejected_intent_leaves_state [OF a1 j1]
  have c1: "(gameState ?r1)\<lparr>selectedCell := None\<rparr> = (gameState chargeRoom)\<lparr>selectedCell := None\<rparr>"
    by blast
  from rejected_intent_leaves_state [OF a2 j2]
  have c2: "gameState ?r2 = gameState placementRoom"
    by simp
  show ?thesis using a1 j1 c1 a2 j2 c2 by blast
qed

subsection \<open>Placement quota\<close>

lemma clearChargeAt_empires_cell:
  "clearChargeAt_empires b rc row col
     = (if (row, col) = rc then clearCharge_empires (b row col) else b row col)"
  by (cases rc)
    (auto simp: clearChargeAt_empires_def clearCharge_empires_def setCell_def split: option.splits)

lemma clearCharge_empires_idem:
  "clearCharge_empires (clearCharge_empires c) = clearCharge_empires c"
  by (auto simp: clearCharge_empires_def split: option.splits)

lemma foldl_clearChargeAt_empires:
  "foldl clearChargeAt_empires b cells row col
     = (if (row, col) \<in> set cells then clearCharge_empires (b row col) else b row col)"
proof (induction cells arbitrary: b)
  case Nil
  then show ?case by simp
next
  case (Cons c cells)
  have "foldl clearChargeAt_empires b (c # cells) row col
          = foldl clearChargeAt_empires (clearChargeAt_empires b c) cells row col"
    by (simp only: foldl_Cons)
  also have "\<dots> = (if (row, col) \<in> set cells
                   then clearCharge_empires (clearChargeAt_empires b c row col)
                   else clearChargeAt_empires b c row col)"
    by (rule Cons.IH)
  also have "\<dots> = (if (row, col) \<in> set (c # cells) then clearCharge_empires (b row col)
                   else b row col)"
    by (simp add: clearChargeAt_empires_cell clearCharge_empires_idem)
  finally show ?case .
qed

lemma clearCavalryCharges_empires_cell:
  "clearCavalryCharges_empires b row col
     = (if onBoard_empires row col then clearCharge_empires (b row col) else b row col)"
  by (auto simp: clearCavalryCharges_empires_def foldl_clearChargeAt_empires onBoard_empires_def)

lemmas empires_eval =
  run_empires.simps step_empires.simps bindE_def gameAction_empires_def
  addPlayer_empires_def selectNation_def handleSelectPieceType_def handlePlacePiece_empires_def
  handleEndTurn_empires_def placementLimit_def endTurnQuota_def createPieceData_def
  newGameRoom_empires_def initializeGameState_empires_def getPlayerBySocketId_def
  isPlayerTurn_def getPlayerName_def cellAt_def rowExists_def setCell_def decrCount_def
  sumCounts_def addCount_def geCount_def neqCount_def showCount_def List.map_filter_simps
  room_simps Let_def placeOne_def
  clearCavalryCharges_empires_cell onBoard_empires_def clearCharge_empires_def

lemma showInt_digit [simp]: "showInt 2 = ''2''" "showInt 4 = ''4''"
  by (simp_all add: showInt_def digitsOf.simps char_of_def bit_iff_odd_drop_bit drop_bit_eq_div)

lemma handleEndTurn_placement_gate:
  assumes "isPlayerTurn r (socketId seat)" "gamePhase (gameState r) = Placement"
  shows "(piecesPlacedThisTurn (gameState r) \<noteq> 4 \<longrightarrow>
            handleEndTurn seat r
              = broadcastMessage ''You must place exactly 4 pieces before ending your turn!''
                  Error r)
       \<and> (piecesPlacedThisTurn (gameState r) = 4 \<longrightarrow>
            piecesPlacedThisTurn (gameState (handleEndTurn seat r)) = 0
            \<and> \<not> rejected r (handleEndTurn seat r))"
  using assms
  by (auto simp: handleEndTurn_def Let_def room_simps rejected_def newEvents_def isError_def)

lemma handlePlacePiece_limit:
  assumes "isPlayerTurn r (socketId seat)" "gamePhase (gameState r) = Placement"
    and "piecesPlacedThisTurn (gameState r) \<ge> 4"
  shows "handlePlacePiece seat t row col r
           = Inr (broadcastMessage ''You can only place 4 pieces per turn!'' Error r)"
  using assms by (simp add: handlePlacePiece_def Let_def)

lemma handleEndTurn_empires_gate:
  assumes "isPlayerTurn r (socketId seat)" "gamePhase (gameState r) = Placement"
    and "endTurnQuota seat (gameState r) = Inr quota"
  shows "(neqCount (piecesPlacedThisTurn (gameState r)) quota \<longrightarrow>
            handleEndTurn_empires seat r
              = Inr (broadcastMessage
                       (''You must place exactly '' @ showCount quota
                          @ '' pieces before ending your turn!'') Error r))
       \<and> (\<not> neqCount (piecesPlacedThisTurn (gameState r)) quota \<longrightarrow>
            (\<exists>r'. handleEndTurn_empires seat r = Inr r'
                  \<and> piecesPlacedThisTurn (gameState r') = 0))"
  using assms
  by (auto simp: handleEndTurn_empires_def Let_def bindE_def room_simps)

text \<open>
  Claim C3 at the failing input, on the Ancient Empires server. In the second
  placement round seat 1 (English, catalog roster of 8) has placed two pieces and two
  remain in its roster. The placement handler computes its limit from the roster that
  remains, 2, and refuses a third piece; the end-turn handler computes its quota from
  the catalog, 8 - 4 = 4, and refuses to end the turn. The two quotas differ, and the
  seat can neither place nor end its turn.
\<close>

theorem placement_quota_mismatch_empires:
  "onResult (\<lambda>r. (gamePhase (gameState r), placementTurn (gameState r),
                   currentPlayer (gameState r), piecesPlacedThisTurn (gameState r),
                   sumCounts (player1Pieces (gameState r))))
     secondRound
     = Some (Placement, 2, 1, 2, Num 2)
   \<and> onResult (\<lambda>r. (piecesPlacedThisTurn (gameState r), last (sent r)))
       (bindE secondRound (run_empires (placeOne ''a'' LightInfantry 1 2)))
     = Some (2, GameMessage ''You can only place 2 pieces this turn!'' Error)
   \<and> onResult (\<lambda>r. (piecesPlacedThisTurn (gameState r), gamePhase (gameState r),
                     currentPlayer (gameState r), last (sent r)))
       (bindE secondRound (run_empires [Act ''a'' EndTurn]))
     = Some (2, Placement, 1,
             GameMessage ''You must place exactly 4 pieces before ending your turn!'' Error)"
  by (simp add: secondRound_def secondRoundTrace_def empires_eval onResult_def)

theorem placement_quota_mismatch_empires_witness:
  "onResult (\<lambda>r. last (sent r))
       (bindE secondRound (run_empires (placeOne ''a'' LightInfantry 1 2)))
     = Some (GameMessage ''You can only place 2 pieces this turn!'' Error)
   \<and> onResult (\<lambda>r. last (sent r))
       (bindE secondRound (run_empires [Act ''a'' EndTurn]))
     = Some (GameMessage ''You must place exactly 4 pieces before ending your turn!'' Error)"
  using placement_quota_mismatch_empires
  by (auto simp: onResult_def split: sum.splits)

subsection \<open>Cleave\<close>

lemma withBoard_same: "withBoard (setCell (board (gameState r)) row col (board (gameState r) row col)) r = r"
  by (simp add: withBoard_def setCell_def)

lemma cleaveLoop_step:
  "cleaveLoop ((dr, dc) # rest) (Some att) ar ac tr tc n r =
     (if cleaveKillsGeneral att tr tc (ar + dr) (ac + dc) (board (gameState r) (ar + dr) (ac + dc))
      then Inr (cleaveWin att (cleaveCell att tr tc (ar + dr) (ac + dc) r))
      else cleaveLoop rest (Some att) ar ac tr tc
             (if cleaveHits att tr tc (ar + dr) (ac + dc) (board (gameState r) (ar + dr) (ac + dc))
              then n + 1 else n)
             (cleaveCell att tr tc (ar + dr) (ac + dc) r))"
proof (cases "cleaveHits att tr tc (ar + dr) (ac + dc) (board (gameState r) (ar + dr) (ac + dc))")
  case False
  then have same: "cleaveCell att tr tc (ar + dr) (ac + dc) r = r"
    by (simp add: cleaveCell_def afterCleave_def withBoard_same)
  have nk: "\<not> cleaveKillsGeneral att tr tc (ar + dr) (ac + dc)
               (board (gameState r) (ar + dr) (ac + dc))"
    using False by (simp add: cleaveKillsGeneral_def)
  show ?thesis
    using False
    by (auto simp: nk same Let_def cleaveHits_def onBoard_empires_def split: option.splits)
next
  case True
  then obtain p where p: "board (gameState r) (ar + dr) (ac + dc) = Some p"
    and en: "player p \<noteq> player att" and nt: "\<not> (ar + dr = tr \<and> ac + dc = tc)"
    and ob: "ar + dr \<ge> 0" "ar + dr < 7" "ac + dc \<ge> 0" "ac + dc < 7"
    by (auto simp: cleaveHits_def onBoard_empires_def split: option.splits)
  have nt': "(ar + dr = tr \<and> ac + dc = tc) = False" using nt by simp
  show ?thesis
    using True
    by (simp add: p en nt' ob Let_def cleaveKillsGeneral_def cleaveCell_def afterCleave_def
        afterDamage_def cleaveWin_def getPlayerName_def room_simps)
qed

lemma cleaveCell_board:
  "board (gameState (cleaveCell att tr tc row col r)) row' col'
     = (if row' = row \<and> col' = col
        then afterCleave att tr tc row col (board (gameState r) row col)
        else board (gameState r) row' col')"
  by (simp add: cleaveCell_def withBoard_def setCell_def)

lemma cleaveCell_fields:
  "gameEnded (gameState (cleaveCell att tr tc row col r)) = gameEnded (gameState r)"
  "winner (gameState (cleaveCell att tr tc row col r)) = winner (gameState r)"
  "players (cleaveCell att tr tc row col r) = players r"
  by (simp_all add: cleaveCell_def withBoard_def)

lemma cleaveWin_fields:
  "board (gameState (cleaveWin att r)) = board (gameState r)"
  "gameEnded (gameState (cleaveWin att r))"
  "winner (gameState (cleaveWin att r)) = Some (player att)"
  "players (cleaveWin att r) = players r"
  by (simp_all add: cleaveWin_def room_simps)

lemma cleaveDone_fields:
  "board (gameState (if (n::int) > 0 then broadcastMessage m t r else r)) = board (gameState r)"
  "gameEnded (gameState (if n > 0 then broadcastMessage m t r else r)) = gameEnded (gameState r)"
  "winner (gameState (if n > 0 then broadcastMessage m t r else r)) = winner (gameState r)"
  "players (if n > 0 then broadcastMessage m t r else r) = players r"
  by (simp_all add: room_simps)

lemma handleSpartanCleave_cells:
  assumes ex: "rowExists ar" and att: "board (gameState r) ar ac = Some att"
    and res: "handleSpartanCleave ar ac tr tc r = Inr r'"
  defines "b \<equiv> board (gameState r)"
  defines "kU \<equiv> cleaveKillsGeneral att tr tc (ar - 1) ac (b (ar - 1) ac)"
    and "kD \<equiv> cleaveKillsGeneral att tr tc (ar + 1) ac (b (ar + 1) ac)"
    and "kL \<equiv> cleaveKillsGeneral att tr tc ar (ac - 1) (b ar (ac - 1))"
    and "kR \<equiv> cleaveKillsGeneral att tr tc ar (ac + 1) (b ar (ac + 1))"
  shows "board (gameState r') (ar - 1) ac = afterCleave att tr tc (ar - 1) ac (b (ar - 1) ac)"
    and "board (gameState r') (ar + 1) ac
           = (if kU then b (ar + 1) ac else afterCleave att tr tc (ar + 1) ac (b (ar + 1) ac))"
    and "board (gameState r') ar (ac - 1)
           = (if kU \<or> kD then b ar (ac - 1)
              else afterCleave att tr tc ar (ac - 1) (b ar (ac - 1)))"
    and "board (gameState r') ar (ac + 1)
           = (if kU \<or> kD \<or> kL then b ar (ac + 1)
              else afterCleave att tr tc ar (ac + 1) (b ar (ac + 1)))"
    and "\<And>row col. \<not> (\<bar>row - ar\<bar> + \<bar>col - ac\<bar> = 1) \<Longrightarrow>
           board (gameState r') row col = b row col"
    and "kU \<or> kD \<or> kL \<or> kR \<Longrightarrow>
           gameEnded (gameState r') \<and> winner (gameState r') = Some (player att)"
    and "\<not> (kU \<or> kD \<or> kL \<or> kR) \<Longrightarrow>
           gameEnded (gameState r') = gameEnded (gameState r)
           \<and> winner (gameState r') = winner (gameState r)"
    and "players r' = players r"
proof -
  have unf: "handleSpartanCleave ar ac tr tc r
          = cleaveLoop [(- 1, 0), (1, 0), (0, - 1), (0, 1)] (Some att) ar ac tr tc 0 r"
    using ex att by (simp add: handleSpartanCleave_def directions_def bindE_def cellAt_def)
  note simps = cleaveLoop_step cleaveLoop.simps(1) cleaveCell_board cleaveCell_fields
    cleaveWin_fields cleaveDone_fields
  have r': "Inr r' = cleaveLoop [(- 1, 0), (1, 0), (0, - 1), (0, 1)] (Some att) ar ac tr tc 0 r"
    using res unf by simp
  show "board (gameState r') (ar - 1) ac = afterCleave att tr tc (ar - 1) ac (b (ar - 1) ac)"
    using r' unfolding b_def
    by (cases kU; cases kD; cases kL; cases kR)
       (simp_all add: simps kU_def kD_def kL_def kR_def b_def room_simps del: cleaveLoop.simps(2))
  show "board (gameState r') (ar + 1) ac
           = (if kU then b (ar + 1) ac else afterCleave att tr tc (ar + 1) ac (b (ar + 1) ac))"
    using r'
    by (cases kU; cases kD; cases kL; cases kR)
       (simp_all add: simps kU_def kD_def kL_def kR_def b_def room_simps del: cleaveLoop.simps(2))
  show "board (gameState r') ar (ac - 1)
           = (if kU \<or> kD then b ar (ac - 1)
              else afterCleave att tr tc ar (ac - 1) (b ar (ac - 1)))"
    using r'
    by (cases kU; cases kD; cases kL; cases kR)
       (simp_all add: simps kU_def kD_def kL_def kR_def b_def room_simps del: cleaveLoop.simps(2))
  show "board (gameState r') ar (ac + 1)
           = (if kU \<or> kD \<or> kL then b ar (ac + 1)
              else afterCleave att tr tc ar (ac + 1) (b ar (ac + 1)))"
    using r'
    by (cases kU; cases kD; cases kL; cases kR)
       (simp_all add: simps kU_def kD_def kL_def kR_def b_def room_simps del: cleaveLoop.simps(2))
  show "\<And>row col. \<not> (\<bar>row - ar\<bar> + \<bar>col - ac\<bar> = 1) \<Longrightarrow>
           board (gameState r') row col = b row col"
  proof -
    fix row col :: int
    assume far: "\<not> (\<bar>row - ar\<bar> + \<bar>col - ac\<bar> = 1)"
    then have ne: "(row = ar - 1 \<and> col = ac) = False" "(row = ar + 1 \<and> col = ac) = False"
      "(row = ar \<and> col = ac - 1) = False" "(row = ar \<and> col = ac + 1) = False"
      by auto
    show "board (gameState r') row col = b row col"
      using r'
      by (cases kU; cases kD; cases kL; cases kR)
         (simp_all add: simps ne kU_def kD_def kL_def kR_def b_def room_simps del: cleaveLoop.simps(2))
  qed
  show "kU \<or> kD \<or> kL \<or> kR \<Longrightarrow>
           gameEnded (gameState r') \<and> winner (gameState r') = Some (player att)"
    using r'
    by (cases kU; cases kD; cases kL; cases kR)
       (simp_all add: simps kU_def kD_def kL_def kR_def b_def room_simps del: cleaveLoop.simps(2))
  show "\<not> (kU \<or> kD \<or> kL \<or> kR) \<Longrightarrow>
           gameEnded (gameState r') = gameEnded (gameState r)
           \<and> winner (gameState r') = winner (gameState r)"
    using r'
    by (cases kU; cases kD; cases kL; cases kR)
       (simp_all add: simps kU_def kD_def kL_def kR_def b_def room_simps del: cleaveLoop.simps(2))
  show "players r' = players r"
    using r'
    by (cases kU; cases kD; cases kL; cases kR)
       (simp_all add: simps kU_def kD_def kL_def kR_def b_def room_simps del: cleaveLoop.simps(2))
qed

lemma handleSpartanCleave_total:
  assumes "rowExists ar" "board (gameState r) ar ac = Some att"
  shows "\<exists>r'. handleSpartanCleave ar ac tr tc r = Inr r'"
proof -
  have "handleSpartanCleave ar ac tr tc r
          = cleaveLoop [(- 1, 0), (1, 0), (0, - 1), (0, 1)] (Some att) ar ac tr tc 0 r"
    using assms by (simp add: handleSpartanCleave_def directions_def bindE_def cellAt_def)
  then show ?thesis
    by (simp add: cleaveLoop_step cleaveLoop.simps(1) del: cleaveLoop.simps(2))
qed

lemma cleaveKillsGeneral_target [simp]: "cleaveKillsGeneral att tr tc tr tc c = False"
  by (simp add: cleaveKillsGeneral_def cleaveHits_def)

lemma afterCleave_target [simp]: "afterCleave att tr tc tr tc c = c"
  by (simp add: afterCleave_def cleaveHits_def)

text \<open>
  Claim C6, as the code has it. A Spartan Heavy Infantry \<open>att\<close> at \<open>(ar, ac)\<close> attacks
  the adjacent piece \<open>tgt\<close> at \<open>(tr, tc)\<close> in a match that has not ended. The primary
  target takes 1 damage. The four neighbours of the attacker are visited in the order
  up, down, left, right; a neighbour on the board other than the primary target that
  holds an enemy takes exactly 1 damage and leaves the board at health 0 or less,
  unless a General cleaved earlier in that order has died: the loop returns at the
  first cleaved General that dies, and the neighbours after it are left as they were.
  The death of a cleaved General ends the match with the attacker's seat as winner.
\<close>

theorem spartan_cleave:
  assumes live: "\<not> gameEnded (gameState r)"
    and rows: "rowExists ar" "rowExists tr"
    and att: "board (gameState r) ar ac = Some att" "ptype att = HeavyInfantry"
      "nation att = Some Spartans"
    and tgt: "board (gameState r) tr tc = Some tgt" "distance ar ac tr tc = 1"
  defines "b \<equiv> board (gameState r)"
  defines "kU \<equiv> cleaveKillsGeneral att tr tc (ar - 1) ac (b (ar - 1) ac)"
    and "kD \<equiv> cleaveKillsGeneral att tr tc (ar + 1) ac (b (ar + 1) ac)"
    and "kL \<equiv> cleaveKillsGeneral att tr tc ar (ac - 1) (b ar (ac - 1))"
    and "kR \<equiv> cleaveKillsGeneral att tr tc ar (ac + 1) (b ar (ac + 1))"
  shows "\<exists>r'. attackPiece_empires ar ac tr tc r = Inr r'
    \<and> board (gameState r') tr tc = afterDamage tgt 1
    \<and> (\<not> (ar - 1 = tr \<and> ac = tc) \<longrightarrow>
          board (gameState r') (ar - 1) ac = afterCleave att tr tc (ar - 1) ac (b (ar - 1) ac))
    \<and> (\<not> (ar + 1 = tr \<and> ac = tc) \<longrightarrow>
          board (gameState r') (ar + 1) ac
            = (if kU then b (ar + 1) ac else afterCleave att tr tc (ar + 1) ac (b (ar + 1) ac)))
    \<and> (\<not> (ar = tr \<and> ac - 1 = tc) \<longrightarrow>
          board (gameState r') ar (ac - 1)
            = (if kU \<or> kD then b ar (ac - 1)
               else afterCleave att tr tc ar (ac - 1) (b ar (ac - 1))))
    \<and> (\<not> (ar = tr \<and> ac + 1 = tc) \<longrightarrow>
          board (gameState r') ar (ac + 1)
            = (if kU \<or> kD \<or> kL then b ar (ac + 1)
               else afterCleave att tr tc ar (ac + 1) (b ar (ac + 1))))
    \<and> (kU \<or> kD \<or> kL \<or> kR \<longrightarrow>
          gameEnded (gameState r') \<and> winner (gameState r') = Some (player att))"
proof -
  define target1 where "target1 = tgt\<lparr>health := health tgt - 1\<rparr>"
  define r2 where "r2 = withBoard (setCell b tr tc (Some target1)) r"
  have ne: "(ar = tr \<and> ac = tc) = False"
    using tgt(2) by (auto simp: distance_def)
  have b2: "\<And>row col. board (gameState r2) row col
              = (if row = tr \<and> col = tc then Some target1 else b row col)"
    by (simp add: r2_def withBoard_def setCell_def)
  have att2: "board (gameState r2) ar ac = Some att"
    using att(1) ne by (auto simp: b2 b_def)
  from handleSpartanCleave_total [OF rows(1) att2, of tr tc]
  obtain r3 where r3: "handleSpartanCleave ar ac tr tc r2 = Inr r3" by blast
  note c = handleSpartanCleave_cells [OF rows(1) att2 r3]
  have same1: "setCell b ar ac (Some att) = b"
    using att(1) by (auto simp: setCell_def b_def fun_eq_iff)
  define fin where "fin = (if health target1 \<le> 0 then
       (let r4 = withBoard (setCell (board (gameState r3)) tr tc None) r3 in
        if ptype tgt = General then
          broadcastMessage (getPlayerName r4 (player att) @ '' wins! Enemy General defeated!'')
            Victory
            (r4\<lparr>gameState := (gameState r4)\<lparr>gameEnded := True, winner := Some (player att)\<rparr>\<rparr>)
        else r4)
     else r3)"
  have ap: "attackPiece_empires ar ac tr tc r = Inr fin"
    unfolding attackPiece_empires_def Let_def
    apply (simp add: live rows att tgt ne r3 [unfolded r2_def target1_def b_def] bindE_def
        cellAt_def shouldConsumeAmmo_def same1 [unfolded b_def] split del: if_split)
    apply (simp add: fin_def target1_def Let_def)
    done
  have far: "\<not> (\<bar>tr - ar\<bar> + \<bar>tc - ac\<bar> = 1) \<Longrightarrow> False"
    using tgt(2) by (simp add: distance_def abs_minus_commute)
  have t3: "board (gameState r3) tr tc = Some target1"
  proof -
    have "(tr = ar - 1 \<and> tc = ac) \<or> (tr = ar + 1 \<and> tc = ac)
          \<or> (tr = ar \<and> tc = ac - 1) \<or> (tr = ar \<and> tc = ac + 1)"
      using tgt(2) unfolding distance_def by arith
    then consider "tr = ar - 1 \<and> tc = ac" | "tr = ar + 1 \<and> tc = ac"
      | "tr = ar \<and> tc = ac - 1" | "tr = ar \<and> tc = ac + 1"
      by blast
    then show ?thesis
    proof cases
      case 1 then show ?thesis using c(1) by (simp add: b2)
    next
      case 2 then show ?thesis using c(2) by (simp add: b2)
    next
      case 3 then show ?thesis using c(3) by (simp add: b2)
    next
      case 4 then show ?thesis using c(4) by (simp add: b2)
    qed
  qed
  have bf: "\<And>row col. board (gameState fin) row col
              = (if row = tr \<and> col = tc then afterDamage tgt 1 else board (gameState r3) row col)"
    using t3
    by (auto simp: fin_def Let_def room_simps setCell_def afterDamage_def target1_def)
  have ef: "gameEnded (gameState r3) \<and> winner (gameState r3) = Some (player att) \<Longrightarrow>
            gameEnded (gameState fin) \<and> winner (gameState fin) = Some (player att)"
    by (auto simp: fin_def Let_def room_simps)
  have k2: "kU \<or> kD \<or> kL \<or> kR \<Longrightarrow>
        cleaveKillsGeneral att tr tc (ar - 1) ac (board (gameState r2) (ar - 1) ac)
      \<or> cleaveKillsGeneral att tr tc (ar + 1) ac (board (gameState r2) (ar + 1) ac)
      \<or> cleaveKillsGeneral att tr tc ar (ac - 1) (board (gameState r2) ar (ac - 1))
      \<or> cleaveKillsGeneral att tr tc ar (ac + 1) (board (gameState r2) ar (ac + 1))"
    unfolding kU_def kD_def kL_def kR_def b2
    by (auto split: if_splits)
  have g1: "board (gameState fin) tr tc = afterDamage tgt 1"
    by (simp add: bf)
  have g2: "\<not> (ar - 1 = tr \<and> ac = tc) \<Longrightarrow>
          board (gameState fin) (ar - 1) ac = afterCleave att tr tc (ar - 1) ac (b (ar - 1) ac)"
    using c(1) by (auto simp: bf b2)
  have g3: "\<not> (ar + 1 = tr \<and> ac = tc) \<Longrightarrow>
          board (gameState fin) (ar + 1) ac
            = (if kU then b (ar + 1) ac else afterCleave att tr tc (ar + 1) ac (b (ar + 1) ac))"
    using c(2) unfolding kU_def by (auto simp: bf b2 split: if_splits)
  have g4: "\<not> (ar = tr \<and> ac - 1 = tc) \<Longrightarrow>
          board (gameState fin) ar (ac - 1)
            = (if kU \<or> kD then b ar (ac - 1)
               else afterCleave att tr tc ar (ac - 1) (b ar (ac - 1)))"
    using c(3) unfolding kU_def kD_def by (auto simp: bf b2 split: if_splits)
  have g5: "\<not> (ar = tr \<and> ac + 1 = tc) \<Longrightarrow>
          board (gameState fin) ar (ac + 1)
            = (if kU \<or> kD \<or> kL then b ar (ac + 1)
               else afterCleave att tr tc ar (ac + 1) (b ar (ac + 1)))"
    using c(4) unfolding kU_def kD_def kL_def by (auto simp: bf b2 split: if_splits)
  have g6: "kU \<or> kD \<or> kL \<or> kR \<Longrightarrow>
          gameEnded (gameState fin) \<and> winner (gameState fin) = Some (player att)"
    using c(6) [OF k2] ef by blast
  show ?thesis
    using ap g1 g2 g3 g4 g5 g6 by blast
qed

lemma cleaveRoom_facts:
  "\<not> gameEnded (gameState cleaveRoom)"
  "rowExists 3"
  "board (gameState cleaveRoom) 3 3 = Some spartanHeavy1"
  "ptype spartanHeavy1 = HeavyInfantry"
  "nation spartanHeavy1 = Some Spartans"
  "board (gameState cleaveRoom) 3 4 = Some englishInfantry2"
  "distance 3 3 3 4 = 1"
  "board (gameState cleaveRoom) 2 3 = Some woundedGeneral2"
  "board (gameState cleaveRoom) 4 3 = Some englishInfantry2"
  by (simp_all add: cleaveRoom_def initializeGameState_empires_def rowExists_def setCell_def
      spartanHeavy1_def distance_def)

text \<open>
  Claim C6 as stated fails: the cleave kills the General above the attacker, the match
  ends, and the enemy below the attacker, adjacent and not the primary target,
  receives no damage.
\<close>

theorem cleave_stops_at_dead_general:
  "board (gameState cleaveRoom) 4 3 = Some englishInfantry2
   \<and> player englishInfantry2 \<noteq> player spartanHeavy1
   \<and> onResult (\<lambda>r. (board (gameState r) 2 3, board (gameState r) 4 3,
                     gameEnded (gameState r), winner (gameState r)))
       (attackPiece_empires 3 3 3 4 cleaveRoom)
     = Some (None, Some englishInfantry2, True, Some 1)"
  by (simp add: cleaveRoom_def initializeGameState_empires_def attackPiece_empires_def
      handleSpartanCleave_def directions_def bindE_def cellAt_def rowExists_def setCell_def
      shouldConsumeAmmo_def distance_def spartanHeavy1_def englishInfantry2_def
      woundedGeneral2_def getPlayerName_def seatA_def seatB_def room_simps onResult_def Let_def)

theorem spartan_cleave_witness:
  "\<not> gameEnded (gameState cleaveRoom)
   \<and> board (gameState cleaveRoom) 3 3 = Some spartanHeavy1
   \<and> ptype spartanHeavy1 = HeavyInfantry \<and> nation spartanHeavy1 = Some Spartans
   \<and> board (gameState cleaveRoom) 3 4 = Some englishInfantry2 \<and> distance 3 3 3 4 = 1
   \<and> (\<exists>r'. attackPiece_empires 3 3 3 4 cleaveRoom = Inr r'
         \<and> board (gameState r') 3 4 = Some (englishInfantry2\<lparr>health := 1\<rparr>)
         \<and> board (gameState r') 2 3 = None
         \<and> board (gameState r') 4 3 = Some englishInfantry2
         \<and> gameEnded (gameState r') \<and> winner (gameState r') = Some 1)"
proof -
  note f = cleaveRoom_facts
  have k: "cleaveKillsGeneral spartanHeavy1 3 4 (3 - 1) 3 (board (gameState cleaveRoom) (3 - 1) 3)"
    by (simp add: f(8) cleaveKillsGeneral_def cleaveHits_def onBoard_empires_def
        woundedGeneral2_def spartanHeavy1_def)
  have a: "afterCleave spartanHeavy1 3 4 (3 - 1) 3 (board (gameState cleaveRoom) (3 - 1) 3) = None"
    by (simp add: f(8) afterCleave_def cleaveHits_def onBoard_empires_def afterDamage_def
        woundedGeneral2_def spartanHeavy1_def)
  have d: "afterDamage englishInfantry2 1 = Some (englishInfantry2\<lparr>health := 1\<rparr>)"
    by (simp add: afterDamage_def englishInfantry2_def)
  from spartan_cleave [OF f(1) f(2) f(2) f(3) f(4) f(5) f(6) f(7)]
  obtain r' where r: "attackPiece_empires 3 3 3 4 cleaveRoom = Inr r'"
    "board (gameState r') 3 4 = afterDamage englishInfantry2 1"
    "\<not> (3 - 1 = (3::int) \<and> 3 = (4::int)) \<longrightarrow>
       board (gameState r') (3 - 1) 3
         = afterCleave spartanHeavy1 3 4 (3 - 1) 3 (board (gameState cleaveRoom) (3 - 1) 3)"
    "\<not> (3 + 1 = (3::int) \<and> 3 = (4::int)) \<longrightarrow>
       board (gameState r') (3 + 1) 3
         = (if cleaveKillsGeneral spartanHeavy1 3 4 (3 - 1) 3
                 (board (gameState cleaveRoom) (3 - 1) 3)
            then board (gameState cleaveRoom) (3 + 1) 3
            else afterCleave spartanHeavy1 3 4 (3 + 1) 3 (board (gameState cleaveRoom) (3 + 1) 3))"
    "cleaveKillsGeneral spartanHeavy1 3 4 (3 - 1) 3 (board (gameState cleaveRoom) (3 - 1) 3)
       \<longrightarrow> gameEnded (gameState r') \<and> winner (gameState r') = Some (player spartanHeavy1)"
    by blast
  have 1: "board (gameState r') 3 4 = Some (englishInfantry2\<lparr>health := 1\<rparr>)"
    using r(2) d by simp
  have 2: "board (gameState r') 2 3 = None"
    using r(3) a by simp
  have 3: "board (gameState r') 4 3 = Some englishInfantry2"
    using r(4) k f(9) by simp
  have 4: "gameEnded (gameState r') \<and> winner (gameState r') = Some 1"
    using r(5) k by (simp add: spartanHeavy1_def)
  show ?thesis
    using f r(1) 1 2 3 4 by blast
qed

subsection \<open>Victory\<close>

lemma attackPiece_outcome:
  assumes live: "\<not> gameEnded (gameState r)"
    and rows: "rowExists ar" "rowExists tr"
    and att: "board (gameState r) ar ac = Some att"
    and tgt: "board (gameState r) tr tc = Some tgt"
    and ne: "\<not> (ar = tr \<and> ac = tc)"
  shows "\<exists>r'. attackPiece ar ac tr tc r = Inr r'
    \<and> board (gameState r') tr tc = afterDamage tgt (attackDamage att ar ac tr tc tgt)
    \<and> gamePhase (gameState r') = gamePhase (gameState r)
    \<and> (ptype tgt = General \<and> health tgt - attackDamage att ar ac tr tc tgt \<le> 0 \<longrightarrow>
          gameEnded (gameState r') \<and> winner (gameState r') = Some (player att))"
proof -
  have ne': "(ar = tr \<and> ac = tc) = False" using ne by simp
  show ?thesis
    unfolding attackPiece_def Let_def
    by (auto simp: live rows att tgt ne' bindE_def cellAt_def room_simps setCell_def
        afterDamage_def attackDamage_def)
qed

lemma attackPiece_after_end:
  "gameEnded (gameState r) \<Longrightarrow> attackPiece ar ac tr tc r = Inr r"
  by (simp add: attackPiece_def)

lemma attackPiece_empires_after_end:
  "gameEnded (gameState r) \<Longrightarrow> attackPiece_empires ar ac tr tc r = Inr r"
  by (simp add: attackPiece_empires_def)

lemma cleaveLoop_phase:
  "cleaveLoop ds a ar ac tr tc n r = Inr r' \<Longrightarrow>
   gamePhase (gameState r') = gamePhase (gameState r)"
proof (induction ds arbitrary: n r)
  case Nil
  then show ?case by (auto simp: room_simps split: if_splits)
next
  case (Cons d ds)
  obtain dr dc where d: "d = (dr, dc)" by (cases d)
  show ?case
  proof (cases a)
    case None
    then show ?thesis
      using Cons.prems Cons.IH d
      by (auto simp: Let_def split: option.splits if_splits)
  next
    case (Some att)
    have step: "(if cleaveKillsGeneral att tr tc (ar + dr) (ac + dc)
                      (board (gameState r) (ar + dr) (ac + dc))
                 then Inr (cleaveWin att (cleaveCell att tr tc (ar + dr) (ac + dc) r))
                 else cleaveLoop ds (Some att) ar ac tr tc
                        (if cleaveHits att tr tc (ar + dr) (ac + dc)
                              (board (gameState r) (ar + dr) (ac + dc))
                         then n + 1 else n)
                        (cleaveCell att tr tc (ar + dr) (ac + dc) r)) = Inr r'"
      using Cons.prems unfolding d Some cleaveLoop_step .
    have pc: "gamePhase (gameState (cleaveCell att tr tc (ar + dr) (ac + dc) r))
                = gamePhase (gameState r)"
      by (simp add: cleaveCell_def withBoard_def)
    have pw: "\<And>x. gamePhase (gameState (cleaveWin att x)) = gamePhase (gameState x)"
      by (simp add: cleaveWin_def room_simps)
    show ?thesis
    proof (cases "cleaveKillsGeneral att tr tc (ar + dr) (ac + dc)
                      (board (gameState r) (ar + dr) (ac + dc))")
      case True
      then show ?thesis using step pc pw by auto
    next
      case False
      then have "cleaveLoop ds (Some att) ar ac tr tc
                        (if cleaveHits att tr tc (ar + dr) (ac + dc)
                              (board (gameState r) (ar + dr) (ac + dc))
                         then n + 1 else n)
                        (cleaveCell att tr tc (ar + dr) (ac + dc) r) = Inr r'"
        using step by simp
      from Cons.IH [unfolded Some, OF this] show ?thesis using pc by simp
    qed
  qed
qed

lemma handleSpartanCleave_phase:
  "handleSpartanCleave ar ac tr tc r = Inr r' \<Longrightarrow>
   gamePhase (gameState r') = gamePhase (gameState r)"
  by (auto simp: handleSpartanCleave_def bindE_def cellAt_def dest: cleaveLoop_phase
      split: if_splits)

lemma attackPiece_empires_outcome:
  assumes live: "\<not> gameEnded (gameState r)"
    and rows: "rowExists ar" "rowExists tr"
    and att: "board (gameState r) ar ac = Some att"
    and tgt: "board (gameState r) tr tc = Some tgt"
    and ne: "\<not> (ar = tr \<and> ac = tc)"
    and plain: "\<not> (ptype att = HeavyInfantry \<and> nation att = Some Spartans)"
  shows "\<exists>r'. attackPiece_empires ar ac tr tc r = Inr r'
    \<and> board (gameState r') tr tc = afterDamage tgt (attackDamage_empires att ar ac tr tc tgt)
    \<and> gamePhase (gameState r') = gamePhase (gameState r)
    \<and> (ptype tgt = General \<and> health tgt - attackDamage_empires att ar ac tr tc tgt \<le> 0 \<longrightarrow>
          gameEnded (gameState r') \<and> winner (gameState r') = Some (player att))"
proof -
  have ne': "(ar = tr \<and> ac = tc) = False" using ne by simp
  have plain': "(ptype att = HeavyInfantry \<and> nation att = Some Spartans) = False"
    using plain by simp
  show ?thesis
    unfolding attackPiece_empires_def Let_def
    by (auto simp: live rows att tgt ne' plain' bindE_def cellAt_def room_simps setCell_def
        afterDamage_def attackDamage_empires_def)
qed

lemmas base_eval =
  run.simps bindE_def gameAction_def handleSelectCell_def handleEndTurn_def
  getPlayerBySocketId_def isPlayerTurn_def cellAt_def writeCell_def rowExists_def setCell_def
  canMove_def canAttack_def distance_def attackPiece_def movePiece_def checkForHealing_def
  getPlayerName_def clearCavalryCharges_cell onBoard_def clearCharge_def
  initializeGameState_def room_simps Let_def seatA_def seatB_def

text \<open>
  Claim C1 as stated fails on the phase and on the later intents. Seat 1 kills the
  General of seat 2: the match is ended with seat 1 as winner, and the phase is still
  \<open>battle\<close>. The \<^verbatim>\<open>endTurn\<close> of seat 1 that follows is accepted (seat 2 is to move),
  and so is the move of seat 2's Light Infantry from (5,5) to (5,4).
\<close>

theorem actions_accepted_after_general_defeat:
  "onResult (\<lambda>r. (gameEnded (gameState r), winner (gameState r), gamePhase (gameState r),
                   currentPlayer (gameState r), board (gameState r) 2 3))
     (run [(''a'', SelectCell 2 3)] generalRoom)
     = Some (True, Some 1, Battle, 1, None)
   \<and> onResult (\<lambda>r. (gameEnded (gameState r), gamePhase (gameState r),
                     currentPlayer (gameState r)))
       (run [(''a'', SelectCell 2 3), (''a'', EndTurn)] generalRoom)
     = Some (True, Battle, 2)
   \<and> onResult (\<lambda>r. (gameEnded (gameState r), hasMoved (gameState r),
                     board (gameState r) 5 5, board (gameState r) 5 4))
       (run [(''a'', SelectCell 2 3), (''a'', EndTurn), (''b'', SelectCell 5 5),
             (''b'', SelectCell 5 4)] generalRoom)
     = Some (True, True, None, Some lightInfantry2)"
  by (simp add: generalRoom_def base_eval onResult_def lightInfantry1_def lightInfantry2_def
      woundedGeneral_def)

text \<open>
  Claim C5 at the failing input. The Cavalry at (2,4) moves two cells to the right, to
  column 6, which \<^verbatim>\<open>canMove\<close> of the base server accepts; the move records the charge
  direction (0,1). The \<^verbatim>\<open>endTurn\<close> that follows is accepted, and its loop over columns
  0 to 5 does not reach the piece: the Cavalry keeps its charge direction into the
  next turns.
\<close>

theorem charge_survives_endTurn_outside_board:
  "onResult (\<lambda>r. (board (gameState r) 2 6, hasMoved (gameState r), currentPlayer (gameState r)))
     (run [(''a'', SelectCell 2 6)] staleRoom)
     = Some (Some (cavalry1\<lparr>chargeDirection := Some (0, 1)\<rparr>), True, 1)
   \<and> onResult (\<lambda>r. (board (gameState r) 2 6, hasMoved (gameState r),
                     currentPlayer (gameState r)))
       (run [(''a'', SelectCell 2 6), (''a'', EndTurn)] staleRoom)
     = Some (Some (cavalry1\<lparr>chargeDirection := Some (0, 1)\<rparr>), False, 2)"
  by (simp add: staleRoom_def base_eval onResult_def cavalry1_def unitStep_def)

theorem charge_survives_endTurn_outside_board_witness:
  "onResult (\<lambda>r. map_option chargeDirection (board (gameState r) 2 6))
       (run [(''a'', SelectCell 2 6), (''a'', EndTurn)] staleRoom)
     = Some (Some (Some (0, 1)))"
  using charge_survives_endTurn_outside_board
  by (auto simp: onResult_def split: sum.splits)

subsection \<open>One piece per cell\<close>

lemma handleSelectCell_cases:
  assumes h: "handleSelectCell seat row col r = Inr r'"
  obtains (cursor) c where "gameState r' = (gameState r)\<lparr>selectedCell := c\<rparr>"
  | (moved) sr sc r1 where "selectedCell (gameState r) = Some (sr, sc)"
      "\<not> (sr = row \<and> sc = col)" "board (gameState r) row col = None"
      "movePiece sr sc row col r = Inr r1"
      "gameState r' = (gameState r1)\<lparr>hasMoved := True, selectedCell := None\<rparr>"
  | (attacked) sr sc r1 where "selectedCell (gameState r) = Some (sr, sc)"
      "hasMoved (gameState r)" "attackPiece sr sc row col r = Inr r1"
      "gameState r' = (gameState r1)\<lparr>hasAttacked := True, selectedCell := None\<rparr>"
proof (cases "gamePhase (gameState r) \<noteq> Battle \<or> \<not> isPlayerTurn r (socketId seat)")
  case True
  then have "r' = r" using h by (simp add: handleSelectCell_inactive)
  then have "gameState r' = (gameState r)\<lparr>selectedCell := selectedCell (gameState r)\<rparr>"
    by simp
  then show ?thesis by (rule cursor)
next
  case False
  then have active: "gamePhase (gameState r) = Battle" "isPlayerTurn r (socketId seat)"
    by auto
  show ?thesis
  proof (cases "selectedCell (gameState r)")
    case None
    have "r' = r \<or> r' = broadcastGameState
                    (r\<lparr>gameState := (gameState r)\<lparr>selectedCell := Some (row, col)\<rparr>\<rparr>)"
      using h unfolding handleSelectCell_first [OF active None]
      by (auto simp: bindE_def cellAt_def split: option.splits if_splits)
    then have "gameState r' = (gameState r)\<lparr>selectedCell := selectedCell (gameState r)\<rparr>
             \<or> gameState r' = (gameState r)\<lparr>selectedCell := Some (row, col)\<rparr>"
      by (auto simp: room_simps)
    then show ?thesis using cursor by blast
  next
    case (Some sel)
    obtain sr sc where sel: "selectedCell (gameState r) = Some (sr, sc)"
      using Some by (cases sel) auto
    show ?thesis
    proof (cases "sr = row \<and> sc = col")
      case True
      show ?thesis
      proof (cases "rowExists row")
        case True
        have "r' = broadcastGameState (clearSelection r)"
          using h handleSelectCell_deselect [OF active _ True, of col] sel \<open>sr = row \<and> sc = col\<close>
          by simp
        then have "gameState r' = (gameState r)\<lparr>selectedCell := None\<rparr>"
          by (simp add: room_simps)
        then show ?thesis by (rule cursor)
      next
        case False
        then show ?thesis
          using h handleSelectCell_raises [OF active sel, of row col] by simp
      qed
    next
      case diff: False
      show ?thesis
      proof (cases "rowExists sr \<and> rowExists row \<and> board (gameState r) sr sc \<noteq> None")
        case False
        then show ?thesis
          using h handleSelectCell_raises [OF active sel, of row col] diff by auto
      next
        case True
        then obtain sp where rows: "rowExists sr" "rowExists row"
          and sp: "board (gameState r) sr sc = Some sp" by auto
        note unf = handleSelectCell_second [OF active sel rows diff sp]
        show ?thesis
        proof (cases "board (gameState r) row col = None \<and> canMove sp sr sc row col")
          case mv: True
          show ?thesis
          proof (cases "hasMoved (gameState r)")
            case True
            then have "r' = broadcastGameState (clearSelection
                          (broadcastMessage ''You can only move once per turn!'' Error r))"
              using h mv unfolding unf by (simp add: bindE_def)
            then have "gameState r' = (gameState r)\<lparr>selectedCell := None\<rparr>"
              by (simp add: room_simps)
            then show ?thesis by (rule cursor)
          next
            case False
            then obtain r1 where r1: "movePiece sr sc row col r = Inr r1"
              and r': "r' = broadcastGameState (clearSelection
                        (broadcastMessage ''Move completed! You can now attack with any piece.''
                           Success (setHasMoved r1)))"
              using h mv unfolding unf by (auto simp: bindE_def split: sum.splits)
            have "gameState r' = (gameState r1)\<lparr>hasMoved := True, selectedCell := None\<rparr>"
              unfolding r' by (simp add: room_simps)
            with sel diff mv r1 show ?thesis using moved by blast
          qed
        next
          case nomv: False
          show ?thesis
          proof (cases "board (gameState r) row col")
            case None
            then have "r' = broadcastGameState (clearSelection
                          (broadcastMessage ''Invalid move or attack!'' Error r))"
              using h nomv unfolding unf by simp
            then have "gameState r' = (gameState r)\<lparr>selectedCell := None\<rparr>"
              by (simp add: room_simps)
            then show ?thesis by (rule cursor)
          next
            case (Some t)
            show ?thesis
            proof (cases "player t \<noteq> player sp
                          \<and> canAttack sp sr sc row col (gameState r) = Inr True
                          \<and> hasMoved (gameState r) \<and> \<not> hasAttacked (gameState r)")
              case True
              then obtain r1 where r1: "attackPiece sr sc row col r = Inr r1"
                and r': "r' = broadcastGameState (clearSelection (setHasAttacked r1))"
                using h nomv Some unfolding unf
                by (auto simp: bindE_def split: sum.splits)
              have "gameState r' = (gameState r1)\<lparr>hasAttacked := True, selectedCell := None\<rparr>"
                unfolding r' by (simp add: room_simps)
              with sel True r1 show ?thesis using attacked by blast
            next
              case False
              then have "\<exists>m. r' = broadcastGameState (clearSelection
                                    (broadcastMessage m Error r))"
                using h nomv Some unfolding unf
                by (auto simp: bindE_def split: sum.splits if_splits)
              then have "gameState r' = (gameState r)\<lparr>selectedCell := None\<rparr>"
                by (auto simp: room_simps)
              then show ?thesis by (rule cursor)
            qed
          qed
        qed
      qed
    qed
  qed
qed

subsection \<open>After the end of the match\<close>

lemma movePiece_frame:
  "movePiece fr fc tr tc r = Inr r1 \<Longrightarrow>
   gameState r1 = (gameState r)\<lparr>board := board (gameState r1)\<rparr>"
  by (auto simp: movePiece_def bindE_def cellAt_def writeCell_def checkForHealing_def Let_def
      room_simps split: option.splits if_splits)

lemma handleEndTurn_battle:
  "gamePhase (gameState r) = Battle \<Longrightarrow>
   gamePhase (gameState (handleEndTurn seat r)) = Battle
   \<and> gameEnded (gameState (handleEndTurn seat r)) = gameEnded (gameState r)
   \<and> winner (gameState (handleEndTurn seat r)) = winner (gameState r)"
  by (simp add: handleEndTurn_def Let_def room_simps)

lemma handleToggleOption_battle:
  "gamePhase (gameState r) = Battle \<Longrightarrow> handleToggleOption seat opt r = r"
  by (simp add: handleToggleOption_def Let_def)

lemma handlePlacePiece_battle:
  "gamePhase (gameState r) = Battle \<Longrightarrow> handlePlacePiece seat t row col r = Inr r"
  by (simp add: handlePlacePiece_def Let_def)

lemma cursor_frame:
  "g' = g\<lparr>selectedCell := c\<rparr> \<Longrightarrow>
   \<exists>h c'. g' = g\<lparr>hasAttacked := h, selectedCell := c'\<rparr>"
  by (rule exI [of _ "hasAttacked g"], rule exI [of _ c]) simp

lemma handleSelectCell_ended:
  assumes e: "gameEnded (gameState r)" and h: "handleSelectCell seat row col r = Inr r'"
  shows "gameEnded (gameState r') \<and> winner (gameState r') = winner (gameState r)
       \<and> gamePhase (gameState r') = gamePhase (gameState r)
       \<and> (board (gameState r) row col \<noteq> None \<longrightarrow>
            (\<exists>h c. gameState r' = (gameState r)\<lparr>hasAttacked := h, selectedCell := c\<rparr>))"
  using h
proof (cases rule: handleSelectCell_cases)
  case (cursor c)
  from cursor_frame [OF cursor]
  have "\<exists>h c. gameState r' = (gameState r)\<lparr>hasAttacked := h, selectedCell := c\<rparr>" .
  then show ?thesis using e cursor by simp
next
  case (moved sr sc r1)
  from movePiece_frame [OF moved(4)] have
    "gameEnded (gameState r1) = gameEnded (gameState r)"
    "winner (gameState r1) = winner (gameState r)"
    "gamePhase (gameState r1) = gamePhase (gameState r)"
    by (metis gameState.select_convs(7) gameState.surjective gameState.update_convs(9),
        metis gameState.select_convs(8) gameState.surjective gameState.update_convs(9),
        metis gameState.select_convs(2) gameState.surjective gameState.update_convs(9))
  then show ?thesis using e moved(3,5) by simp
next
  case (attacked sr sc r1)
  have "r1 = r" using attacked(3) e by (simp add: attackPiece_after_end)
  then have g: "gameState r' = (gameState r)\<lparr>hasAttacked := True, selectedCell := None\<rparr>"
    using attacked(4) by simp
  then have "\<exists>h c. gameState r' = (gameState r)\<lparr>hasAttacked := h, selectedCell := c\<rparr>"
    by blast
  then show ?thesis using e g by simp
qed

lemma gameAction_ended_battle:
  assumes "gameEnded (gameState s)" "gamePhase (gameState s) = Battle"
    and "gameAction sid act s = Inr s'"
  shows "gameEnded (gameState s') \<and> winner (gameState s') = winner (gameState s)
       \<and> gamePhase (gameState s') = Battle"
proof (cases "getPlayerBySocketId s sid")
  case None
  then show ?thesis using assms by (simp add: gameAction_def)
next
  case (Some seat)
  show ?thesis
  proof (cases act)
    case (PlacePiece t row col)
    then show ?thesis
      using assms Some by (simp add: gameAction_def handlePlacePiece_battle)
  next
    case (SelectCell row col)
    then have "handleSelectCell seat row col s = Inr s'"
      using assms(3) Some by (simp add: gameAction_def)
    from handleSelectCell_ended [OF assms(1) this] show ?thesis using assms(2) by simp
  next
    case EndTurn
    then show ?thesis
      using assms Some handleEndTurn_battle [OF assms(2), of seat] by (auto simp: gameAction_def)
  next
    case (ToggleOption opt)
    then show ?thesis
      using assms Some by (auto simp: gameAction_def handleToggleOption_battle)
  next
    case (SelectPieceType t)
    then show ?thesis using assms Some by (auto simp: gameAction_def)
  next
    case OtherAction
    then show ?thesis using assms Some by (auto simp: gameAction_def)
  qed
qed

lemma run_ended_battle:
  "gameEnded (gameState s) \<Longrightarrow> gamePhase (gameState s) = Battle \<Longrightarrow> run acts s = Inr s' \<Longrightarrow>
   gameEnded (gameState s') \<and> winner (gameState s') = winner (gameState s)
   \<and> gamePhase (gameState s') = Battle"
proof (induction acts arbitrary: s)
  case Nil
  then show ?case by simp
next
  case (Cons a acts)
  obtain sid act where a: "a = (sid, act)" by (cases a)
  from Cons.prems(3) obtain s1 where s1: "gameAction sid act s = Inr s1" "run acts s1 = Inr s'"
    unfolding a by (auto simp: bindE_def split: sum.splits)
  from gameAction_ended_battle [OF Cons.prems(1,2) s1(1)]
  have i: "gameEnded (gameState s1)" "winner (gameState s1) = winner (gameState s)"
    "gamePhase (gameState s1) = Battle" by auto
  from Cons.IH [OF i(1) i(3) s1(2)] show ?case using i(2) by simp
qed

lemma ended_attack_intent:
  assumes "gameEnded (gameState s)" "board (gameState s) row col \<noteq> None"
    and "gameAction sid (SelectCell row col) s = Inr s'"
  shows "\<exists>h c. gameState s' = (gameState s)\<lparr>hasAttacked := h, selectedCell := c\<rparr>"
proof (cases "getPlayerBySocketId s sid")
  case None
  then have "s' = s" using assms(3) by (simp add: gameAction_def)
  then have "gameState s' = (gameState s)\<lparr>selectedCell := selectedCell (gameState s)\<rparr>"
    by simp
  then show ?thesis by (rule cursor_frame)
next
  case (Some seat)
  then have "handleSelectCell seat row col s = Inr s'"
    using assms(3) by (simp add: gameAction_def)
  from handleSelectCell_ended [OF assms(1) this] assms(2) show ?thesis by blast
qed

lemma movePiece_empires_frame:
  "movePiece_empires fr fc tr tc r = Inr r1 \<Longrightarrow>
   gameState r1 = (gameState r)\<lparr>board := board (gameState r1)\<rparr>"
  by (auto simp: movePiece_empires_def bindE_def cellAt_def writeCell_def
      checkForHealing_empires_def Let_def room_simps split: option.splits if_splits)

lemma frame_fields:
  "gameState r1 = (gameState r)\<lparr>board := b\<rparr> \<Longrightarrow>
   gameEnded (gameState r1) = gameEnded (gameState r)
   \<and> winner (gameState r1) = winner (gameState r)
   \<and> gamePhase (gameState r1) = gamePhase (gameState r)"
  by simp

lemma handleSelectCell_empires_ended:
  assumes e: "gameEnded (gameState r)" and h: "handleSelectCell_empires seat row col r = Inr r'"
  shows "gameEnded (gameState r') \<and> winner (gameState r') = winner (gameState r)
       \<and> gamePhase (gameState r') = gamePhase (gameState r)
       \<and> (board (gameState r) row col \<noteq> None \<longrightarrow>
            (\<exists>h c. gameState r' = (gameState r)\<lparr>hasAttacked := h, selectedCell := c\<rparr>))"
proof (cases "gamePhase (gameState r) \<noteq> Battle \<or> \<not> isPlayerTurn r (socketId seat)")
  case True
  then have "r' = r" using h by (auto simp: handleSelectCell_empires_def Let_def)
  then have "gameState r' = (gameState r)\<lparr>selectedCell := selectedCell (gameState r)\<rparr>"
    by simp
  from cursor_frame [OF this] show ?thesis using e \<open>r' = r\<close> by simp
next
  case False
  then have active: "gamePhase (gameState r) = Battle" "isPlayerTurn r (socketId seat)"
    by auto
  show ?thesis
  proof (cases "selectedCell (gameState r)")
    case None
    have "r' = r \<or> r' = broadcastGameState
                    (r\<lparr>gameState := (gameState r)\<lparr>selectedCell := Some (row, col)\<rparr>\<rparr>)"
      using h unfolding handleSelectCell_empires_def Let_def
      by (auto simp: active None bindE_def cellAt_def split: option.splits if_splits)
    then have "gameState r' = (gameState r)\<lparr>selectedCell := selectedCell (gameState r)\<rparr>
             \<or> gameState r' = (gameState r)\<lparr>selectedCell := Some (row, col)\<rparr>"
      by (auto simp: room_simps)
    then obtain c where c: "gameState r' = (gameState r)\<lparr>selectedCell := c\<rparr>" by blast
    from cursor_frame [OF c] show ?thesis using e c by simp
  next
    case (Some sel)
    obtain sr sc where sel: "sel = (sr, sc)" by (cases sel)
    note S = Some [unfolded sel]
    from h obtain selected targetPiece where
      cs: "cellAt (board (gameState r)) sr sc = Inr selected"
      and ct: "cellAt (board (gameState r)) row col = Inr targetPiece"
      unfolding handleSelectCell_empires_def Let_def
      by (auto simp: active S bindE_def split: sum.splits)
    have tp: "targetPiece = board (gameState r) row col"
      using ct by (auto simp: cellAt_def split: if_splits)
    show ?thesis
    proof (cases "sr = row \<and> sc = col")
      case True
      then have "r' = broadcastGameState (clearSelection r)"
        using h unfolding handleSelectCell_empires_def Let_def
        by (simp add: active S bindE_def cs ct)
      then have c: "gameState r' = (gameState r)\<lparr>selectedCell := None\<rparr>"
        by (simp add: room_simps)
      from cursor_frame [OF c] show ?thesis using e c by simp
    next
      case False
      then have ne: "(sr = row \<and> sc = col) = False" by simp
      show ?thesis
      proof (cases selected)
        case None
        then have "r' = broadcastGameState (clearSelection r)"
          using h unfolding handleSelectCell_empires_def Let_def
          by (simp add: active S bindE_def cs ct ne split: if_splits)
        then have c: "gameState r' = (gameState r)\<lparr>selectedCell := None\<rparr>"
          by (simp add: room_simps)
        from cursor_frame [OF c] show ?thesis using e c by simp
      next
        case (Some selPiece)
        note sp = this
        show ?thesis
        proof (cases targetPiece)
          case None
          then have tn: "board (gameState r) row col = None" using tp by simp
          have "(\<exists>r1. movePiece_empires sr sc row col r = Inr r1
                   \<and> gameState r' = (gameState r1)\<lparr>hasMoved := True, selectedCell := None\<rparr>)
                \<or> gameState r' = (gameState r)\<lparr>selectedCell := None\<rparr>"
            using h unfolding handleSelectCell_empires_def Let_def
            by (auto simp add: active S bindE_def cs ct ne sp None room_simps
                split: if_splits sum.splits)
          then show ?thesis
          proof
            assume "\<exists>r1. movePiece_empires sr sc row col r = Inr r1
                   \<and> gameState r' = (gameState r1)\<lparr>hasMoved := True, selectedCell := None\<rparr>"
            then obtain r1 where r1: "movePiece_empires sr sc row col r = Inr r1"
              "gameState r' = (gameState r1)\<lparr>hasMoved := True, selectedCell := None\<rparr>"
              by blast
            from frame_fields [OF movePiece_empires_frame [OF r1(1)]]
            show ?thesis using e r1(2) tn by simp
          next
            assume c: "gameState r' = (gameState r)\<lparr>selectedCell := None\<rparr>"
            from cursor_frame [OF c] show ?thesis using e c by simp
          qed
        next
          case (Some t)
          have "gameState r' = (gameState r)\<lparr>hasAttacked := True, selectedCell := None\<rparr>
                \<or> gameState r' = (gameState r)\<lparr>selectedCell := None\<rparr>"
            using h unfolding handleSelectCell_empires_def Let_def
            by (auto simp add: active S bindE_def cs ct ne sp Some room_simps
                attackPiece_empires_after_end [OF e]
                split: if_splits sum.splits)
          then show ?thesis
          proof
            assume g: "gameState r' = (gameState r)\<lparr>hasAttacked := True, selectedCell := None\<rparr>"
            then have "\<exists>h c. gameState r' = (gameState r)\<lparr>hasAttacked := h, selectedCell := c\<rparr>"
              by blast
            then show ?thesis using e g by simp
          next
            assume c: "gameState r' = (gameState r)\<lparr>selectedCell := None\<rparr>"
            from cursor_frame [OF c] show ?thesis using e c by simp
          qed
        qed
      qed
    qed
  qed
qed

lemma handlePlacePiece_empires_battle:
  "gamePhase (gameState r) = Battle \<Longrightarrow> handlePlacePiece_empires seat row col r = Inr r"
  by (simp add: handlePlacePiece_empires_def Let_def)

lemma handleEndTurn_empires_battle:
  assumes "gamePhase (gameState r) = Battle" "handleEndTurn_empires seat r = Inr r'"
  shows "gamePhase (gameState r') = Battle
       \<and> gameEnded (gameState r') = gameEnded (gameState r)
       \<and> winner (gameState r') = winner (gameState r)"
  using assms
  by (auto simp: handleEndTurn_empires_def Let_def bindE_def neqCount_def room_simps
      split: if_splits)

lemma handleSelectPieceType_battle:
  "gamePhase (gameState r) = Battle \<Longrightarrow> handleSelectPieceType seat t r = r"
  by (simp add: handleSelectPieceType_def)

lemma gameAction_empires_ended_battle:
  assumes "gameEnded (gameState s)" "gamePhase (gameState s) = Battle"
    and "gameAction_empires sid act s = Inr s'"
  shows "gameEnded (gameState s') \<and> winner (gameState s') = winner (gameState s)
       \<and> gamePhase (gameState s') = Battle"
proof (cases "getPlayerBySocketId s sid")
  case None
  then show ?thesis using assms by (simp add: gameAction_empires_def)
next
  case (Some seat)
  show ?thesis
  proof (cases act)
    case (PlacePiece t row col)
    then show ?thesis
      using assms Some by (simp add: gameAction_empires_def handlePlacePiece_empires_battle)
  next
    case (SelectCell row col)
    then have "handleSelectCell_empires seat row col s = Inr s'"
      using assms(3) Some by (simp add: gameAction_empires_def)
    from handleSelectCell_empires_ended [OF assms(1) this] show ?thesis using assms(2) by simp
  next
    case EndTurn
    then have "handleEndTurn_empires seat s = Inr s'"
      using assms(3) Some by (simp add: gameAction_empires_def)
    from handleEndTurn_empires_battle [OF assms(2) this] show ?thesis using assms(1) by simp
  next
    case (ToggleOption opt)
    then show ?thesis
      using assms Some by (auto simp: gameAction_empires_def)
  next
    case (SelectPieceType t)
    then show ?thesis
      using assms Some by (auto simp: gameAction_empires_def handleSelectPieceType_battle)
  next
    case OtherAction
    then show ?thesis using assms Some by (auto simp: gameAction_empires_def)
  qed
qed

lemma run_empires_ended_battle:
  "gameEnded (gameState s) \<Longrightarrow> gamePhase (gameState s) = Battle \<Longrightarrow>
   run_empires (map (\<lambda>(sid, act). Act sid act) acts) s = Inr s' \<Longrightarrow>
   gameEnded (gameState s') \<and> winner (gameState s') = winner (gameState s)
   \<and> gamePhase (gameState s') = Battle"
proof (induction acts arbitrary: s)
  case Nil
  then show ?case by simp
next
  case (Cons a acts)
  obtain sid act where a: "a = (sid, act)" by (cases a)
  from Cons.prems(3) obtain s1 where s1: "gameAction_empires sid act s = Inr s1"
    "run_empires (map (\<lambda>(sid, act). Act sid act) acts) s1 = Inr s'"
    unfolding a by (auto simp: bindE_def split: sum.splits)
  from gameAction_empires_ended_battle [OF Cons.prems(1,2) s1(1)]
  have i: "gameEnded (gameState s1)" "winner (gameState s1) = winner (gameState s)"
    "gamePhase (gameState s1) = Battle" by auto
  from Cons.IH [OF i(1) i(3) s1(2)] show ?case using i(2) by simp
qed

lemma ended_place:
  "gamePhase (gameState s) = Battle \<Longrightarrow> gameAction sid (PlacePiece t row col) s = Inr s"
  by (simp add: gameAction_def handlePlacePiece_battle split: option.splits)

lemma ended_place_empires:
  "gamePhase (gameState s) = Battle \<Longrightarrow>
   gameAction_empires sid (PlacePiece t row col) s = Inr s"
  by (simp add: gameAction_empires_def handlePlacePiece_empires_battle split: option.splits)

lemma ended_attack_intent_empires:
  assumes "gameEnded (gameState s)" "board (gameState s) row col \<noteq> None"
    and "gameAction_empires sid (SelectCell row col) s = Inr s'"
  shows "\<exists>h c. gameState s' = (gameState s)\<lparr>hasAttacked := h, selectedCell := c\<rparr>"
proof (cases "getPlayerBySocketId s sid")
  case None
  then have "s' = s" using assms(3) by (simp add: gameAction_empires_def)
  then have "gameState s' = (gameState s)\<lparr>selectedCell := selectedCell (gameState s)\<rparr>"
    by simp
  then show ?thesis by (rule cursor_frame)
next
  case (Some seat)
  then have "handleSelectCell_empires seat row col s = Inr s'"
    using assms(3) by (simp add: gameAction_empires_def)
  from handleSelectCell_empires_ended [OF assms(1) this] assms(2) show ?thesis by blast
qed

lemma afterCleave_kill:
  "cleaveKillsGeneral att tr tc row col c \<Longrightarrow> afterCleave att tr tc row col c = None"
  by (auto simp: cleaveKillsGeneral_def afterCleave_def afterDamage_def split: option.splits)

lemma cleaveKillsGeneral_off_target:
  "cleaveKillsGeneral att tr tc row col c \<Longrightarrow> \<not> (row = tr \<and> col = tc)"
  by (auto simp: cleaveKillsGeneral_def cleaveHits_def)

lemma cleaveKillsGeneral_target_False:
  "cleaveKillsGeneral att tr tc tr tc c = False"
  by (auto simp: cleaveKillsGeneral_def cleaveHits_def)

lemma spartan_attack_outcome:
  assumes live: "\<not> gameEnded (gameState r)"
    and rows: "rowExists ar" "rowExists tr"
    and att: "board (gameState r) ar ac = Some att" "ptype att = HeavyInfantry"
      "nation att = Some Spartans"
    and tgt: "board (gameState r) tr tc = Some tgt" "distance ar ac tr tc = 1"
  defines "kU \<equiv> cleaveKillsGeneral att tr tc (ar - 1) ac (board (gameState r) (ar - 1) ac)"
    and "kD \<equiv> cleaveKillsGeneral att tr tc (ar + 1) ac (board (gameState r) (ar + 1) ac)"
    and "kL \<equiv> cleaveKillsGeneral att tr tc ar (ac - 1) (board (gameState r) ar (ac - 1))"
    and "kR \<equiv> cleaveKillsGeneral att tr tc ar (ac + 1) (board (gameState r) ar (ac + 1))"
  shows "\<exists>r'. attackPiece_empires ar ac tr tc r = Inr r'
    \<and> board (gameState r') tr tc = afterDamage tgt 1
    \<and> gamePhase (gameState r') = gamePhase (gameState r)
    \<and> ((ptype tgt = General \<and> health tgt - 1 \<le> 0) \<or> kU \<or> kD \<or> kL \<or> kR
        \<longrightarrow> gameEnded (gameState r') \<and> winner (gameState r') = Some (player att))
    \<and> (kU \<longrightarrow> board (gameState r') (ar - 1) ac = None)
    \<and> (\<not> kU \<and> kD \<longrightarrow> board (gameState r') (ar + 1) ac = None)
    \<and> (\<not> kU \<and> \<not> kD \<and> kL \<longrightarrow> board (gameState r') ar (ac - 1) = None)
    \<and> (\<not> kU \<and> \<not> kD \<and> \<not> kL \<and> kR \<longrightarrow> board (gameState r') ar (ac + 1) = None)"
proof -
  define b where "b = board (gameState r)"
  define target1 where "target1 = tgt\<lparr>health := health tgt - 1\<rparr>"
  define r2 where "r2 = withBoard (setCell b tr tc (Some target1)) r"
  have ne: "(ar = tr \<and> ac = tc) = False"
    using tgt(2) by (auto simp: distance_def)
  have b2: "\<And>row col. board (gameState r2) row col
              = (if row = tr \<and> col = tc then Some target1 else b row col)"
    by (simp add: r2_def withBoard_def setCell_def)
  have att2: "board (gameState r2) ar ac = Some att"
    using att(1) ne by (auto simp: b2 b_def)
  from handleSpartanCleave_total [OF rows(1) att2, of tr tc]
  obtain r3 where r3: "handleSpartanCleave ar ac tr tc r2 = Inr r3" by blast
  note c = handleSpartanCleave_cells [OF rows(1) att2 r3]
  have p3: "gamePhase (gameState r3) = gamePhase (gameState r)"
    using handleSpartanCleave_phase [OF r3] by (simp add: r2_def withBoard_def)
  have same1: "setCell b ar ac (Some att) = b"
    using att(1) by (auto simp: setCell_def b_def fun_eq_iff)
  define fin where "fin = (if health target1 \<le> 0 then
       (let r4 = withBoard (setCell (board (gameState r3)) tr tc None) r3 in
        if ptype tgt = General then
          broadcastMessage (getPlayerName r4 (player att) @ '' wins! Enemy General defeated!'')
            Victory
            (r4\<lparr>gameState := (gameState r4)\<lparr>gameEnded := True, winner := Some (player att)\<rparr>\<rparr>)
        else r4)
     else r3)"
  have ap: "attackPiece_empires ar ac tr tc r = Inr fin"
    unfolding attackPiece_empires_def Let_def
    apply (simp add: live rows att tgt ne r3 [unfolded r2_def target1_def b_def] bindE_def
        cellAt_def shouldConsumeAmmo_def same1 [unfolded b_def] split del: if_split)
    apply (simp add: fin_def target1_def Let_def)
    done
  have t3: "board (gameState r3) tr tc = Some target1"
  proof -
    have "(tr = ar - 1 \<and> tc = ac) \<or> (tr = ar + 1 \<and> tc = ac)
          \<or> (tr = ar \<and> tc = ac - 1) \<or> (tr = ar \<and> tc = ac + 1)"
      using tgt(2) unfolding distance_def by arith
    then consider "tr = ar - 1 \<and> tc = ac" | "tr = ar + 1 \<and> tc = ac"
      | "tr = ar \<and> tc = ac - 1" | "tr = ar \<and> tc = ac + 1"
      by blast
    then show ?thesis
    proof cases
      case 1 then show ?thesis using c(1) by (simp add: b2)
    next
      case 2 then show ?thesis using c(2) by (simp add: b2)
    next
      case 3 then show ?thesis using c(3) by (simp add: b2)
    next
      case 4 then show ?thesis using c(4) by (simp add: b2)
    qed
  qed
  have fb: "\<And>row col. \<not> (row = tr \<and> col = tc) \<Longrightarrow>
              board (gameState fin) row col = board (gameState r3) row col"
    by (auto simp: fin_def Let_def room_simps setCell_def)
  have k2: "\<And>row col. cleaveKillsGeneral att tr tc row col (board (gameState r2) row col)
                = cleaveKillsGeneral att tr tc row col (b row col)"
    unfolding b2 by (simp add: cleaveKillsGeneral_target_False)
  have kU: "kU = cleaveKillsGeneral att tr tc (ar - 1) ac (board (gameState r2) (ar - 1) ac)"
    and kD: "kD = cleaveKillsGeneral att tr tc (ar + 1) ac (board (gameState r2) (ar + 1) ac)"
    and kL: "kL = cleaveKillsGeneral att tr tc ar (ac - 1) (board (gameState r2) ar (ac - 1))"
    and kR: "kR = cleaveKillsGeneral att tr tc ar (ac + 1) (board (gameState r2) ar (ac + 1))"
    unfolding k2 by (simp_all add: kU_def kD_def kL_def kR_def b_def)
  have g1: "board (gameState fin) tr tc = afterDamage tgt 1"
    using t3
    by (auto simp: fin_def Let_def room_simps setCell_def afterDamage_def target1_def)
  have g2: "gamePhase (gameState fin) = gamePhase (gameState r)"
    using p3 by (auto simp: fin_def Let_def room_simps)
  have ef: "gameEnded (gameState r3) \<and> winner (gameState r3) = Some (player att) \<Longrightarrow>
            gameEnded (gameState fin) \<and> winner (gameState fin) = Some (player att)"
    by (auto simp: fin_def Let_def room_simps)
  have pk: "ptype tgt = General \<and> health tgt - 1 \<le> 0 \<Longrightarrow>
            gameEnded (gameState fin) \<and> winner (gameState fin) = Some (player att)"
    by (auto simp: fin_def Let_def room_simps target1_def)
  have ck: "kU \<or> kD \<or> kL \<or> kR \<Longrightarrow>
        gameEnded (gameState fin) \<and> winner (gameState fin) = Some (player att)"
    using c(6) ef unfolding kU kD kL kR by blast
  have cU: "kU \<Longrightarrow> board (gameState fin) (ar - 1) ac = None"
  proof -
    assume k: kU
    then have k': "cleaveKillsGeneral att tr tc (ar - 1) ac (board (gameState r2) (ar - 1) ac)"
      unfolding kU .
    from cleaveKillsGeneral_off_target [OF k'] fb
    have "board (gameState fin) (ar - 1) ac = board (gameState r3) (ar - 1) ac" by blast
    then show ?thesis using c(1) afterCleave_kill [OF k'] by simp
  qed
  have cD: "\<not> kU \<and> kD \<Longrightarrow> board (gameState fin) (ar + 1) ac = None"
  proof -
    assume k: "\<not> kU \<and> kD"
    then have k': "cleaveKillsGeneral att tr tc (ar + 1) ac (board (gameState r2) (ar + 1) ac)"
      and n: "\<not> cleaveKillsGeneral att tr tc (ar - 1) ac (board (gameState r2) (ar - 1) ac)"
      unfolding kU kD by blast+
    from cleaveKillsGeneral_off_target [OF k'] fb
    have "board (gameState fin) (ar + 1) ac = board (gameState r3) (ar + 1) ac" by blast
    then show ?thesis using c(2) n afterCleave_kill [OF k'] by simp
  qed
  have cL: "\<not> kU \<and> \<not> kD \<and> kL \<Longrightarrow> board (gameState fin) ar (ac - 1) = None"
  proof -
    assume k: "\<not> kU \<and> \<not> kD \<and> kL"
    then have k': "cleaveKillsGeneral att tr tc ar (ac - 1) (board (gameState r2) ar (ac - 1))"
      and n: "\<not> cleaveKillsGeneral att tr tc (ar - 1) ac (board (gameState r2) (ar - 1) ac)"
        "\<not> cleaveKillsGeneral att tr tc (ar + 1) ac (board (gameState r2) (ar + 1) ac)"
      unfolding kU kD kL by blast+
    from cleaveKillsGeneral_off_target [OF k'] fb
    have "board (gameState fin) ar (ac - 1) = board (gameState r3) ar (ac - 1)" by blast
    then show ?thesis using c(3) n afterCleave_kill [OF k'] by simp
  qed
  have cR: "\<not> kU \<and> \<not> kD \<and> \<not> kL \<and> kR \<Longrightarrow> board (gameState fin) ar (ac + 1) = None"
  proof -
    assume k: "\<not> kU \<and> \<not> kD \<and> \<not> kL \<and> kR"
    then have k': "cleaveKillsGeneral att tr tc ar (ac + 1) (board (gameState r2) ar (ac + 1))"
      and n: "\<not> cleaveKillsGeneral att tr tc (ar - 1) ac (board (gameState r2) (ar - 1) ac)"
        "\<not> cleaveKillsGeneral att tr tc (ar + 1) ac (board (gameState r2) (ar + 1) ac)"
        "\<not> cleaveKillsGeneral att tr tc ar (ac - 1) (board (gameState r2) ar (ac - 1))"
      unfolding kU kD kL kR by blast+
    from cleaveKillsGeneral_off_target [OF k'] fb
    have "board (gameState fin) ar (ac + 1) = board (gameState r3) ar (ac + 1)" by blast
    then show ?thesis using c(4) n afterCleave_kill [OF k'] by simp
  qed
  show ?thesis
    using ap g1 g2 pk ck cU cD cL cR by blast
qed

text \<open>
  Claim C1, as the code has it. An attack in a match that has not ended reduces the
  health of a General to 0 or less: by the direct or charge damage of \<^verbatim>\<open>attackPiece\<close>
  on the primary target (base server and Ancient Empires server), or by the cleave of
  a Spartan Heavy Infantry on a General adjacent to the attacker (the first one in the
  order up, down, left, right). In that same step the General leaves its cell,
  \<open>gameEnded\<close> becomes true and \<open>winner\<close> is the seat number of the attacking piece;
  the phase is left as it is (the code has no phase \<open>ended\<close>), and \<^verbatim>\<open>attackPiece\<close>
  returns at once from then on. After that, on both servers, in every state \<open>s'\<close> that a
  run of \<^verbatim>\<open>gameAction\<close> messages reaches from an ended match in the battle phase: the
  match is still ended, with the same winner, in the battle phase; every \<^verbatim>\<open>placePiece\<close>
  intent is rejected and changes nothing; and every attack intent (a \<^verbatim>\<open>selectCell\<close>
  on an occupied cell) deals no damage: of the game state it changes at most the flag
  \<open>hasAttacked\<close> and the cursor \<open>selectedCell\<close>.
\<close>

theorem general_defeat_ends_match:
  assumes live: "\<not> gameEnded (gameState r)"
    and rows: "rowExists ar" "rowExists tr"
    and att: "board (gameState r) ar ac = Some att"
    and tgt: "board (gameState r) tr tc = Some tgt"
    and ne: "\<not> (ar = tr \<and> ac = tc)"
  defines "kU \<equiv> cleaveKillsGeneral att tr tc (ar - 1) ac (board (gameState r) (ar - 1) ac)"
    and "kD \<equiv> cleaveKillsGeneral att tr tc (ar + 1) ac (board (gameState r) (ar + 1) ac)"
    and "kL \<equiv> cleaveKillsGeneral att tr tc ar (ac - 1) (board (gameState r) ar (ac - 1))"
    and "kR \<equiv> cleaveKillsGeneral att tr tc ar (ac + 1) (board (gameState r) ar (ac + 1))"
  shows "(ptype tgt = General \<and> health tgt - attackDamage att ar ac tr tc tgt \<le> 0 \<longrightarrow>
           (\<exists>r'. attackPiece ar ac tr tc r = Inr r'
              \<and> board (gameState r') tr tc = None
              \<and> gameEnded (gameState r') \<and> winner (gameState r') = Some (player att)
              \<and> gamePhase (gameState r') = gamePhase (gameState r)
              \<and> attackPiece ar' ac' tr' tc' r' = Inr r'))
       \<and> (ptype tgt = General \<and> health tgt - attackDamage_empires att ar ac tr tc tgt \<le> 0
            \<and> (ptype att = HeavyInfantry \<and> nation att = Some Spartans \<longrightarrow>
                  distance ar ac tr tc = 1) \<longrightarrow>
           (\<exists>r'. attackPiece_empires ar ac tr tc r = Inr r'
              \<and> board (gameState r') tr tc = None
              \<and> gameEnded (gameState r') \<and> winner (gameState r') = Some (player att)
              \<and> gamePhase (gameState r') = gamePhase (gameState r)
              \<and> attackPiece_empires ar' ac' tr' tc' r' = Inr r'))
       \<and> (ptype att = HeavyInfantry \<and> nation att = Some Spartans \<and> distance ar ac tr tc = 1
            \<and> (kU \<or> kD \<or> kL \<or> kR) \<longrightarrow>
           (\<exists>r'. attackPiece_empires ar ac tr tc r = Inr r'
              \<and> (kU \<longrightarrow> board (gameState r') (ar - 1) ac = None)
              \<and> (\<not> kU \<and> kD \<longrightarrow> board (gameState r') (ar + 1) ac = None)
              \<and> (\<not> kU \<and> \<not> kD \<and> kL \<longrightarrow> board (gameState r') ar (ac - 1) = None)
              \<and> (\<not> kU \<and> \<not> kD \<and> \<not> kL \<and> kR \<longrightarrow> board (gameState r') ar (ac + 1) = None)
              \<and> gameEnded (gameState r') \<and> winner (gameState r') = Some (player att)
              \<and> gamePhase (gameState r') = gamePhase (gameState r)
              \<and> attackPiece_empires ar' ac' tr' tc' r' = Inr r'))
       \<and> (gameEnded (gameState s) \<and> gamePhase (gameState s) = Battle
            \<and> run acts s = Inr s' \<longrightarrow>
           gameEnded (gameState s') \<and> winner (gameState s') = winner (gameState s)
           \<and> gamePhase (gameState s') = Battle
           \<and> gameAction sid (PlacePiece t row col) s' = Inr s'
           \<and> (board (gameState s') row col \<noteq> None
                \<and> gameAction sid (SelectCell row col) s' = Inr s'' \<longrightarrow>
              (\<exists>h c. gameState s'' = (gameState s')\<lparr>hasAttacked := h, selectedCell := c\<rparr>)))
       \<and> (gameEnded (gameState s) \<and> gamePhase (gameState s) = Battle
            \<and> run_empires (map (\<lambda>(sid, act). Act sid act) acts) s = Inr s' \<longrightarrow>
           gameEnded (gameState s') \<and> winner (gameState s') = winner (gameState s)
           \<and> gamePhase (gameState s') = Battle
           \<and> gameAction_empires sid (PlacePiece t row col) s' = Inr s'
           \<and> (board (gameState s') row col \<noteq> None
                \<and> gameAction_empires sid (SelectCell row col) s' = Inr s'' \<longrightarrow>
              (\<exists>h c. gameState s'' = (gameState s')\<lparr>hasAttacked := h, selectedCell := c\<rparr>)))"
proof (intro conjI impI)
  assume k: "ptype tgt = General \<and> health tgt - attackDamage att ar ac tr tc tgt \<le> 0"
  from attackPiece_outcome [OF live rows att tgt ne]
  obtain r' where r: "attackPiece ar ac tr tc r = Inr r'"
    "board (gameState r') tr tc = afterDamage tgt (attackDamage att ar ac tr tc tgt)"
    "gamePhase (gameState r') = gamePhase (gameState r)"
    "gameEnded (gameState r') \<and> winner (gameState r') = Some (player att)"
    using k by blast
  have "board (gameState r') tr tc = None"
    using r(2) k by (simp add: afterDamage_def)
  then show "\<exists>r'. attackPiece ar ac tr tc r = Inr r'
              \<and> board (gameState r') tr tc = None
              \<and> gameEnded (gameState r') \<and> winner (gameState r') = Some (player att)
              \<and> gamePhase (gameState r') = gamePhase (gameState r)
              \<and> attackPiece ar' ac' tr' tc' r' = Inr r'"
    using r attackPiece_after_end [of r'] by blast
next
  assume k: "ptype tgt = General \<and> health tgt - attackDamage_empires att ar ac tr tc tgt \<le> 0
            \<and> (ptype att = HeavyInfantry \<and> nation att = Some Spartans \<longrightarrow>
                  distance ar ac tr tc = 1)"
  have "\<exists>r'. attackPiece_empires ar ac tr tc r = Inr r'
        \<and> board (gameState r') tr tc = afterDamage tgt (attackDamage_empires att ar ac tr tc tgt)
        \<and> gamePhase (gameState r') = gamePhase (gameState r)
        \<and> gameEnded (gameState r') \<and> winner (gameState r') = Some (player att)"
  proof (cases "ptype att = HeavyInfantry \<and> nation att = Some Spartans")
    case False
    from attackPiece_empires_outcome [OF live rows att tgt ne False] k
    show ?thesis by blast
  next
    case True
    then have d: "distance ar ac tr tc = 1" and a: "ptype att = HeavyInfantry"
      "nation att = Some Spartans" using k by blast+
    have dmg: "attackDamage_empires att ar ac tr tc tgt = 1"
      using True by (simp add: attackDamage_empires_def)
    from spartan_attack_outcome [OF live rows att a tgt d]
    obtain r' where "attackPiece_empires ar ac tr tc r = Inr r'"
      "board (gameState r') tr tc = afterDamage tgt 1"
      "gamePhase (gameState r') = gamePhase (gameState r)"
      "ptype tgt = General \<and> health tgt - 1 \<le> 0 \<longrightarrow>
         gameEnded (gameState r') \<and> winner (gameState r') = Some (player att)"
      by blast
    then show ?thesis using k dmg by auto
  qed
  then obtain r' where r: "attackPiece_empires ar ac tr tc r = Inr r'"
    "board (gameState r') tr tc = afterDamage tgt (attackDamage_empires att ar ac tr tc tgt)"
    "gamePhase (gameState r') = gamePhase (gameState r)"
    "gameEnded (gameState r') \<and> winner (gameState r') = Some (player att)"
    by blast
  have "board (gameState r') tr tc = None"
    using r(2) k by (simp add: afterDamage_def)
  then show "\<exists>r'. attackPiece_empires ar ac tr tc r = Inr r'
              \<and> board (gameState r') tr tc = None
              \<and> gameEnded (gameState r') \<and> winner (gameState r') = Some (player att)
              \<and> gamePhase (gameState r') = gamePhase (gameState r)
              \<and> attackPiece_empires ar' ac' tr' tc' r' = Inr r'"
    using r attackPiece_empires_after_end [of r'] by blast
next
  assume k: "ptype att = HeavyInfantry \<and> nation att = Some Spartans \<and> distance ar ac tr tc = 1
            \<and> (kU \<or> kD \<or> kL \<or> kR)"
  then have a: "ptype att = HeavyInfantry" "nation att = Some Spartans"
    and d: "distance ar ac tr tc = 1" and ks: "kU \<or> kD \<or> kL \<or> kR" by blast+
  from spartan_attack_outcome [OF live rows att a tgt d]
  obtain r' where r: "attackPiece_empires ar ac tr tc r = Inr r'"
    "gamePhase (gameState r') = gamePhase (gameState r)"
    "kU \<or> kD \<or> kL \<or> kR \<longrightarrow>
       gameEnded (gameState r') \<and> winner (gameState r') = Some (player att)"
    "kU \<longrightarrow> board (gameState r') (ar - 1) ac = None"
    "\<not> kU \<and> kD \<longrightarrow> board (gameState r') (ar + 1) ac = None"
    "\<not> kU \<and> \<not> kD \<and> kL \<longrightarrow> board (gameState r') ar (ac - 1) = None"
    "\<not> kU \<and> \<not> kD \<and> \<not> kL \<and> kR \<longrightarrow> board (gameState r') ar (ac + 1) = None"
    unfolding kU_def kD_def kL_def kR_def by blast
  have e: "gameEnded (gameState r')" "winner (gameState r') = Some (player att)"
    using r(3) ks by blast+
  show "\<exists>r'. attackPiece_empires ar ac tr tc r = Inr r'
              \<and> (kU \<longrightarrow> board (gameState r') (ar - 1) ac = None)
              \<and> (\<not> kU \<and> kD \<longrightarrow> board (gameState r') (ar + 1) ac = None)
              \<and> (\<not> kU \<and> \<not> kD \<and> kL \<longrightarrow> board (gameState r') ar (ac - 1) = None)
              \<and> (\<not> kU \<and> \<not> kD \<and> \<not> kL \<and> kR \<longrightarrow> board (gameState r') ar (ac + 1) = None)
              \<and> gameEnded (gameState r') \<and> winner (gameState r') = Some (player att)
              \<and> gamePhase (gameState r') = gamePhase (gameState r)
              \<and> attackPiece_empires ar' ac' tr' tc' r' = Inr r'"
    using r(1,2,4,5,6,7) e attackPiece_empires_after_end [OF e(1), of ar' ac' tr' tc']
    by blast
next
  assume h: "gameEnded (gameState s) \<and> gamePhase (gameState s) = Battle \<and> run acts s = Inr s'"
  from run_ended_battle [of s acts s'] h
  show "gameEnded (gameState s')" "winner (gameState s') = winner (gameState s)"
    "gamePhase (gameState s') = Battle" by blast+
  then show "gameAction sid (PlacePiece t row col) s' = Inr s'" by (simp add: ended_place)
next
  assume h: "gameEnded (gameState s) \<and> gamePhase (gameState s) = Battle \<and> run acts s = Inr s'"
    and i: "board (gameState s') row col \<noteq> None
            \<and> gameAction sid (SelectCell row col) s' = Inr s''"
  from run_ended_battle [of s acts s'] h have "gameEnded (gameState s')" by blast
  from ended_attack_intent [OF this] i
  show "\<exists>h c. gameState s'' = (gameState s')\<lparr>hasAttacked := h, selectedCell := c\<rparr>" by blast
next
  assume h: "gameEnded (gameState s) \<and> gamePhase (gameState s) = Battle
             \<and> run_empires (map (\<lambda>(sid, act). Act sid act) acts) s = Inr s'"
  from run_empires_ended_battle [of s acts s'] h
  show "gameEnded (gameState s')" "winner (gameState s') = winner (gameState s)"
    "gamePhase (gameState s') = Battle" by blast+
  then show "gameAction_empires sid (PlacePiece t row col) s' = Inr s'"
    by (simp add: ended_place_empires)
next
  assume h: "gameEnded (gameState s) \<and> gamePhase (gameState s) = Battle
             \<and> run_empires (map (\<lambda>(sid, act). Act sid act) acts) s = Inr s'"
    and i: "board (gameState s') row col \<noteq> None
            \<and> gameAction_empires sid (SelectCell row col) s' = Inr s''"
  from run_empires_ended_battle [of s acts s'] h have "gameEnded (gameState s')" by blast
  from ended_attack_intent_empires [OF this] i
  show "\<exists>h c. gameState s'' = (gameState s')\<lparr>hasAttacked := h, selectedCell := c\<rparr>" by blast
qed

lemma bindE_Inr: "bindE m Inr = m"
  by (cases m) (simp_all add: bindE_def)

lemma run_append: "run (xs @ ys) r = bindE (run xs r) (run ys)"
  by (induction xs arbitrary: r) (auto simp: bindE_def split: sum.splits)

lemma run_empires_append:
  "run_empires (xs @ ys) r = bindE (run_empires xs r) (run_empires ys)"
  by (induction xs arbitrary: r) (auto simp: bindE_def split: sum.splits)

lemma duelRoom_kill:
  "\<exists>s. run [(''a'', SelectCell 2 3)] duelRoom = Inr s
     \<and> gameEnded (gameState s) \<and> winner (gameState s) = Some 1
     \<and> gamePhase (gameState s) = Battle \<and> board (gameState s) 2 3 = None"
  by (simp add: duelRoom_def base_eval lightInfantry1_def lightInfantry2_def woundedGeneral_def)

lemma duelRoom_later:
  "\<exists>s'. run [(''a'', SelectCell 2 3), (''a'', EndTurn), (''b'', SelectCell 3 3),
             (''b'', SelectCell 2 3), (''b'', SelectCell 2 3)] duelRoom = Inr s'
     \<and> board (gameState s') 2 2 = Some lightInfantry1
     \<and> board (gameState s') 2 3 = Some lightInfantry2
     \<and> selectedCell (gameState s') = Some (2, 3)
     \<and> hasMoved (gameState s') \<and> \<not> hasAttacked (gameState s')
     \<and> currentPlayer (gameState s') = 2"
  by (simp add: duelRoom_def base_eval lightInfantry1_def lightInfantry2_def woundedGeneral_def)

lemma duelRoom_attack:
  "\<exists>s''. run [(''a'', SelectCell 2 3), (''a'', EndTurn), (''b'', SelectCell 3 3),
             (''b'', SelectCell 2 3), (''b'', SelectCell 2 3), (''b'', SelectCell 2 2)] duelRoom
            = Inr s''
     \<and> hasAttacked (gameState s'')"
  by (simp add: duelRoom_def base_eval lightInfantry1_def lightInfantry2_def woundedGeneral_def)

lemmas cleaveRoom_eval =
  cleaveRoom_def empires_eval handleSelectCell_empires_def canAttack_empires_def
  canMove_empires_def attackPiece_empires_def handleSpartanCleave_def directions_def
  shouldConsumeAmmo_def distance_def spartanHeavy1_def englishInfantry2_def
  woundedGeneral2_def seatA_def seatB_def

lemma cleaveRoom_kill:
  "\<exists>s. run_empires [Act ''a'' (SelectCell 3 4)] cleaveRoom = Inr s
     \<and> gameEnded (gameState s) \<and> winner (gameState s) = Some 1
     \<and> gamePhase (gameState s) = Battle \<and> board (gameState s) 2 3 = None"
  by (simp add: cleaveRoom_eval)

lemma cleaveRoom_later:
  "\<exists>s'. run_empires [Act ''a'' (SelectCell 3 4), Act ''a'' EndTurn, Act ''b'' (SelectCell 4 3)]
            cleaveRoom = Inr s'
     \<and> board (gameState s') 3 3 = Some spartanHeavy1
     \<and> board (gameState s') 4 3 = Some englishInfantry2
     \<and> selectedCell (gameState s') = Some (4, 3)
     \<and> \<not> hasAttacked (gameState s') \<and> currentPlayer (gameState s') = 2"
  by (simp add: cleaveRoom_eval)

lemma cleaveRoom_attack:
  "\<exists>s''. run_empires [Act ''a'' (SelectCell 3 4), Act ''a'' EndTurn, Act ''b'' (SelectCell 4 3),
                       Act ''b'' (SelectCell 3 3)] cleaveRoom = Inr s''
     \<and> hasAttacked (gameState s'')"
  by (simp add: cleaveRoom_eval)

theorem general_defeat_ends_match_witness:
  "\<not> gameEnded (gameState generalRoom)
   \<and> board (gameState generalRoom) 2 2 = Some lightInfantry1
   \<and> board (gameState generalRoom) 2 3 = Some woundedGeneral
   \<and> ptype woundedGeneral = General
   \<and> health woundedGeneral - attackDamage lightInfantry1 2 2 2 3 woundedGeneral \<le> 0
   \<and> (\<exists>r'. attackPiece 2 2 2 3 generalRoom = Inr r'
         \<and> board (gameState r') 2 3 = None
         \<and> gameEnded (gameState r') \<and> winner (gameState r') = Some 1
         \<and> gamePhase (gameState r') = Battle
         \<and> attackPiece 2 2 5 5 r' = Inr r')
   \<and> \<not> gameEnded (gameState cleaveRoom)
   \<and> board (gameState cleaveRoom) 3 3 = Some spartanHeavy1
   \<and> board (gameState cleaveRoom) 3 4 = Some englishInfantry2
   \<and> cleaveKillsGeneral spartanHeavy1 3 4 2 3 (board (gameState cleaveRoom) 2 3)
   \<and> (\<exists>r'. attackPiece_empires 3 3 3 4 cleaveRoom = Inr r'
         \<and> board (gameState r') 2 3 = None
         \<and> gameEnded (gameState r') \<and> winner (gameState r') = Some 1
         \<and> gamePhase (gameState r') = Battle
         \<and> attackPiece_empires 3 3 4 3 r' = Inr r')
   \<and> (\<exists>s s' s''. run [(''a'', SelectCell 2 3)] duelRoom = Inr s
         \<and> gameEnded (gameState s) \<and> gamePhase (gameState s) = Battle
         \<and> run [(''a'', EndTurn), (''b'', SelectCell 3 3), (''b'', SelectCell 2 3),
                 (''b'', SelectCell 2 3)] s = Inr s'
         \<and> gameEnded (gameState s') \<and> winner (gameState s') = Some 1
         \<and> gamePhase (gameState s') = Battle
         \<and> gameAction ''b'' (PlacePiece LightInfantry 2 2) s' = Inr s'
         \<and> board (gameState s') 2 2 = Some lightInfantry1
         \<and> selectedCell (gameState s') = Some (2, 3)
         \<and> board (gameState s') 2 3 = Some lightInfantry2
         \<and> gameAction ''b'' (SelectCell 2 2) s' = Inr s''
         \<and> board (gameState s'') 2 2 = Some lightInfantry1
         \<and> hasAttacked (gameState s''))
   \<and> (\<exists>s s' s''. run_empires [Act ''a'' (SelectCell 3 4)] cleaveRoom = Inr s
         \<and> gameEnded (gameState s) \<and> gamePhase (gameState s) = Battle
         \<and> run_empires [Act ''a'' EndTurn, Act ''b'' (SelectCell 4 3)] s = Inr s'
         \<and> gameEnded (gameState s') \<and> winner (gameState s') = Some 1
         \<and> gamePhase (gameState s') = Battle
         \<and> gameAction_empires ''b'' (PlacePiece LightInfantry 3 3) s' = Inr s'
         \<and> board (gameState s') 3 3 = Some spartanHeavy1
         \<and> selectedCell (gameState s') = Some (4, 3)
         \<and> board (gameState s') 4 3 = Some englishInfantry2
         \<and> gameAction_empires ''b'' (SelectCell 3 3) s' = Inr s''
         \<and> board (gameState s'') 3 3 = Some spartanHeavy1
         \<and> hasAttacked (gameState s''))"
proof -
  have g: "\<not> gameEnded (gameState generalRoom)" "rowExists 2"
    "board (gameState generalRoom) 2 2 = Some lightInfantry1"
    "board (gameState generalRoom) 2 3 = Some woundedGeneral"
    "\<not> (2 = (2::int) \<and> 2 = (3::int))"
    "gamePhase (gameState generalRoom) = Battle"
    by (simp_all add: generalRoom_def initializeGameState_def rowExists_def setCell_def)
  have k: "ptype woundedGeneral = General"
    "health woundedGeneral - attackDamage lightInfantry1 2 2 2 3 woundedGeneral \<le> 0"
    "player lightInfantry1 = 1"
    by (simp_all add: woundedGeneral_def lightInfantry1_def attackDamage_def)
  note base1 = general_defeat_ends_match [where ar' = 2 and ac' = 2 and tr' = 5 and tc' = 5,
      OF g(1) g(2) g(2) g(3) g(4) g(5), THEN conjunct1]
  from base1 k g(6)
  have 1: "\<exists>r'. attackPiece 2 2 2 3 generalRoom = Inr r'
         \<and> board (gameState r') 2 3 = None
         \<and> gameEnded (gameState r') \<and> winner (gameState r') = Some 1
         \<and> gamePhase (gameState r') = Battle
         \<and> attackPiece 2 2 5 5 r' = Inr r'"
    by simp
  note f = cleaveRoom_facts
  have ne: "\<not> (3 = (3::int) \<and> 3 = (4::int))" by simp
  have ck: "cleaveKillsGeneral spartanHeavy1 3 4 2 3 (board (gameState cleaveRoom) 2 3)"
    by (simp add: f(8) cleaveKillsGeneral_def cleaveHits_def onBoard_empires_def
        woundedGeneral2_def spartanHeavy1_def)
  have ph: "gamePhase (gameState cleaveRoom) = Battle" "player spartanHeavy1 = 1"
    by (simp_all add: cleaveRoom_def spartanHeavy1_def)
  note emp3 = general_defeat_ends_match [where ar' = 3 and ac' = 3 and tr' = 4 and tc' = 3,
      OF f(1) f(2) f(2) f(3) f(6) ne, THEN conjunct2, THEN conjunct2, THEN conjunct1]
  from emp3 f(4,5,7) ck ph
  have 2: "\<exists>r'. attackPiece_empires 3 3 3 4 cleaveRoom = Inr r'
         \<and> board (gameState r') 2 3 = None
         \<and> gameEnded (gameState r') \<and> winner (gameState r') = Some 1
         \<and> gamePhase (gameState r') = Battle
         \<and> attackPiece_empires 3 3 4 3 r' = Inr r'"
    by simp
  have 3: "\<exists>s s' s''. run [(''a'', SelectCell 2 3)] duelRoom = Inr s
         \<and> gameEnded (gameState s) \<and> gamePhase (gameState s) = Battle
         \<and> run [(''a'', EndTurn), (''b'', SelectCell 3 3), (''b'', SelectCell 2 3),
                 (''b'', SelectCell 2 3)] s = Inr s'
         \<and> gameEnded (gameState s') \<and> winner (gameState s') = Some 1
         \<and> gamePhase (gameState s') = Battle
         \<and> gameAction ''b'' (PlacePiece LightInfantry 2 2) s' = Inr s'
         \<and> board (gameState s') 2 2 = Some lightInfantry1
         \<and> selectedCell (gameState s') = Some (2, 3)
         \<and> board (gameState s') 2 3 = Some lightInfantry2
         \<and> gameAction ''b'' (SelectCell 2 2) s' = Inr s''
         \<and> board (gameState s'') 2 2 = Some lightInfantry1
         \<and> hasAttacked (gameState s'')"
  proof -
    from duelRoom_kill obtain s where s: "run [(''a'', SelectCell 2 3)] duelRoom = Inr s"
      "gameEnded (gameState s)" "winner (gameState s) = Some 1"
      "gamePhase (gameState s) = Battle" by blast
    from duelRoom_later obtain s' where s': 
      "run [(''a'', SelectCell 2 3), (''a'', EndTurn), (''b'', SelectCell 3 3),
            (''b'', SelectCell 2 3), (''b'', SelectCell 2 3)] duelRoom = Inr s'"
      "board (gameState s') 2 2 = Some lightInfantry1"
      "board (gameState s') 2 3 = Some lightInfantry2"
      "selectedCell (gameState s') = Some (2, 3)" by blast
    from duelRoom_attack obtain s'' where s'':
      "run [(''a'', SelectCell 2 3), (''a'', EndTurn), (''b'', SelectCell 3 3),
            (''b'', SelectCell 2 3), (''b'', SelectCell 2 3), (''b'', SelectCell 2 2)] duelRoom
         = Inr s''"
      "hasAttacked (gameState s'')" by blast
    have r1: "run [(''a'', EndTurn), (''b'', SelectCell 3 3), (''b'', SelectCell 2 3),
                   (''b'', SelectCell 2 3)] s = Inr s'"
      using run_append [of "[(''a'', SelectCell 2 3)]"
          "[(''a'', EndTurn), (''b'', SelectCell 3 3), (''b'', SelectCell 2 3),
            (''b'', SelectCell 2 3)]" duelRoom]
      unfolding s(1) using s'(1) by (simp add: bindE_def)
    have r2: "gameAction ''b'' (SelectCell 2 2) s' = Inr s''"
      using run_append [of "[(''a'', SelectCell 2 3), (''a'', EndTurn), (''b'', SelectCell 3 3),
            (''b'', SelectCell 2 3), (''b'', SelectCell 2 3)]" "[(''b'', SelectCell 2 2)]" duelRoom]
      unfolding s'(1) using s''(1) by (simp add: bindE_def split: sum.splits)
    have occ: "board (gameState s') 2 2 \<noteq> None" using s'(2) by simp
    from general_defeat_ends_match [where s = s and s' = s' and s'' = s'' and sid = "''b''"
        and t = LightInfantry and row = 2 and col = 2
        and acts = "[(''a'', EndTurn), (''b'', SelectCell 3 3), (''b'', SelectCell 2 3),
                     (''b'', SelectCell 2 3)]",
        OF g(1) g(2) g(2) g(3) g(4) g(5),
        THEN conjunct2, THEN conjunct2, THEN conjunct2, THEN conjunct1]
      s(2,4) r1 r2 occ
    have d: "gameEnded (gameState s')" "winner (gameState s') = winner (gameState s)"
      "gamePhase (gameState s') = Battle"
      "gameAction ''b'' (PlacePiece LightInfantry 2 2) s' = Inr s'"
      "\<exists>h c. gameState s'' = (gameState s')\<lparr>hasAttacked := h, selectedCell := c\<rparr>"
      by blast+
    from d(5) have "board (gameState s'') 2 2 = board (gameState s') 2 2" by auto
    then show ?thesis
      using s s' s''(2) r1 r2 d(1,2,3,4) by auto
  qed
  have 4: "\<exists>s s' s''. run_empires [Act ''a'' (SelectCell 3 4)] cleaveRoom = Inr s
         \<and> gameEnded (gameState s) \<and> gamePhase (gameState s) = Battle
         \<and> run_empires [Act ''a'' EndTurn, Act ''b'' (SelectCell 4 3)] s = Inr s'
         \<and> gameEnded (gameState s') \<and> winner (gameState s') = Some 1
         \<and> gamePhase (gameState s') = Battle
         \<and> gameAction_empires ''b'' (PlacePiece LightInfantry 3 3) s' = Inr s'
         \<and> board (gameState s') 3 3 = Some spartanHeavy1
         \<and> selectedCell (gameState s') = Some (4, 3)
         \<and> board (gameState s') 4 3 = Some englishInfantry2
         \<and> gameAction_empires ''b'' (SelectCell 3 3) s' = Inr s''
         \<and> board (gameState s'') 3 3 = Some spartanHeavy1
         \<and> hasAttacked (gameState s'')"
  proof -
    from cleaveRoom_kill obtain s where
      s: "run_empires [Act ''a'' (SelectCell 3 4)] cleaveRoom = Inr s"
      "gameEnded (gameState s)" "winner (gameState s) = Some 1"
      "gamePhase (gameState s) = Battle" by blast
    from cleaveRoom_later obtain s' where s':
      "run_empires [Act ''a'' (SelectCell 3 4), Act ''a'' EndTurn, Act ''b'' (SelectCell 4 3)]
         cleaveRoom = Inr s'"
      "board (gameState s') 3 3 = Some spartanHeavy1"
      "board (gameState s') 4 3 = Some englishInfantry2"
      "selectedCell (gameState s') = Some (4, 3)" by blast
    from cleaveRoom_attack obtain s'' where s'':
      "run_empires [Act ''a'' (SelectCell 3 4), Act ''a'' EndTurn, Act ''b'' (SelectCell 4 3),
                    Act ''b'' (SelectCell 3 3)] cleaveRoom = Inr s''"
      "hasAttacked (gameState s'')" by blast
    have r1: "run_empires [Act ''a'' EndTurn, Act ''b'' (SelectCell 4 3)] s = Inr s'"
      using run_empires_append [of "[Act ''a'' (SelectCell 3 4)]"
          "[Act ''a'' EndTurn, Act ''b'' (SelectCell 4 3)]" cleaveRoom]
      unfolding s(1) using s'(1) by (simp add: bindE_def)
    have r2: "gameAction_empires ''b'' (SelectCell 3 3) s' = Inr s''"
      using run_empires_append [of "[Act ''a'' (SelectCell 3 4), Act ''a'' EndTurn,
            Act ''b'' (SelectCell 4 3)]" "[Act ''b'' (SelectCell 3 3)]" cleaveRoom]
      unfolding s'(1) using s''(1) by (simp add: bindE_def split: sum.splits)
    have r1': "run_empires (map (\<lambda>(sid, act). Act sid act)
                 [(''a'', EndTurn), (''b'', SelectCell 4 3)]) s = Inr s'"
      using r1 by simp
    have occ: "board (gameState s') 3 3 \<noteq> None" using s'(2) by simp
    from general_defeat_ends_match [where s = s and s' = s' and s'' = s'' and sid = "''b''"
        and t = LightInfantry and row = 3 and col = 3
        and acts = "[(''a'', EndTurn), (''b'', SelectCell 4 3)]",
        OF f(1) f(2) f(2) f(3) f(6) ne,
        THEN conjunct2, THEN conjunct2, THEN conjunct2, THEN conjunct2]
      s(2,4) r1' r2 occ
    have d: "gameEnded (gameState s')" "winner (gameState s') = winner (gameState s)"
      "gamePhase (gameState s') = Battle"
      "gameAction_empires ''b'' (PlacePiece LightInfantry 3 3) s' = Inr s'"
      "\<exists>h c. gameState s'' = (gameState s')\<lparr>hasAttacked := h, selectedCell := c\<rparr>"
      by blast+
    from d(5) have "board (gameState s'') 3 3 = board (gameState s') 3 3" by auto
    then show ?thesis
      using s s' s''(2) r1 r2 d(1,2,3,4) by auto
  qed
  show ?thesis
    using g(1,3,4) k(1,2) 1 f(1,3,6) ck 2 3 4 by blast
qed

end
